theory Spec2Isabelle
  imports Main "HOL-Library.Word"
begin

section \<open>Metadata of the type-descriptor provider\<close>

text \<open>
  The marshaling engine of \<^verbatim>\<open>gi/function.c\<close> reads every function signature from
  GObject-Introspection metadata. The enumerations and accessors of that library are
  declared in headers outside the repository; the records below hold, per descriptor,
  exactly the values the accessors called in \<^verbatim>\<open>function.c\<close> return
  (\<^verbatim>\<open>g_arg_info_get_direction\<close>, \<^verbatim>\<open>g_type_info_get_array_length\<close>, ...).
\<close>

datatype ParamType = PARAM_NORMAL | PARAM_SKIPPED | PARAM_ARRAY | PARAM_CALLBACK

datatype GIDirection = GI_DIRECTION_IN | GI_DIRECTION_OUT | GI_DIRECTION_INOUT

datatype GIScopeType =
  GI_SCOPE_TYPE_INVALID | GI_SCOPE_TYPE_CALL | GI_SCOPE_TYPE_ASYNC | GI_SCOPE_TYPE_NOTIFIED

datatype GITransfer = GI_TRANSFER_NOTHING | GI_TRANSFER_CONTAINER | GI_TRANSFER_EVERYTHING

datatype GITypeTag =
  GI_TYPE_TAG_VOID | GI_TYPE_TAG_BOOLEAN
  | GI_TYPE_TAG_INT8 | GI_TYPE_TAG_UINT8 | GI_TYPE_TAG_INT16 | GI_TYPE_TAG_UINT16
  | GI_TYPE_TAG_INT32 | GI_TYPE_TAG_UINT32 | GI_TYPE_TAG_INT64 | GI_TYPE_TAG_UINT64
  | GI_TYPE_TAG_FLOAT | GI_TYPE_TAG_DOUBLE | GI_TYPE_TAG_GTYPE | GI_TYPE_TAG_UTF8
  | GI_TYPE_TAG_FILENAME | GI_TYPE_TAG_ARRAY | GI_TYPE_TAG_INTERFACE | GI_TYPE_TAG_GLIST
  | GI_TYPE_TAG_GSLIST | GI_TYPE_TAG_GHASH | GI_TYPE_TAG_ERROR | GI_TYPE_TAG_UNICHAR

datatype GIArrayType =
  GI_ARRAY_TYPE_C | GI_ARRAY_TYPE_ARRAY | GI_ARRAY_TYPE_PTR_ARRAY | GI_ARRAY_TYPE_BYTE_ARRAY

datatype GIInfoType =
  GI_INFO_TYPE_INVALID | GI_INFO_TYPE_FUNCTION | GI_INFO_TYPE_CALLBACK | GI_INFO_TYPE_STRUCT
  | GI_INFO_TYPE_BOXED | GI_INFO_TYPE_ENUM | GI_INFO_TYPE_FLAGS | GI_INFO_TYPE_OBJECT
  | GI_INFO_TYPE_INTERFACE | GI_INFO_TYPE_UNION

text \<open>
  \<^verbatim>\<open>GIBaseInfo\<close> of an interface type: its kind, name and namespace, and the size
  \<^verbatim>\<open>g_struct_info_get_size\<close> / \<^verbatim>\<open>g_union_info_get_size\<close> report.
\<close>

record GIBaseInfo =
  bi_info_type :: GIInfoType
  bi_name :: string
  bi_namespace :: string
  bi_size :: nat

text \<open>
  \<^verbatim>\<open>g_type_info_get_array_length\<close> returns a \<^verbatim>\<open>gint\<close>, \<open>-1\<close> when the array has no
  length parameter.
\<close>

record GITypeInfo =
  ti_tag :: GITypeTag
  ti_array_type :: GIArrayType
  ti_array_length :: int
  ti_interface :: GIBaseInfo

text \<open>
  \<^verbatim>\<open>g_arg_info_get_destroy\<close> and \<^verbatim>\<open>g_arg_info_get_closure\<close> return a \<^verbatim>\<open>gint\<close>,
  \<open>-1\<close> when the callback has no such companion parameter.
\<close>

record GIArgInfo =
  ai_name :: string
  ai_direction :: GIDirection
  ai_type :: GITypeInfo
  ai_caller_allocates :: bool
  ai_may_be_null :: bool
  ai_scope :: GIScopeType
  ai_destroy :: int
  ai_closure :: int
  ai_ownership_transfer :: GITransfer

record GIFunctionInfo =
  fi_namespace :: string
  fi_name :: string
  fi_args :: "GIArgInfo list"
  fi_return_type :: GITypeInfo
  fi_caller_owns :: GITransfer
  fi_is_method :: bool
  fi_throws :: bool
  fi_container_type :: GIInfoType

section \<open>Errors surfaced through the exception channel\<close>

text \<open>
  Every \<^verbatim>\<open>gjs_throw\<close> of \<^verbatim>\<open>function.c\<close> is one constructor; the names follow the
  taxonomy of the specification. \<open>UnsupportedSignature\<close> carries the text of the message
  that distinguishes the descriptor errors. \<open>CollaboratorError\<close> stands for the exception
  a conversion or release helper of \<^verbatim>\<open>arg.c\<close> has set itself when it returns failure.
\<close>

datatype error =
  UnsupportedSignature string
  | ArityError nat nat
  | InvalidReceiverType
  | UnsupportedCallerAllocates GITypeTag
  | InvalidCallback string
  | CollaboratorError
  | NativeReportedError string

section \<open>The descriptor and its classifier\<close>

text \<open>
  \<^verbatim>\<open>guint8\<close> counters are 8-bit words: \<open>+\<close> and \<open>-\<close> wrap, comparisons are unsigned.
  The prepared invoker is kept abstract in the type parameter \<open>'inv\<close>.
\<close>

type_synonym guint8 = "8 word"

record 'inv Function =
  info :: GIFunctionInfo
  param_types :: "ParamType list"
  expected_js_argc :: guint8
  js_out_argc :: guint8
  invoker :: 'inv

text \<open>
  \<^verbatim>\<open>guint8 x = <gint expression>\<close>: the implicit conversion keeps the low eight bits.
\<close>

definition to_guint8 :: "int \<Rightarrow> guint8" where
  "to_guint8 v = word_of_int v"

text \<open>
  Lines 1139--1171: the parameter's type is an interface. A callback named
  \<^verbatim>\<open>DestroyNotify\<close> in namespace \<^verbatim>\<open>GLib\<close> is skipped; any other callback is marked
  \<open>PARAM_CALLBACK\<close>, counted, and its companions are marked skipped. \<^verbatim>\<open>destroy\<close> and
  \<^verbatim>\<open>closure\<close> are declared \<^verbatim>\<open>guint8\<close> in the source, so the comparisons
  \<^verbatim>\<open>destroy >= 0\<close> and \<^verbatim>\<open>closure < 0\<close> are comparisons of unsigned values.
\<close>

definition classify_interface ::
  "GIFunctionInfo \<Rightarrow> guint8 \<Rightarrow> nat \<Rightarrow> GIArgInfo \<Rightarrow> 'inv Function \<Rightarrow> error + 'inv Function" where
  "classify_interface finfo n_args i arg_info function =
     (let interface_info = ti_interface (ai_type arg_info) in
      if bi_info_type interface_info = GI_INFO_TYPE_CALLBACK then
        if bi_name interface_info = ''DestroyNotify'' \<and> bi_namespace interface_info = ''GLib'' then
          Inr (function\<lparr>param_types := (param_types function)[i := PARAM_SKIPPED]\<rparr>)
        else
          let pt1 = (param_types function)[i := PARAM_CALLBACK];
              argc1 = expected_js_argc function + 1;
              destroy = to_guint8 (ai_destroy arg_info);
              closure = to_guint8 (ai_closure arg_info);
              pt2 = (if 0 \<le> destroy \<and> destroy < n_args
                     then pt1[unat destroy := PARAM_SKIPPED] else pt1);
              pt3 = (if 0 \<le> closure \<and> closure < n_args
                     then pt2[unat closure := PARAM_SKIPPED] else pt2)
          in if 0 \<le> destroy \<and> closure < 0 then
               Inl (UnsupportedSignature ''has a GDestroyNotify but no user_data, not supported'')
             else Inr (function\<lparr>param_types := pt3, expected_js_argc := argc1\<rparr>)
      else Inr function)"

text \<open>
  Lines 1172--1198: the parameter's type is an array. Only a C array whose length
  parameter index (as a \<^verbatim>\<open>guint8\<close>) is below \<^verbatim>\<open>n_args\<close> is marked \<open>PARAM_ARRAY\<close>.
\<close>

definition classify_array ::
  "GIFunctionInfo \<Rightarrow> guint8 \<Rightarrow> nat \<Rightarrow> GIArgInfo \<Rightarrow> 'inv Function \<Rightarrow> error + 'inv Function" where
  "classify_array finfo n_args i arg_info function =
     (let type_info = ai_type arg_info; direction = ai_direction arg_info in
      if ti_array_type type_info = GI_ARRAY_TYPE_C then
        let array_length_pos = to_guint8 (ti_array_length type_info) in
        if 0 \<le> array_length_pos \<and> array_length_pos < n_args then
          let length_arg_info = fi_args finfo ! unat array_length_pos in
          if ai_direction length_arg_info \<noteq> direction then
            Inl (UnsupportedSignature
                   ''has an array with different-direction length arg, not supported'')
          else
            let pt1 = (param_types function)[unat array_length_pos := PARAM_SKIPPED];
                pt2 = pt1[i := PARAM_ARRAY]
            in if unat array_length_pos < i then
                 Inr (function\<lparr>param_types := pt2,
                        expected_js_argc := expected_js_argc function - 1,
                        js_out_argc :=
                          (if direction = GI_DIRECTION_OUT \<or> direction = GI_DIRECTION_INOUT
                           then js_out_argc function - 1 else js_out_argc function)\<rparr>)
               else Inr (function\<lparr>param_types := pt2\<rparr>)
        else Inr function
      else Inr function)"

text \<open>
  Lines 1200--1206: a parameter that ends the iteration as \<open>PARAM_NORMAL\<close> or
  \<open>PARAM_ARRAY\<close> is counted by direction.
\<close>

definition count_arg :: "GIDirection \<Rightarrow> nat \<Rightarrow> 'inv Function \<Rightarrow> 'inv Function" where
  "count_arg direction i function =
     (if param_types function ! i = PARAM_NORMAL \<or> param_types function ! i = PARAM_ARRAY then
        let f1 = (if direction = GI_DIRECTION_IN \<or> direction = GI_DIRECTION_INOUT
                  then function\<lparr>expected_js_argc := expected_js_argc function + 1\<rparr>
                  else function)
        in (if direction = GI_DIRECTION_OUT \<or> direction = GI_DIRECTION_INOUT
            then f1\<lparr>js_out_argc := js_out_argc f1 + 1\<rparr>
            else f1)
      else function)"

text \<open>One iteration of the loop at lines 1122--1207, for parameter \<open>i < n_args\<close>.\<close>

definition classify_arg ::
  "GIFunctionInfo \<Rightarrow> guint8 \<Rightarrow> nat \<Rightarrow> 'inv Function \<Rightarrow> error + 'inv Function" where
  "classify_arg finfo n_args i function =
     (if param_types function ! i = PARAM_SKIPPED then Inr function
      else
        let arg_info = fi_args finfo ! i;
            direction = ai_direction arg_info;
            type_tag = ti_tag (ai_type arg_info)
        in case (if type_tag = GI_TYPE_TAG_INTERFACE then
                   classify_interface finfo n_args i arg_info function
                 else if type_tag = GI_TYPE_TAG_ARRAY then
                   classify_array finfo n_args i arg_info function
                 else Inr function) of
             Inl e \<Rightarrow> Inl e
           | Inr f1 \<Rightarrow> Inr (count_arg direction i f1))"

fun classify_loop ::
  "GIFunctionInfo \<Rightarrow> guint8 \<Rightarrow> nat list \<Rightarrow> 'inv Function \<Rightarrow> error + 'inv Function" where
  "classify_loop finfo n_args [] function = Inr function"
| "classify_loop finfo n_args (i # rest) function =
     (case classify_arg finfo n_args i function of
        Inl e \<Rightarrow> Inl e
      | Inr f1 \<Rightarrow> classify_loop finfo n_args rest f1)"

text \<open>
  \<^verbatim>\<open>init_cached_function_data\<close> (lines 1097--1214). Both callers hand in a zeroed
  \<^verbatim>\<open>Function\<close>, so the counts start at 0 and \<^verbatim>\<open>g_new0\<close> fills \<^verbatim>\<open>param_types\<close> with
  \<open>PARAM_NORMAL\<close> (the enumeration's value 0). \<^verbatim>\<open>g_function_info_prep_invoker\<close> is
  the parameter \<open>prep_invoker\<close>; \<open>None\<close> is its failure. \<^verbatim>\<open>n_args\<close> is a \<^verbatim>\<open>guint8\<close>.
\<close>

definition init_cached_function_data ::
  "(GIFunctionInfo \<Rightarrow> 'inv option) \<Rightarrow> GIFunctionInfo \<Rightarrow> error + 'inv Function" where
  "init_cached_function_data prep_invoker finfo =
     (case prep_invoker finfo of
        None \<Rightarrow> Inl (UnsupportedSignature ''g_function_info_prep_invoker failed'')
      | Some ivk \<Rightarrow>
          let return_type = fi_return_type finfo;
              out0 = (if ti_tag return_type \<noteq> GI_TYPE_TAG_VOID then 1 else 0);
              n_args = (of_nat (length (fi_args finfo)) :: guint8);
              pt0 = replicate (unat n_args) PARAM_NORMAL;
              array_length_pos = to_guint8 (ti_array_length return_type);
              pt1 = (if 0 \<le> array_length_pos \<and> array_length_pos < n_args
                     then pt0[unat array_length_pos := PARAM_SKIPPED] else pt0)
          in classify_loop finfo n_args [0..<unat n_args]
               \<lparr>info = finfo, param_types = pt1, expected_js_argc = 0,
                js_out_argc = out0, invoker = ivk\<rparr>)"

section \<open>Values, collaborators and the process-wide state\<close>

text \<open>
  A dynamic value, as far as \<^verbatim>\<open>function.c\<close> inspects one: the null value, a callable
  (\<^verbatim>\<open>JS_TypeOfValue == JSTYPE_FUNCTION\<close>), and everything else the conversion
  collaborators consume or produce.
\<close>

datatype jsval =
  JSVAL_VOID | JSVAL_NULL | JSInt int | JSFunction nat | JSArrayObject "jsval list" | JSObject nat

definition is_js_function :: "jsval \<Rightarrow> bool" where
  "is_js_function v = (case v of JSFunction _ \<Rightarrow> True | _ \<Rightarrow> False)"

text \<open>
  The contents of a \<^verbatim>\<open>GArgument\<close> slot. Pointers the engine itself creates are
  distinguished by what they point to; \<open>NativeData\<close> is any other native value, by
  identity. \<open>Uninitialised\<close> is a slot of the \<^verbatim>\<open>g_newa\<close> arrays that was never written.
\<close>

datatype GArgument =
  Uninitialised
  | NullPointer
  | IntValue int
  | OutSlotPointer nat
  | ClosurePointer nat
  | TrampolinePointer nat
  | DestroyNotifyPointer
  | SlicePointer nat
  | LocalErrorPointer
  | NativeData nat

text \<open>
  The collaborators of \<^verbatim>\<open>arg.c\<close>, \<^verbatim>\<open>boxed.c\<close>, \<^verbatim>\<open>union.c\<close>, \<^verbatim>\<open>object.c\<close>, the
  dynamic runtime and the metadata provider, as far as \<^verbatim>\<open>function.c\<close> calls them.
  A conversion returns \<open>None\<close> where the C function returns \<^verbatim>\<open>JS_FALSE\<close>; a release
  helper returns its \<^verbatim>\<open>JSBool\<close>. \<open>gjs_g_argument_release_in_array\<close> receives the length
  slot itself instead of the integer \<^verbatim>\<open>get_length_from_arg\<close> reads from it.
\<close>

record collaborators =
  gjs_value_to_arg :: "jsval \<Rightarrow> GIArgInfo \<Rightarrow> GArgument option"
  gjs_value_to_explicit_array :: "jsval \<Rightarrow> GIArgInfo \<Rightarrow> (GArgument \<times> nat) option"
  gjs_value_from_g_argument :: "GITypeInfo \<Rightarrow> GArgument \<Rightarrow> jsval option"
  gjs_value_from_explicit_array :: "GITypeInfo \<Rightarrow> GArgument \<Rightarrow> jsval \<Rightarrow> jsval option"
  gjs_value_to_g_argument :: "jsval \<Rightarrow> GITypeInfo \<Rightarrow> GArgument option"
  gjs_g_argument_init_default :: "GITypeInfo \<Rightarrow> GArgument"
  gjs_g_argument_release :: "GITransfer \<Rightarrow> GITypeInfo \<Rightarrow> GArgument \<Rightarrow> bool"
  gjs_g_argument_release_out_array ::
    "GITransfer \<Rightarrow> GITypeInfo \<Rightarrow> jsval \<Rightarrow> GArgument \<Rightarrow> bool"
  gjs_g_argument_release_in_arg :: "GITransfer \<Rightarrow> GITypeInfo \<Rightarrow> GArgument \<Rightarrow> bool"
  gjs_g_argument_release_in_array ::
    "GITransfer \<Rightarrow> GITypeInfo \<Rightarrow> GArgument \<Rightarrow> GArgument \<Rightarrow> bool"
  gjs_c_struct_from_boxed :: "jsval \<Rightarrow> GArgument"
  gjs_c_union_from_union :: "jsval \<Rightarrow> GArgument"
  gjs_g_object_from_object :: "jsval \<Rightarrow> GArgument"
  g_type_is_a :: "GArgument \<Rightarrow> GIFunctionInfo \<Rightarrow> bool"
  JS_CallFunctionValue :: "jsval \<Rightarrow> jsval list \<Rightarrow> jsval option"
  JS_NewArrayObject :: "jsval list \<Rightarrow> jsval option"
  g_callable_info_args :: "GIBaseInfo \<Rightarrow> GITypeInfo list"
  g_callable_info_return_type :: "GIBaseInfo \<Rightarrow> GITypeInfo"

text \<open>
  \<^verbatim>\<open>GjsCallbackTrampoline\<close>. The closure and the trampoline are allocated and freed
  together, so one address names both. \<^verbatim>\<open>ref_count\<close> is a \<^verbatim>\<open>gint\<close>; it is an
  unbounded integer here (a wrap needs \<open>2^31\<close> references).
\<close>

record GjsCallbackTrampoline =
  ref_count :: int
  tr_info :: GIBaseInfo
  js_function :: jsval
  tr_scope :: GIScopeType

text \<open>
  The state that outlives one call: the live trampolines by address (a freed one is
  absent), the static list \<^verbatim>\<open>completed_trampolines\<close>, and a record of the effects the
  properties speak about: blocks handed out by \<^verbatim>\<open>g_slice_alloc0\<close>, pointers passed to
  \<^verbatim>\<open>g_slice_free1\<close>, trampolines freed (with their scope), exceptions thrown and logged,
  native calls made,
  input arguments released and native values converted to dynamic values (all lists
  latest first).
\<close>

record gjs_state =
  trampolines :: "nat \<Rightarrow> GjsCallbackTrampoline option"
  trampolines_created :: nat
  completed_trampolines :: "nat list"
  freed_trampolines :: "(nat \<times> GIScopeType) list"
  slice_allocated :: nat
  slice_freed :: "GArgument list"
  thrown :: "error list"
  logged_exceptions :: nat
  native_calls :: nat
  in_releases :: "(nat \<times> GArgument) list"
  out_conversions :: "GArgument list"

definition initial_state :: gjs_state where
  "initial_state =
     \<lparr>trampolines = (\<lambda>_. None), trampolines_created = 0, completed_trampolines = [],
      freed_trampolines = [], slice_allocated = 0, slice_freed = [], thrown = [],
      logged_exceptions = 0, native_calls = 0, in_releases = [], out_conversions = []\<rparr>"

section \<open>The trampoline manager\<close>

definition gjs_callback_trampoline_ref :: "nat \<Rightarrow> gjs_state \<Rightarrow> gjs_state option" where
  "gjs_callback_trampoline_ref t st =
     (case trampolines st t of
        None \<Rightarrow> None
      | Some tr \<Rightarrow>
          Some (st\<lparr>trampolines := (trampolines st)(t := Some (tr\<lparr>ref_count := ref_count tr + 1\<rparr>))\<rparr>))"

text \<open>
  \<^verbatim>\<open>gjs_callback_trampoline_unref\<close> (lines 132--148). Decrementing the count of a
  trampoline that was freed already is a use of freed memory: the model stops (\<open>None\<close>).
\<close>

definition gjs_callback_trampoline_unref :: "nat \<Rightarrow> gjs_state \<Rightarrow> gjs_state option" where
  "gjs_callback_trampoline_unref t st =
     (case trampolines st t of
        None \<Rightarrow> None
      | Some tr \<Rightarrow>
          if ref_count tr - 1 = 0 then
            Some (st\<lparr>trampolines := (trampolines st)(t := None),
                    freed_trampolines := (t, tr_scope tr) # freed_trampolines st\<rparr>)
          else
            Some (st\<lparr>trampolines :=
                      (trampolines st)(t := Some (tr\<lparr>ref_count := ref_count tr - 1\<rparr>))\<rparr>))"

text \<open>\<^verbatim>\<open>gjs_destroy_notify_callback\<close> (lines 243--250).\<close>

definition gjs_destroy_notify_callback :: "nat \<Rightarrow> gjs_state \<Rightarrow> gjs_state option" where
  "gjs_destroy_notify_callback t st = gjs_callback_trampoline_unref t st"

text \<open>
  \<^verbatim>\<open>gjs_callback_trampoline_new\<close> (lines 252--279) for a callable \<open>fn\<close> (the caller has
  excluded every other value): a fresh address, count 1.
\<close>

definition gjs_callback_trampoline_new ::
  "jsval \<Rightarrow> GIBaseInfo \<Rightarrow> GIScopeType \<Rightarrow> gjs_state \<Rightarrow> nat \<times> gjs_state" where
  "gjs_callback_trampoline_new fn callable_info scope st =
     (let t = trampolines_created st in
      (t, st\<lparr>trampolines :=
               (trampolines st)(t := Some \<lparr>ref_count = 1, tr_info = callable_info,
                                          js_function = fn, tr_scope = scope\<rparr>),
             trampolines_created := Suc t\<rparr>))"

text \<open>
  The argument loop of \<^verbatim>\<open>gjs_callback_closure\<close> (lines 182--198) over the callback's
  parameter types paired with the native arguments: \<^verbatim>\<open>void\<close>-tagged parameters are
  skipped, the first failing conversion ends the loop (\<open>None\<close>).
\<close>

fun closure_convert_args ::
  "collaborators \<Rightarrow> (GITypeInfo \<times> GArgument) list \<Rightarrow> jsval list option" where
  "closure_convert_args env [] = Some []"
| "closure_convert_args env ((type_info, a) # rest) =
     (if ti_tag type_info = GI_TYPE_TAG_VOID then closure_convert_args env rest
      else case gjs_value_from_g_argument env type_info a of
             None \<Rightarrow> None
           | Some v \<Rightarrow> map_option ((#) v) (closure_convert_args env rest))"

text \<open>
  What the three steps of the closure deliver: the converted result, or \<open>None\<close> as soon
  as one of them fails (\<^verbatim>\<open>goto out\<close> with \<^verbatim>\<open>success == FALSE\<close>).
\<close>

definition closure_steps ::
  "collaborators \<Rightarrow> GjsCallbackTrampoline \<Rightarrow> GArgument list \<Rightarrow> GArgument option" where
  "closure_steps env tr args =
     (case closure_convert_args env (zip (g_callable_info_args env (tr_info tr)) args) of
        None \<Rightarrow> None
      | Some jsargs \<Rightarrow>
          (case JS_CallFunctionValue env (js_function tr) jsargs of
             None \<Rightarrow> None
           | Some rval \<Rightarrow>
               gjs_value_to_g_argument env rval (g_callable_info_return_type env (tr_info tr))))"

text \<open>
  \<^verbatim>\<open>gjs_callback_closure\<close> (lines 158--238): native code enters the closure of
  trampoline \<open>t\<close> with \<open>args\<close>. The result is the content of the native return slot and
  the new state. Entering a freed closure, or one called with another number of
  arguments than its signature has, is outside the defined behaviour (\<open>None\<close>).
\<close>

definition gjs_callback_closure ::
  "collaborators \<Rightarrow> nat \<Rightarrow> GArgument list \<Rightarrow> gjs_state \<Rightarrow> (GArgument \<times> gjs_state) option" where
  "gjs_callback_closure env t args st =
     (case trampolines st t of
        None \<Rightarrow> None
      | Some tr \<Rightarrow>
          if length args \<noteq> length (g_callable_info_args env (tr_info tr)) then None
          else
            let (result, st1) =
                  (case closure_steps env tr args of
                     Some r \<Rightarrow> (r, st)
                   | None \<Rightarrow>
                       (gjs_g_argument_init_default env
                          (g_callable_info_return_type env (tr_info tr)),
                        st\<lparr>logged_exceptions := Suc (logged_exceptions st)\<rparr>));
                st2 = (if tr_scope tr = GI_SCOPE_TYPE_ASYNC
                       then st1\<lparr>completed_trampolines := t # completed_trampolines st1\<rparr>
                       else st1)
            in Some (result, st2))"

section \<open>Invoking a native function\<close>

text \<open>
  What one native call does, as the engine can observe it: the return value, the value
  stored through each out-slot pointer it was given, the message of the \<^verbatim>\<open>GError\<close> it
  stored through the error pointer (if any), and the callbacks it made while it ran
  (closure entries with their arguments, destroy notifications with the trampoline
  passed as user data), in order.
\<close>

datatype native_action = InvokeClosure nat "GArgument list" | InvokeDestroyNotify nat

record native_effect =
  ne_return_value :: GArgument
  ne_out_values :: "nat \<Rightarrow> GArgument"
  ne_error :: "string option"
  ne_actions :: "native_action list"

text \<open>
  \<^verbatim>\<open>GIFunctionInvoker\<close>: the number of native arguments of the prepared call interface
  and the native function itself, a function of the argument values
  (\<^verbatim>\<open>*ffi_arg_pointers[k]\<close> for \<open>k < c_argc\<close>).
\<close>

record GIFunctionInvoker =
  cif_nargs :: nat
  native_address :: "GArgument list \<Rightarrow> native_effect"

text \<open>
  The locals of \<^verbatim>\<open>gjs_invoke_c_function\<close> that the marshaling loop updates. The three
  \<^verbatim>\<open>g_newa\<close> arrays are functions of the index; every access checks the index against
  \<^verbatim>\<open>c_argc\<close> where the source relies on it. \<^verbatim>\<open>ffi_arg_pointers[k]\<close> is always
  \<^verbatim>\<open>&in_arg_cvalues[k]\<close> and is not stored.
\<close>

record call_frame =
  in_arg_cvalues :: "nat \<Rightarrow> GArgument"
  out_arg_cvalues :: "nat \<Rightarrow> GArgument"
  inout_original_arg_cvalues :: "nat \<Rightarrow> GArgument"
  js_arg_pos :: nat
  processed_c_args :: nat
  failed :: bool

definition gjs_throw :: "error \<Rightarrow> gjs_state \<Rightarrow> gjs_state" where
  "gjs_throw e st = st\<lparr>thrown := e # thrown st\<rparr>"

text \<open>
  The drain at lines 355--362: every queued trampoline is unreferenced, then the list is
  emptied.
\<close>

fun unref_all :: "nat list \<Rightarrow> gjs_state \<Rightarrow> gjs_state option" where
  "unref_all [] st = Some st"
| "unref_all (t # ts) st =
     (case gjs_callback_trampoline_unref t st of
        None \<Rightarrow> None
      | Some st1 \<Rightarrow> unref_all ts st1)"

definition drain_completed_trampolines :: "gjs_state \<Rightarrow> gjs_state option" where
  "drain_completed_trampolines st =
     (case unref_all (completed_trampolines st) st of
        None \<Rightarrow> None
      | Some st1 \<Rightarrow> Some (st1\<lparr>completed_trampolines := []\<rparr>))"

text \<open>
  Lines 450--494: an out-direction parameter. A caller-allocates structure or union
  gets a zero-initialised block whose address goes into the input and the output slot.
\<close>

definition marshal_out_arg ::
  "GIArgInfo \<Rightarrow> nat \<Rightarrow> call_frame \<times> gjs_state \<Rightarrow> call_frame \<times> gjs_state" where
  "marshal_out_arg arg_info c fs =
     (let fr = fst fs; st = snd fs in
      if ai_caller_allocates arg_info then
        let ainfo = ai_type arg_info; type_tag = ti_tag ainfo in
        if type_tag = GI_TYPE_TAG_INTERFACE
           \<and> (bi_info_type (ti_interface ainfo) = GI_INFO_TYPE_STRUCT
              \<or> bi_info_type (ti_interface ainfo) = GI_INFO_TYPE_UNION) then
          let b = slice_allocated st in
          (fr\<lparr>in_arg_cvalues := (in_arg_cvalues fr)(c := SlicePointer b),
              out_arg_cvalues := (out_arg_cvalues fr)(c := SlicePointer b)\<rparr>,
           st\<lparr>slice_allocated := Suc b\<rparr>)
        else (fr\<lparr>failed := True\<rparr>, gjs_throw (UnsupportedCallerAllocates type_tag) st)
      else
        (fr\<lparr>out_arg_cvalues := (out_arg_cvalues fr)(c := NullPointer),
            in_arg_cvalues := (in_arg_cvalues fr)(c := OutSlotPointer c)\<rparr>, st))"

text \<open>
  Lines 536--554: the slots a callback parameter fills, for the trampoline \<open>tramp\<close>
  (\<open>None\<close> is the C \<^verbatim>\<open>NULL\<close>): the destroy notifier's slot, the user-data slot and its
  own. Each \<^verbatim>\<open>g_assert\<close> on the companion's role, and each index outside the arrays,
  ends the call (\<open>None\<close>).
\<close>

definition companion_slot ::
  "ParamType list \<Rightarrow> bool \<Rightarrow> nat \<Rightarrow> int \<Rightarrow> GArgument \<Rightarrow> call_frame \<Rightarrow> call_frame option" where
  "companion_slot pts is_method c_argc pos v fr =
     (if 0 \<le> pos then
        let c_pos = (if is_method then nat pos + 1 else nat pos) in
        if nat pos < length pts \<and> pts ! nat pos = PARAM_SKIPPED \<and> c_pos < c_argc then
          Some (fr\<lparr>in_arg_cvalues := (in_arg_cvalues fr)(c_pos := v)\<rparr>)
        else None
      else Some fr)"

definition callback_slots ::
  "ParamType list \<Rightarrow> bool \<Rightarrow> nat \<Rightarrow> GIArgInfo \<Rightarrow> nat \<Rightarrow> nat option \<Rightarrow> call_frame
     \<Rightarrow> call_frame option" where
  "callback_slots pts is_method c_argc arg_info c tramp fr =
     (case companion_slot pts is_method c_argc (ai_destroy arg_info)
             (case tramp of Some t \<Rightarrow> DestroyNotifyPointer | None \<Rightarrow> NullPointer) fr of
        None \<Rightarrow> None
      | Some fr1 \<Rightarrow>
          (case companion_slot pts is_method c_argc (ai_closure arg_info)
                  (case tramp of Some t \<Rightarrow> TrampolinePointer t | None \<Rightarrow> NullPointer) fr1 of
             None \<Rightarrow> None
           | Some fr2 \<Rightarrow>
               Some (fr2\<lparr>in_arg_cvalues :=
                           (in_arg_cvalues fr2)
                             (c := (case tramp of Some t \<Rightarrow> ClosurePointer t
                                    | None \<Rightarrow> NullPointer))\<rparr>)))"

text \<open>
  Lines 507--556, \<open>PARAM_CALLBACK\<close>. Reading \<^verbatim>\<open>js_argv[js_arg_pos]\<close> past the supplied
  arguments is outside the defined behaviour (\<open>None\<close>).
\<close>

definition marshal_callback_arg ::
  "ParamType list \<Rightarrow> bool \<Rightarrow> nat \<Rightarrow> jsval list \<Rightarrow> GIArgInfo \<Rightarrow> nat
     \<Rightarrow> call_frame \<times> gjs_state \<Rightarrow> (call_frame \<times> gjs_state) option" where
  "marshal_callback_arg pts is_method c_argc js_argv arg_info c fs =
     (let fr = fst fs; st = snd fs in
      if length js_argv \<le> js_arg_pos fr then None
      else
        let v = js_argv ! js_arg_pos fr; scope = ai_scope arg_info in
        if v = JSVAL_NULL \<and> ai_may_be_null arg_info then
          map_option (\<lambda>fr1. (fr1, st)) (callback_slots pts is_method c_argc arg_info c None fr)
        else if \<not> is_js_function v then
          Some (fr\<lparr>failed := True\<rparr>, gjs_throw (InvalidCallback (ai_name arg_info)) st)
        else
          let (t, st1) =
                gjs_callback_trampoline_new v (ti_interface (ai_type arg_info)) scope st
          in case callback_slots pts is_method c_argc arg_info c (Some t) fr of
               None \<Rightarrow> None
             | Some fr1 \<Rightarrow>
                 if scope \<noteq> GI_SCOPE_TYPE_CALL
                 then map_option (\<lambda>st2. (fr1, st2)) (gjs_callback_trampoline_ref t st1)
                 else Some (fr1, st1))"

text \<open>
  Lines 560--596, \<open>PARAM_ARRAY\<close>. The collaborator writes the buffer into the
  parameter's own slot; the length goes through \<^verbatim>\<open>gjs_value_to_arg\<close> into the slot of
  the length parameter, which for an inout array is then either nulled in all three
  arrays (the buffer is \<^verbatim>\<open>NULL\<close>) or snapshotted and redirected to the output slot.
\<close>

definition inout_length_slots :: "nat \<Rightarrow> nat \<Rightarrow> call_frame \<Rightarrow> call_frame" where
  "inout_length_slots c array_length_pos fr =
     (if in_arg_cvalues fr c = NullPointer then
        fr\<lparr>in_arg_cvalues := (in_arg_cvalues fr)(array_length_pos := NullPointer),
            out_arg_cvalues := (out_arg_cvalues fr)(array_length_pos := NullPointer),
            inout_original_arg_cvalues :=
              (inout_original_arg_cvalues fr)(array_length_pos := NullPointer)\<rparr>
      else
        fr\<lparr>out_arg_cvalues :=
              (out_arg_cvalues fr)(array_length_pos := in_arg_cvalues fr array_length_pos),
            inout_original_arg_cvalues :=
              (inout_original_arg_cvalues fr)
                (array_length_pos := in_arg_cvalues fr array_length_pos),
            in_arg_cvalues :=
              (in_arg_cvalues fr)(array_length_pos := OutSlotPointer array_length_pos)\<rparr>)"

text \<open>
  \<^verbatim>\<open>INT_TO_JSVAL (length)\<close> (line 575): the macro takes an \<^verbatim>\<open>int32\<close>, so the \<^verbatim>\<open>gsize\<close>
  length is converted to one: the low 32 bits, read as a signed value.
\<close>

definition INT_TO_JSVAL :: "nat \<Rightarrow> jsval" where
  "INT_TO_JSVAL n = JSInt (sint (word_of_nat n :: 32 word))"

definition marshal_array_arg ::
  "collaborators \<Rightarrow> GIFunctionInfo \<Rightarrow> bool \<Rightarrow> nat \<Rightarrow> jsval list \<Rightarrow> GIArgInfo \<Rightarrow> nat
     \<Rightarrow> call_frame \<times> gjs_state \<Rightarrow> (call_frame \<times> gjs_state) option" where
  "marshal_array_arg env finfo is_method c_argc js_argv arg_info c fs =
     (let fr = fst fs; st = snd fs; len_pos = ti_array_length (ai_type arg_info) in
      if length js_argv \<le> js_arg_pos fr then None
      else
        case gjs_value_to_explicit_array env (js_argv ! js_arg_pos fr) arg_info of
          None \<Rightarrow> Some (fr\<lparr>failed := True\<rparr>, gjs_throw CollaboratorError st)
        | Some (buffer, len) \<Rightarrow>
            let fr1 = fr\<lparr>in_arg_cvalues := (in_arg_cvalues fr)(c := buffer)\<rparr> in
            if len_pos < 0 \<or> length (fi_args finfo) \<le> nat len_pos then None
            else
              let array_length_arg = fi_args finfo ! nat len_pos;
                  array_length_pos = (if is_method then nat len_pos + 1 else nat len_pos)
              in if c_argc \<le> array_length_pos then None
                 else
                   (case gjs_value_to_arg env (INT_TO_JSVAL len) array_length_arg of
                      None \<Rightarrow> Some (fr1\<lparr>failed := True\<rparr>, gjs_throw CollaboratorError st)
                    | Some lv \<Rightarrow>
                        let fr2 = fr1\<lparr>in_arg_cvalues :=
                                        (in_arg_cvalues fr1)(array_length_pos := lv)\<rparr>
                        in if ai_direction arg_info = GI_DIRECTION_INOUT
                           then Some (inout_length_slots c array_length_pos fr2, st)
                           else Some (fr2, st)))"

text \<open>Lines 597--605, \<open>PARAM_NORMAL\<close>, with its assertion on \<^verbatim>\<open>js_arg_pos\<close>.\<close>

definition marshal_normal_arg ::
  "collaborators \<Rightarrow> jsval list \<Rightarrow> GIArgInfo \<Rightarrow> nat
     \<Rightarrow> call_frame \<times> gjs_state \<Rightarrow> (call_frame \<times> gjs_state) option" where
  "marshal_normal_arg env js_argv arg_info c fs =
     (let fr = fst fs; st = snd fs in
      if length js_argv \<le> js_arg_pos fr then None
      else
        case gjs_value_to_arg env (js_argv ! js_arg_pos fr) arg_info of
          None \<Rightarrow> Some (fr\<lparr>failed := True\<rparr>, gjs_throw CollaboratorError st)
        | Some v \<Rightarrow> Some (fr\<lparr>in_arg_cvalues := (in_arg_cvalues fr)(c := v)\<rparr>, st))"

text \<open>
  Lines 607--618: after the dispatch on the role of a parameter that was not removed.
  An inout value is snapshotted, copied to the output slot and replaced by a pointer to
  that slot; the position in the dynamic arguments advances unless the step failed.
\<close>

definition after_in_arg :: "GIDirection \<Rightarrow> nat \<Rightarrow> call_frame \<Rightarrow> call_frame" where
  "after_in_arg direction c fr =
     (if failed fr then fr
      else
        let fr1 = (if direction = GI_DIRECTION_INOUT then
                     fr\<lparr>out_arg_cvalues := (out_arg_cvalues fr)(c := in_arg_cvalues fr c),
                         inout_original_arg_cvalues :=
                           (inout_original_arg_cvalues fr)(c := in_arg_cvalues fr c),
                         in_arg_cvalues := (in_arg_cvalues fr)(c := OutSlotPointer c)\<rparr>
                   else fr)
        in fr1\<lparr>js_arg_pos := Suc (js_arg_pos fr1)\<rparr>)"

text \<open>
  The body of one iteration of the marshaling loop (lines 445--619) for parameter
  \<open>gi_arg_pos\<close> with native position \<open>c\<close>, entered with \<^verbatim>\<open>failed == FALSE\<close>: the
  out-direction branch, or the dispatch on the role followed by the inout redirection.
  A skipped parameter (\<^verbatim>\<open>arg_removed\<close>) changes nothing. A role read past
  \<^verbatim>\<open>param_types\<close> ends the call.
\<close>

definition marshal_dispatch ::
  "collaborators \<Rightarrow> GIFunctionInvoker Function \<Rightarrow> nat \<Rightarrow> jsval list \<Rightarrow> nat \<Rightarrow> nat
     \<Rightarrow> call_frame \<times> gjs_state \<Rightarrow> (call_frame \<times> gjs_state) option" where
  "marshal_dispatch env function c_argc js_argv gi_arg_pos c fs =
     (let finfo = info function;
          is_method = fi_is_method finfo;
          arg_info = fi_args finfo ! gi_arg_pos;
          direction = ai_direction arg_info;
          pts = param_types function
      in if direction = GI_DIRECTION_OUT then Some (marshal_out_arg arg_info c fs)
         else if length pts \<le> gi_arg_pos then None
         else
           (case pts ! gi_arg_pos of
              PARAM_SKIPPED \<Rightarrow> Some fs
            | PARAM_CALLBACK \<Rightarrow>
                map_option (apfst (after_in_arg direction c))
                  (marshal_callback_arg pts is_method c_argc js_argv arg_info c fs)
            | PARAM_ARRAY \<Rightarrow>
                map_option (apfst (after_in_arg direction c))
                  (marshal_array_arg env finfo is_method c_argc js_argv arg_info c fs)
            | PARAM_NORMAL \<Rightarrow>
                map_option (apfst (after_in_arg direction c))
                  (marshal_normal_arg env js_argv arg_info c fs)))"

text \<open>
  One iteration of the marshaling loop (lines 437--625): the assertion on
  \<^verbatim>\<open>c_arg_pos\<close>, the body, and the increment of \<^verbatim>\<open>processed_c_args\<close> unless the
  iteration failed.
\<close>

definition count_processed :: "call_frame \<Rightarrow> call_frame" where
  "count_processed fr =
     (if failed fr then fr else fr\<lparr>processed_c_args := Suc (processed_c_args fr)\<rparr>)"

definition marshal_arg ::
  "collaborators \<Rightarrow> GIFunctionInvoker Function \<Rightarrow> nat \<Rightarrow> jsval list \<Rightarrow> nat
     \<Rightarrow> call_frame \<times> gjs_state \<Rightarrow> (call_frame \<times> gjs_state) option" where
  "marshal_arg env function c_argc js_argv gi_arg_pos fs =
     (let c = (if fi_is_method (info function) then gi_arg_pos + 1 else gi_arg_pos)
      in if c_argc \<le> c then None
         else map_option (apfst count_processed)
                (marshal_dispatch env function c_argc js_argv gi_arg_pos c fs))"

fun marshal_loop ::
  "collaborators \<Rightarrow> GIFunctionInvoker Function \<Rightarrow> nat \<Rightarrow> jsval list \<Rightarrow> nat list
     \<Rightarrow> call_frame \<times> gjs_state \<Rightarrow> (call_frame \<times> gjs_state) option" where
  "marshal_loop env function c_argc js_argv [] fs = Some fs"
| "marshal_loop env function c_argc js_argv (gi_arg_pos # rest) fs =
     (case marshal_arg env function c_argc js_argv gi_arg_pos fs of
        None \<Rightarrow> None
      | Some fs1 \<Rightarrow>
          if failed (fst fs1) then Some fs1
          else marshal_loop env function c_argc js_argv rest fs1)"

text \<open>
  The locals the release loop updates besides the frame: the index into
  \<^verbatim>\<open>return_values\<close>, the values collected so far, and \<^verbatim>\<open>postinvoke_release_failed\<close>.
\<close>

record release_locals =
  rl_frame :: call_frame
  next_rval :: nat
  return_values :: "jsval list"
  postinvoke_release_failed :: bool

definition is_length_tag :: "GITypeTag \<Rightarrow> bool" where
  "is_length_tag t =
     (t = GI_TYPE_TAG_INT8 \<or> t = GI_TYPE_TAG_UINT8 \<or> t = GI_TYPE_TAG_INT16
      \<or> t = GI_TYPE_TAG_UINT16 \<or> t = GI_TYPE_TAG_INT32 \<or> t = GI_TYPE_TAG_UINT32
      \<or> t = GI_TYPE_TAG_INT64 \<or> t = GI_TYPE_TAG_UINT64)"

text \<open>
  Lines 738--794: the release of an in or inout argument. \<open>arg\<close> is the input slot, or
  for inout the snapshot of the original value. A callback's slot holds \<^verbatim>\<open>NULL\<close> or a
  closure, whose trampoline is unreferenced. \<^verbatim>\<open>get_length_from_arg\<close> aborts on a length
  parameter that is not of an integer type.
\<close>

definition release_in_arg ::
  "collaborators \<Rightarrow> GIFunctionInvoker Function \<Rightarrow> nat \<Rightarrow> nat \<Rightarrow> nat
     \<Rightarrow> release_locals \<times> gjs_state \<Rightarrow> (release_locals \<times> gjs_state) option" where
  "release_in_arg env function c_argc gi_arg_pos c ls =
     (let rl = fst ls; st = snd ls; fr = rl_frame rl;
          finfo = info function;
          arg_info = fi_args finfo ! gi_arg_pos;
          direction = ai_direction arg_info;
          arg_type_info = ai_type arg_info;
          param_type = param_types function ! gi_arg_pos;
          arg = (if direction = GI_DIRECTION_IN then in_arg_cvalues fr c
                 else inout_original_arg_cvalues fr c);
          transfer = (if direction = GI_DIRECTION_IN then ai_ownership_transfer arg_info
                      else GI_TRANSFER_NOTHING)
      in case param_type of
           PARAM_CALLBACK \<Rightarrow>
             (case arg of
                NullPointer \<Rightarrow> Some ls
              | ClosurePointer t \<Rightarrow>
                  map_option
                    (\<lambda>st1. (rl\<lparr>rl_frame :=
                                  (if direction = GI_DIRECTION_IN
                                   then fr\<lparr>in_arg_cvalues :=
                                             (in_arg_cvalues fr)(c := NullPointer)\<rparr>
                                   else fr\<lparr>inout_original_arg_cvalues :=
                                             (inout_original_arg_cvalues fr)
                                               (c := NullPointer)\<rparr>)\<rparr>, st1))
                    (gjs_callback_trampoline_unref t st)
              | _ \<Rightarrow> None)
         | PARAM_ARRAY \<Rightarrow>
             (let len_pos = ti_array_length arg_type_info in
              if len_pos < 0 \<or> length (fi_args finfo) \<le> nat len_pos then None
              else
                let array_length_pos =
                      (if fi_is_method finfo then nat len_pos + 1 else nat len_pos)
                in if c_argc \<le> array_length_pos
                      \<or> \<not> is_length_tag (ti_tag (ai_type (fi_args finfo ! nat len_pos)))
                   then None
                   else
                     let released = gjs_g_argument_release_in_array env transfer
                                      arg_type_info (in_arg_cvalues fr array_length_pos) arg
                     in Some (rl\<lparr>postinvoke_release_failed :=
                                    (postinvoke_release_failed rl \<or> \<not> released)\<rparr>,
                              (if released then st else gjs_throw CollaboratorError st)
                                \<lparr>in_releases := (gi_arg_pos, arg) # in_releases st\<rparr>))
         | PARAM_NORMAL \<Rightarrow>
             (let released = gjs_g_argument_release_in_arg env transfer arg_type_info arg
              in Some (rl\<lparr>postinvoke_release_failed :=
                             (postinvoke_release_failed rl \<or> \<not> released)\<rparr>,
                       (if released then st else gjs_throw CollaboratorError st)
                         \<lparr>in_releases := (gi_arg_pos, arg) # in_releases st\<rparr>))
         | PARAM_SKIPPED \<Rightarrow> Some ls)"

text \<open>
  Lines 803--891: the conversion and release of an out or inout argument that is not
  skipped. The result of the conversion (\<open>None\<close>: \<^verbatim>\<open>arg_failed\<close>) with the state in which
  the conversions are recorded; an array with a length parameter converts the length
  first. The release of a converted output (lines 873--888) is a call of a collaborator
  whose result the source ignores; it has no effect here.
\<close>

definition convert_out_value ::
  "collaborators \<Rightarrow> GIFunctionInfo \<Rightarrow> nat \<Rightarrow> GITypeInfo \<Rightarrow> GArgument \<Rightarrow> call_frame
     \<Rightarrow> gjs_state \<Rightarrow> ((jsval \<times> jsval) option \<times> gjs_state) option" where
  "convert_out_value env finfo c_argc type_info arg fr st =
     (let len_pos = ti_array_length type_info in
      if 0 \<le> len_pos then
        if length (fi_args finfo) \<le> nat len_pos then None
        else
          let array_length_pos =
                (if fi_is_method finfo then nat len_pos + 1 else nat len_pos)
          in if c_argc \<le> array_length_pos then None
             else
               let len_arg = out_arg_cvalues fr array_length_pos;
                   st1 = st\<lparr>out_conversions := len_arg # out_conversions st\<rparr>
               in case gjs_value_from_g_argument env (ai_type (fi_args finfo ! nat len_pos))
                         len_arg of
                    None \<Rightarrow> Some (None, gjs_throw CollaboratorError st1)
                  | Some array_length \<Rightarrow>
                      (case gjs_value_from_explicit_array env type_info arg array_length of
                         None \<Rightarrow>
                           Some (None, gjs_throw CollaboratorError
                                         (st1\<lparr>out_conversions := arg # out_conversions st1\<rparr>))
                       | Some v \<Rightarrow>
                           Some (Some (v, array_length),
                                 st1\<lparr>out_conversions := arg # out_conversions st1\<rparr>))
      else
        (case gjs_value_from_g_argument env type_info arg of
           None \<Rightarrow>
             Some (None, gjs_throw CollaboratorError
                           (st\<lparr>out_conversions := arg # out_conversions st\<rparr>))
         | Some v \<Rightarrow>
             Some (Some (v, JSVAL_VOID), st\<lparr>out_conversions := arg # out_conversions st\<rparr>)))"

definition release_out_arg ::
  "collaborators \<Rightarrow> GIFunctionInvoker Function \<Rightarrow> nat \<Rightarrow> nat \<Rightarrow> nat
     \<Rightarrow> release_locals \<times> gjs_state \<Rightarrow> (release_locals \<times> gjs_state) option" where
  "release_out_arg env function c_argc gi_arg_pos c ls =
     (let rl = fst ls; st = snd ls; fr = rl_frame rl;
          finfo = info function;
          arg_info = fi_args finfo ! gi_arg_pos;
          arg_type_info = ai_type arg_info;
          arg = out_arg_cvalues fr c
      in if unat (js_out_argc function) \<le> next_rval rl then None
         else
           case convert_out_value env finfo c_argc arg_type_info arg fr st of
             None \<Rightarrow> None
           | Some (converted, st1) \<Rightarrow>
               let rl1 = (case converted of
                            None \<Rightarrow> rl\<lparr>postinvoke_release_failed := True\<rparr>
                          | Some (v, array_length) \<Rightarrow>
                              rl\<lparr>return_values := (return_values rl)[next_rval rl := v]\<rparr>)
               in if ai_caller_allocates arg_info then
                    if ti_tag arg_type_info = GI_TYPE_TAG_INTERFACE
                       \<and> (bi_info_type (ti_interface arg_type_info) = GI_INFO_TYPE_STRUCT
                          \<or> bi_info_type (ti_interface arg_type_info) = GI_INFO_TYPE_UNION)
                    then Some (rl1\<lparr>next_rval := Suc (next_rval rl1)\<rparr>,
                               st1\<lparr>slice_freed := arg # slice_freed st1\<rparr>)
                    else None
                  else Some (rl1\<lparr>next_rval := Suc (next_rval rl1)\<rparr>, st1))"

text \<open>
  One iteration of the release loop (lines 726--892). \<open>skip_out\<close> is
  \<^verbatim>\<open>did_throw_gerror || failed\<close>, which does not change while the loop runs.
\<close>

definition release_arg ::
  "collaborators \<Rightarrow> GIFunctionInvoker Function \<Rightarrow> nat \<Rightarrow> bool \<Rightarrow> nat
     \<Rightarrow> release_locals \<times> gjs_state \<Rightarrow> (release_locals \<times> gjs_state) option" where
  "release_arg env function c_argc skip_out gi_arg_pos ls =
     (let finfo = info function;
          c = (if fi_is_method finfo then gi_arg_pos + 1 else gi_arg_pos);
          direction = ai_direction (fi_args finfo ! gi_arg_pos)
      in if length (param_types function) \<le> gi_arg_pos then None
         else
           case (if direction = GI_DIRECTION_IN \<or> direction = GI_DIRECTION_INOUT
                 then release_in_arg env function c_argc gi_arg_pos c ls else Some ls) of
             None \<Rightarrow> None
           | Some ls1 \<Rightarrow>
               if skip_out then Some ls1
               else if (direction = GI_DIRECTION_OUT \<or> direction = GI_DIRECTION_INOUT)
                       \<and> param_types function ! gi_arg_pos \<noteq> PARAM_SKIPPED
               then release_out_arg env function c_argc gi_arg_pos c ls1
               else Some ls1)"

fun release_loop ::
  "collaborators \<Rightarrow> GIFunctionInvoker Function \<Rightarrow> nat \<Rightarrow> bool \<Rightarrow> nat list
     \<Rightarrow> release_locals \<times> gjs_state \<Rightarrow> (release_locals \<times> gjs_state) option" where
  "release_loop env function c_argc skip_out [] ls = Some ls"
| "release_loop env function c_argc skip_out (gi_arg_pos # rest) ls =
     (case release_arg env function c_argc skip_out gi_arg_pos ls of
        None \<Rightarrow> None
      | Some ls1 \<Rightarrow> release_loop env function c_argc skip_out rest ls1)"

text \<open>
  Lines 664--718: the conversion of the native return value, run when the function has
  outputs and did not report an error. The result is the new \<^verbatim>\<open>failed\<close>, the index
  into \<^verbatim>\<open>return_values\<close> and the values.
\<close>

definition process_return_value ::
  "collaborators \<Rightarrow> GIFunctionInvoker Function \<Rightarrow> nat \<Rightarrow> GArgument \<Rightarrow> call_frame
     \<Rightarrow> gjs_state \<Rightarrow> ((bool \<times> nat \<times> jsval list) \<times> gjs_state) option" where
  "process_return_value env function c_argc return_value fr st =
     (let finfo = info function;
          return_info = fi_return_type finfo;
          values0 = replicate (unat (js_out_argc function)) JSVAL_VOID
      in if ti_tag return_info = GI_TYPE_TAG_VOID then Some ((False, 0, values0), st)
         else
           case convert_out_value env finfo c_argc return_info return_value fr st of
             None \<Rightarrow> None
           | Some (None, st1) \<Rightarrow> Some ((True, 1, values0), st1)
           | Some (Some (v, array_length), st1) \<Rightarrow>
               let released =
                     (if 0 \<le> ti_array_length return_info
                      then gjs_g_argument_release_out_array env (fi_caller_owns finfo)
                             return_info array_length return_value
                      else gjs_g_argument_release env (fi_caller_owns finfo)
                             return_info return_value)
               in Some ((\<not> released, 1, values0[0 := v]),
                        if released then st1 else gjs_throw CollaboratorError st1))"

text \<open>The callbacks native code makes while the call runs, in order.\<close>

fun run_native_actions ::
  "collaborators \<Rightarrow> native_action list \<Rightarrow> gjs_state \<Rightarrow> gjs_state option" where
  "run_native_actions env [] st = Some st"
| "run_native_actions env (InvokeClosure t args # rest) st =
     (case gjs_callback_closure env t args st of
        None \<Rightarrow> None
      | Some (result, st1) \<Rightarrow> run_native_actions env rest st1)"
| "run_native_actions env (InvokeDestroyNotify t # rest) st =
     (case gjs_destroy_notify_callback t st of
        None \<Rightarrow> None
      | Some st1 \<Rightarrow> run_native_actions env rest st1)"

text \<open>
  \<^verbatim>\<open>ffi_call\<close> (line 648): the native function receives the values of the input slots
  and stores an output only through a pointer it was given. The engine passes the
  address of output slot \<open>k\<close> in input slot \<open>k\<close> and nowhere else, so the native function
  can change output slot \<open>k\<close> exactly when input slot \<open>k\<close> holds that address.
\<close>

definition native_out_values ::
  "nat \<Rightarrow> (nat \<Rightarrow> GArgument) \<Rightarrow> native_effect \<Rightarrow> (nat \<Rightarrow> GArgument) \<Rightarrow> nat \<Rightarrow> GArgument" where
  "native_out_values c_argc ins eff out k =
     (if k < c_argc \<and> ins k = OutSlotPointer k then ne_out_values eff k else out k)"

text \<open>
  Lines 900--933: the result of the call once the release loop is done. \<open>gerror\<close> is the
  message of the native error when \<^verbatim>\<open>did_throw_gerror\<close> holds. The result is the
  \<^verbatim>\<open>JSBool\<close>, \<^verbatim>\<open>*js_rval\<close> (which the caller reads only on success; \<open>JSVAL_VOID\<close> stands
  for it on failure) and the state.
\<close>

definition finish_call ::
  "collaborators \<Rightarrow> nat \<Rightarrow> bool \<Rightarrow> string option \<Rightarrow> jsval list \<Rightarrow> gjs_state
     \<Rightarrow> bool \<times> jsval \<times> gjs_state" where
  "finish_call env out_argc failed1 gerror vals st =
     (if failed1 then (False, JSVAL_VOID, st)
      else
        (case gerror of
           Some message \<Rightarrow> (False, JSVAL_VOID, gjs_throw (NativeReportedError message) st)
         | None \<Rightarrow>
             if out_argc = 0 then (True, JSVAL_VOID, st)
             else if out_argc = 1 then (True, vals ! 0, st)
             else
               (case JS_NewArrayObject env vals of
                  None \<Rightarrow> (False, JSVAL_VOID, st)
                | Some array \<Rightarrow> (True, array, st))))"

text \<open>
  From the label \<^verbatim>\<open>release\<close> to the end (lines 720--934). The loop runs while
  \<^verbatim>\<open>gi_arg_pos < gi_argc && c_arg_pos < processed_c_args\<close>; the two assertions after it
  end the call when they fail.
\<close>

definition release_iterations :: "GIFunctionInfo \<Rightarrow> call_frame \<Rightarrow> nat" where
  "release_iterations finfo fr =
     min (unat (of_nat (length (fi_args finfo)) :: guint8))
         (processed_c_args fr - (if fi_is_method finfo then 1 else 0))"

definition release_and_finish ::
  "collaborators \<Rightarrow> GIFunctionInvoker Function \<Rightarrow> nat \<Rightarrow> bool \<Rightarrow> string option
     \<Rightarrow> nat \<Rightarrow> jsval list \<Rightarrow> call_frame \<times> gjs_state \<Rightarrow> (bool \<times> jsval \<times> gjs_state) option" where
  "release_and_finish env function c_argc failed0 gerror next_rval0 values0 fs =
     (case release_loop env function c_argc (gerror \<noteq> None \<or> failed0)
             [0..<release_iterations (info function) (fst fs)]
             (\<lparr>rl_frame = fst fs, next_rval = next_rval0, return_values = values0,
               postinvoke_release_failed = False\<rparr>, snd fs) of
        None \<Rightarrow> None
      | Some (rl, st) \<Rightarrow>
          let failed1 = (failed0 \<or> postinvoke_release_failed rl);
              out_argc = unat (js_out_argc function)
          in if \<not> (failed1 \<or> gerror \<noteq> None \<or> next_rval rl = out_argc) then None
             else if (if fi_is_method (info function) then 1 else 0)
                       + release_iterations (info function) (fst fs)
                     \<noteq> processed_c_args (fst fs) then None
             else Some (finish_call env out_argc failed1 gerror (return_values rl) st))"

text \<open>
  Lines 406--434: the receiver of a method call. The result is the frame with the
  instance in slot 0 and whether the type check of an object receiver failed.
\<close>

definition marshal_receiver ::
  "collaborators \<Rightarrow> GIFunctionInfo \<Rightarrow> nat \<Rightarrow> jsval \<Rightarrow> call_frame \<Rightarrow> (call_frame \<times> bool) option" where
  "marshal_receiver env finfo c_argc obj fr =
     (if \<not> fi_is_method finfo then Some (fr, False)
      else if c_argc = 0 then None
      else
        let k = fi_container_type finfo in
        if k = GI_INFO_TYPE_STRUCT \<or> k = GI_INFO_TYPE_BOXED then
          Some (fr\<lparr>in_arg_cvalues := (in_arg_cvalues fr)(0 := gjs_c_struct_from_boxed env obj)\<rparr>,
                False)
        else if k = GI_INFO_TYPE_UNION then
          Some (fr\<lparr>in_arg_cvalues := (in_arg_cvalues fr)(0 := gjs_c_union_from_union env obj)\<rparr>,
                False)
        else
          let inst = gjs_g_object_from_object env obj
          in Some (fr\<lparr>in_arg_cvalues := (in_arg_cvalues fr)(0 := inst)\<rparr>,
                   \<not> g_type_is_a env inst finfo))"

text \<open>
  Lines 634--642: the frame handed to \<^verbatim>\<open>ffi_call\<close>. A function that can throw gets the
  address of \<^verbatim>\<open>local_error\<close> in the slot after the described parameters. The native
  function receives the values of the first \<^verbatim>\<open>c_argc\<close> input slots.
\<close>

abbreviation gi_argc_of :: "'inv Function \<Rightarrow> nat" where
  "gi_argc_of function \<equiv> unat (of_nat (length (fi_args (info function))) :: guint8)"

definition native_frame :: "'inv Function \<Rightarrow> call_frame \<Rightarrow> call_frame" where
  "native_frame function fr =
     (if fi_throws (info function)
      then fr\<lparr>in_arg_cvalues :=
                (in_arg_cvalues fr)
                  ((if fi_is_method (info function) then gi_argc_of function + 1
                    else gi_argc_of function) := LocalErrorPointer)\<rparr>
      else fr)"

definition native_args :: "'inv Function \<Rightarrow> nat \<Rightarrow> call_frame \<Rightarrow> GArgument list" where
  "native_args function c_argc fr = map (in_arg_cvalues (native_frame function fr)) [0..<c_argc]"

text \<open>
  Lines 634--718: the native call on a frame whose marshaling succeeded, up to the
  label \<^verbatim>\<open>release\<close>. The assertions \<^verbatim>\<open>c_arg_pos < c_argc\<close> (before the error slot is
  written) and \<^verbatim>\<open>c_arg_pos == c_argc\<close> end the call when the prepared interface has
  another number of arguments.
\<close>

definition call_native ::
  "collaborators \<Rightarrow> GIFunctionInvoker Function \<Rightarrow> nat \<Rightarrow> call_frame \<times> gjs_state
     \<Rightarrow> (bool \<times> jsval \<times> gjs_state) option" where
  "call_native env function c_argc fs =
     (let finfo = info function;
          fr = fst fs; st = snd fs;
          c_arg_pos = (if fi_is_method finfo then gi_argc_of function + 1
                       else gi_argc_of function)
      in if fi_throws finfo \<and> c_argc \<le> c_arg_pos then None
         else if (if fi_throws finfo then c_arg_pos + 1 else c_arg_pos) \<noteq> c_argc then None
         else
           let eff = native_address (invoker function) (native_args function c_argc fr);
               fr2 = (native_frame function fr)
                       \<lparr>out_arg_cvalues :=
                          native_out_values c_argc (in_arg_cvalues (native_frame function fr))
                            eff (out_arg_cvalues fr)\<rparr>
           in case run_native_actions env (ne_actions eff)
                     (st\<lparr>native_calls := Suc (native_calls st)\<rparr>) of
                None \<Rightarrow> None
              | Some st1 \<Rightarrow>
                  let gerror = (if fi_throws finfo then ne_error eff else None) in
                  if 0 < unat (js_out_argc function) \<and> gerror = None then
                    (case process_return_value env function c_argc (ne_return_value eff)
                            fr2 st1 of
                       None \<Rightarrow> None
                     | Some ((failed1, next_rval1, values1), st2) \<Rightarrow>
                         release_and_finish env function c_argc failed1 gerror next_rval1
                           values1 (fr2, st2))
                  else release_and_finish env function c_argc False gerror 0 [] (fr2, st1))"

text \<open>The frame before anything is marshaled: no slot of the three arrays is written.\<close>

definition initial_frame :: call_frame where
  "initial_frame =
     \<lparr>in_arg_cvalues = (\<lambda>_. Uninitialised), out_arg_cvalues = (\<lambda>_. Uninitialised),
      inout_original_arg_cvalues = (\<lambda>_. Uninitialised),
      js_arg_pos = 0, processed_c_args = 0, failed = False\<rparr>"

text \<open>
  \<^verbatim>\<open>gjs_invoke_c_function\<close> from the arity check on (lines 364--934), on the state the
  drain has left: the arity check, the receiver, the marshaling loop, the native call
  and the release. \<^verbatim>\<open>c_argc\<close> and \<^verbatim>\<open>gi_argc\<close> are \<^verbatim>\<open>guint8\<close>.
\<close>

abbreviation c_argc_of :: "GIFunctionInvoker Function \<Rightarrow> nat" where
  "c_argc_of function \<equiv> unat (of_nat (cif_nargs (invoker function)) :: guint8)"

definition invoke_after_drain ::
  "collaborators \<Rightarrow> GIFunctionInvoker Function \<Rightarrow> jsval \<Rightarrow> jsval list \<Rightarrow> gjs_state
     \<Rightarrow> (bool \<times> jsval \<times> gjs_state) option" where
  "invoke_after_drain env function obj js_argv st1 =
     (let finfo = info function;
          c_argc = c_argc_of function;
          gi_argc = gi_argc_of function
      in if length js_argv < unat (expected_js_argc function) then
           Some (False, JSVAL_VOID,
                 gjs_throw (ArityError (unat (expected_js_argc function)) (length js_argv)) st1)
         else
           case marshal_receiver env finfo c_argc obj initial_frame of
                None \<Rightarrow> None
              | Some (fr1, wrong_type) \<Rightarrow>
                  if wrong_type then
                    release_and_finish env function c_argc True None 0 []
                      (fr1\<lparr>failed := True\<rparr>, gjs_throw InvalidReceiverType st1)
                  else
                    (case marshal_loop env function c_argc js_argv [0..<gi_argc]
                            (fr1\<lparr>processed_c_args :=
                                   (if fi_is_method finfo then 1 else 0)\<rparr>, st1) of
                       None \<Rightarrow> None
                     | Some fs \<Rightarrow>
                         if failed (fst fs)
                         then release_and_finish env function c_argc True None 0 [] fs
                         else call_native env function c_argc fs))"

text \<open>
  \<^verbatim>\<open>gjs_invoke_c_function\<close> (lines 309--934), one top-level invocation from
  \<^verbatim>\<open>function_call\<close>: the drain of the pending-release list comes first.
  \<open>None\<close>: the process aborted on an assertion or left the defined behaviour.
\<close>

definition gjs_invoke_c_function ::
  "collaborators \<Rightarrow> GIFunctionInvoker Function \<Rightarrow> jsval \<Rightarrow> jsval list \<Rightarrow> gjs_state
     \<Rightarrow> (bool \<times> jsval \<times> gjs_state) option" where
  "gjs_invoke_c_function env function obj js_argv st =
     (case drain_completed_trampolines st of
        None \<Rightarrow> None
      | Some st1 \<Rightarrow> invoke_after_drain env function obj js_argv st1)"

text \<open>
  \<^verbatim>\<open>gjs_invoke_c_function_uncached\<close> (lines 1313--1331): classification and one
  invocation.
\<close>

definition gjs_invoke_c_function_uncached ::
  "collaborators \<Rightarrow> (GIFunctionInfo \<Rightarrow> GIFunctionInvoker option) \<Rightarrow> GIFunctionInfo \<Rightarrow> jsval
     \<Rightarrow> jsval list \<Rightarrow> gjs_state \<Rightarrow> (bool \<times> jsval \<times> gjs_state) option" where
  "gjs_invoke_c_function_uncached env prep finfo obj js_argv st =
     (case init_cached_function_data prep finfo of
        Inl e \<Rightarrow> Some (False, JSVAL_VOID, gjs_throw e st)
      | Inr function \<Rightarrow> gjs_invoke_c_function env function obj js_argv st)"

section \<open>Descriptors used as concrete inputs\<close>

definition no_interface :: GIBaseInfo where
  "no_interface =
     \<lparr>bi_info_type = GI_INFO_TYPE_INVALID, bi_name = [], bi_namespace = [], bi_size = 0\<rparr>"

definition scalar_type :: "GITypeTag \<Rightarrow> GITypeInfo" where
  "scalar_type t =
     \<lparr>ti_tag = t, ti_array_type = GI_ARRAY_TYPE_C, ti_array_length = - 1,
      ti_interface = no_interface\<rparr>"

definition c_array_type :: "int \<Rightarrow> GITypeInfo" where
  "c_array_type len_pos =
     \<lparr>ti_tag = GI_TYPE_TAG_ARRAY, ti_array_type = GI_ARRAY_TYPE_C, ti_array_length = len_pos,
      ti_interface = no_interface\<rparr>"

definition interface_type :: "GIInfoType \<Rightarrow> string \<Rightarrow> string \<Rightarrow> nat \<Rightarrow> GITypeInfo" where
  "interface_type k ns nm sz =
     \<lparr>ti_tag = GI_TYPE_TAG_INTERFACE, ti_array_type = GI_ARRAY_TYPE_C, ti_array_length = - 1,
      ti_interface = \<lparr>bi_info_type = k, bi_name = nm, bi_namespace = ns, bi_size = sz\<rparr>\<rparr>"

definition plain_arg :: "string \<Rightarrow> GIDirection \<Rightarrow> GITypeInfo \<Rightarrow> GIArgInfo" where
  "plain_arg nm d t =
     \<lparr>ai_name = nm, ai_direction = d, ai_type = t, ai_caller_allocates = False,
      ai_may_be_null = False, ai_scope = GI_SCOPE_TYPE_INVALID, ai_destroy = - 1,
      ai_closure = - 1, ai_ownership_transfer = GI_TRANSFER_NOTHING\<rparr>"

definition callback_arg ::
  "string \<Rightarrow> GIDirection \<Rightarrow> GIScopeType \<Rightarrow> int \<Rightarrow> int \<Rightarrow> GIArgInfo" where
  "callback_arg nm d sc destroy_pos closure_pos =
     (plain_arg nm d (interface_type GI_INFO_TYPE_CALLBACK ''Test'' ''Func'' 0))
       \<lparr>ai_scope := sc, ai_destroy := destroy_pos, ai_closure := closure_pos\<rparr>"

definition plain_function :: "string \<Rightarrow> GIArgInfo list \<Rightarrow> GITypeInfo \<Rightarrow> GIFunctionInfo" where
  "plain_function nm as rt =
     \<lparr>fi_namespace = ''Test'', fi_name = nm, fi_args = as, fi_return_type = rt,
      fi_caller_owns = GI_TRANSFER_NOTHING, fi_is_method = False, fi_throws = False,
      fi_container_type = GI_INFO_TYPE_INVALID\<rparr>"

text \<open>
  \<^verbatim>\<open>void watch (Func cb, GDestroyNotify notify)\<close>: the callback names parameter 1 as its
  destroy notifier and has no user-data parameter.
\<close>

definition watch_info :: GIFunctionInfo where
  "watch_info =
     plain_function ''watch''
       [callback_arg ''cb'' GI_DIRECTION_IN GI_SCOPE_TYPE_NOTIFIED 1 (- 1),
        plain_arg ''notify'' GI_DIRECTION_IN
          (interface_type GI_INFO_TYPE_CALLBACK ''GLib'' ''DestroyNotify'' 0)]
       (scalar_type GI_TYPE_TAG_VOID)"

text \<open>
  \<^verbatim>\<open>void read_all (gint *n_items, gint **items)\<close>: an out-direction C array whose
  out-direction length parameter comes first.
\<close>

definition read_all_info :: GIFunctionInfo where
  "read_all_info =
     plain_function ''read_all''
       [plain_arg ''n_items'' GI_DIRECTION_OUT (scalar_type GI_TYPE_TAG_INT32),
        plain_arg ''items'' GI_DIRECTION_OUT (c_array_type 0)]
       (scalar_type GI_TYPE_TAG_VOID)"

text \<open>
  Collaborators for the concrete runs: integers and the null value convert both ways, a
  dynamic sequence converts to a buffer named by its length and the null value to a
  \<^verbatim>\<open>NULL\<close> buffer of length 0, every release succeeds, and the callable \<open>JSFunction 0\<close>
  throws when it is called.
\<close>

definition scenario_env :: collaborators where
  "scenario_env =
     \<lparr>gjs_value_to_arg =
        (\<lambda>v a. case v of JSInt n \<Rightarrow> Some (IntValue n) | JSVAL_NULL \<Rightarrow> Some NullPointer
                | _ \<Rightarrow> None),
      gjs_value_to_explicit_array =
        (\<lambda>v a. case v of JSArrayObject xs \<Rightarrow> Some (NativeData (length xs), length xs)
                | JSVAL_NULL \<Rightarrow> Some (NullPointer, 0) | _ \<Rightarrow> None),
      gjs_value_from_g_argument =
        (\<lambda>t a. case a of IntValue n \<Rightarrow> Some (JSInt n) | NullPointer \<Rightarrow> Some JSVAL_NULL
                | SlicePointer b \<Rightarrow> Some (JSObject b) | NativeData d \<Rightarrow> Some (JSObject d)
                | _ \<Rightarrow> None),
      gjs_value_from_explicit_array =
        (\<lambda>t a l. case a of NativeData d \<Rightarrow> Some (JSObject d) | NullPointer \<Rightarrow> Some JSVAL_NULL
                  | _ \<Rightarrow> None),
      gjs_value_to_g_argument =
        (\<lambda>v t. case v of JSInt n \<Rightarrow> Some (IntValue n) | JSVAL_VOID \<Rightarrow> Some NullPointer
                | _ \<Rightarrow> None),
      gjs_g_argument_init_default = (\<lambda>t. IntValue 0),
      gjs_g_argument_release = (\<lambda>tr t a. True),
      gjs_g_argument_release_out_array = (\<lambda>tr t l a. True),
      gjs_g_argument_release_in_arg = (\<lambda>tr t a. True),
      gjs_g_argument_release_in_array = (\<lambda>tr t l a. True),
      gjs_c_struct_from_boxed = (\<lambda>v. NativeData 0),
      gjs_c_union_from_union = (\<lambda>v. NativeData 0),
      gjs_g_object_from_object = (\<lambda>v. NativeData 0),
      g_type_is_a = (\<lambda>a f. True),
      JS_CallFunctionValue = (\<lambda>f args. if f = JSFunction 0 then None else Some JSVAL_VOID),
      JS_NewArrayObject = (\<lambda>vs. Some (JSArrayObject vs)),
      g_callable_info_args = (\<lambda>b. []),
      g_callable_info_return_type = (\<lambda>b. scalar_type GI_TYPE_TAG_INT32)\<rparr>"

text \<open>
  \<^verbatim>\<open>g_function_info_prep_invoker\<close> for a native function \<open>fn\<close>: the prepared interface
  takes the described parameters, the instance of a method and the error pointer of a
  function that can throw.
\<close>

definition prepared_invoker ::
  "(GArgument list \<Rightarrow> native_effect) \<Rightarrow> GIFunctionInfo \<Rightarrow> GIFunctionInvoker option" where
  "prepared_invoker fn finfo =
     Some \<lparr>cif_nargs = length (fi_args finfo) + (if fi_is_method finfo then 1 else 0)
                         + (if fi_throws finfo then 1 else 0),
           native_address = fn\<rparr>"



text \<open>
  The test of lines 1139--1147 that makes a parameter a \<^verbatim>\<open>GDestroyNotify\<close>: an
  interface type that is a callback named \<^verbatim>\<open>DestroyNotify\<close> in namespace \<^verbatim>\<open>GLib\<close>.
\<close>

definition is_destroy_notify :: "GIArgInfo \<Rightarrow> bool" where
  "is_destroy_notify a =
     (ti_tag (ai_type a) = GI_TYPE_TAG_INTERFACE
      \<and> bi_info_type (ti_interface (ai_type a)) = GI_INFO_TYPE_CALLBACK
      \<and> bi_name (ti_interface (ai_type a)) = ''DestroyNotify''
      \<and> bi_namespace (ti_interface (ai_type a)) = ''GLib'')"

text \<open>
  \<^verbatim>\<open>void on_destroy (GDestroyNotify notify, gint x)\<close>: a destroy notifier that no
  callback parameter names as its companion.
\<close>

definition on_destroy_info :: GIFunctionInfo where
  "on_destroy_info =
     plain_function ''on_destroy''
       [plain_arg ''notify'' GI_DIRECTION_IN
          (interface_type GI_INFO_TYPE_CALLBACK ''GLib'' ''DestroyNotify'' 0),
        plain_arg ''x'' GI_DIRECTION_IN (scalar_type GI_TYPE_TAG_INT32)]
       (scalar_type GI_TYPE_TAG_VOID)"

text \<open>A native function that returns 10, stores 10 in every output and calls nothing back.\<close>

definition writes_ten :: "GArgument list \<Rightarrow> native_effect" where
  "writes_ten args =
     \<lparr>ne_return_value = IntValue 10, ne_out_values = (\<lambda>k. IntValue 10), ne_error = None,
      ne_actions = []\<rparr>"

text \<open>
  \<^verbatim>\<open>void lookup (gint key, gint *n_items, gint **items)\<close>: the out-direction array
  follows its out-direction length parameter.
\<close>

definition lookup_info :: GIFunctionInfo where
  "lookup_info =
     plain_function ''lookup''
       [plain_arg ''key'' GI_DIRECTION_IN (scalar_type GI_TYPE_TAG_INT32),
        plain_arg ''n_items'' GI_DIRECTION_OUT (scalar_type GI_TYPE_TAG_INT32),
        plain_arg ''items'' GI_DIRECTION_OUT (c_array_type 1)]
       (scalar_type GI_TYPE_TAG_VOID)"

text \<open>
  \<^verbatim>\<open>void fill (Rect *rect, gint x)\<close>: \<^verbatim>\<open>rect\<close> is an out-direction, caller-allocates
  structure of 16 bytes.
\<close>

definition fill_info :: GIFunctionInfo where
  "fill_info =
     plain_function ''fill''
       [(plain_arg ''rect'' GI_DIRECTION_OUT (interface_type GI_INFO_TYPE_STRUCT ''Test'' ''Rect'' 16))
          \<lparr>ai_caller_allocates := True\<rparr>,
        plain_arg ''x'' GI_DIRECTION_IN (scalar_type GI_TYPE_TAG_INT32)]
       (scalar_type GI_TYPE_TAG_VOID)"

text \<open>\<^verbatim>\<open>gint parse (gint x, GError **error)\<close>: a function with the error channel.\<close>

definition parse_info :: GIFunctionInfo where
  "parse_info =
     (plain_function ''parse''
        [plain_arg ''x'' GI_DIRECTION_IN (scalar_type GI_TYPE_TAG_INT32)]
        (scalar_type GI_TYPE_TAG_INT32))\<lparr>fi_throws := True\<rparr>"

text \<open>A native function that reports the error \<^verbatim>\<open>boom\<close> and calls nothing back.\<close>

definition reports_boom :: "GArgument list \<Rightarrow> native_effect" where
  "reports_boom args =
     \<lparr>ne_return_value = IntValue 0, ne_out_values = (\<lambda>k. Uninitialised),
      ne_error = Some ''boom'', ne_actions = []\<rparr>"


definition each_info :: GIFunctionInfo where
  "each_info =
     plain_function ''each''
       [callback_arg ''cb'' GI_DIRECTION_IN GI_SCOPE_TYPE_CALL (- 1) (- 1)]
       (scalar_type GI_TYPE_TAG_VOID)"






text \<open>A native function for \<^verbatim>\<open>lookup\<close>: two items in the buffer \<open>NativeData 7\<close>.\<close>

definition writes_items :: "GArgument list \<Rightarrow> native_effect" where
  "writes_items args =
     \<lparr>ne_return_value = Uninitialised,
      ne_out_values = (\<lambda>k. if k = 2 then NativeData 7 else IntValue 2),
      ne_error = None, ne_actions = []\<rparr>"

text \<open>
  The descriptors the classifier builds for these functions (each is shown below to be
  its result), for a native function \<open>fn\<close>.
\<close>

definition parse_function :: "GIFunctionInvoker Function" where
  "parse_function =
     \<lparr>info = parse_info, param_types = [PARAM_NORMAL], expected_js_argc = 1, js_out_argc = 1,
      invoker = \<lparr>cif_nargs = 2, native_address = reports_boom\<rparr>\<rparr>"

definition lookup_function :: "GIFunctionInvoker Function" where
  "lookup_function =
     \<lparr>info = lookup_info, param_types = [PARAM_NORMAL, PARAM_SKIPPED, PARAM_ARRAY],
      expected_js_argc = 0, js_out_argc = 1,
      invoker = \<lparr>cif_nargs = 3, native_address = writes_items\<rparr>\<rparr>"

definition fill_function :: "GIFunctionInvoker Function" where
  "fill_function =
     \<lparr>info = fill_info, param_types = [PARAM_NORMAL, PARAM_NORMAL],
      expected_js_argc = 1, js_out_argc = 1,
      invoker = \<lparr>cif_nargs = 2, native_address = writes_ten\<rparr>\<rparr>"


definition each_function :: "(GArgument list \<Rightarrow> native_effect) \<Rightarrow> GIFunctionInvoker Function" where
  "each_function fn =
     \<lparr>info = each_info, param_types = [PARAM_CALLBACK],
      expected_js_argc = 1, js_out_argc = 0,
      invoker = \<lparr>cif_nargs = 1, native_address = fn\<rparr>\<rparr>"

text \<open>
  \<^verbatim>\<open>void resize (gint *n_items, gint **items)\<close>: an inout C array whose inout length
  parameter comes first, and the descriptor the classifier builds for it.
\<close>

definition resize_info :: GIFunctionInfo where
  "resize_info =
     plain_function ''resize''
       [plain_arg ''n_items'' GI_DIRECTION_INOUT (scalar_type GI_TYPE_TAG_INT32),
        plain_arg ''items'' GI_DIRECTION_INOUT (c_array_type 0)]
       (scalar_type GI_TYPE_TAG_VOID)"

definition resize_function :: "GIFunctionInvoker Function" where
  "resize_function =
     \<lparr>info = resize_info, param_types = [PARAM_SKIPPED, PARAM_ARRAY],
      expected_js_argc = 1, js_out_argc = 1,
      invoker = \<lparr>cif_nargs = 2, native_address = writes_ten\<rparr>\<rparr>"


text \<open>
  \<^verbatim>\<open>void merge (gint **first, gint **second, gint *n_items)\<close>: two inout C arrays that
  share one inout length parameter, and the descriptor the classifier builds for it.
\<close>

definition merge_info :: GIFunctionInfo where
  "merge_info =
     plain_function ''merge''
       [plain_arg ''first'' GI_DIRECTION_INOUT (c_array_type 2),
        plain_arg ''second'' GI_DIRECTION_INOUT (c_array_type 2),
        plain_arg ''n_items'' GI_DIRECTION_INOUT (scalar_type GI_TYPE_TAG_INT32)]
       (scalar_type GI_TYPE_TAG_VOID)"

definition merge_function :: "GIFunctionInvoker Function" where
  "merge_function =
     \<lparr>info = merge_info, param_types = [PARAM_ARRAY, PARAM_ARRAY, PARAM_SKIPPED],
      expected_js_argc = 2, js_out_argc = 2,
      invoker = \<lparr>cif_nargs = 3, native_address = writes_ten\<rparr>\<rparr>"
section \<open>Notions used in the properties\<close>

text \<open>The effects marshaling never has.\<close>

definition untouched_by_marshaling :: "gjs_state \<Rightarrow> gjs_state \<Rightarrow> bool" where
  "untouched_by_marshaling st st' \<longleftrightarrow>
     completed_trampolines st' = completed_trampolines st
     \<and> freed_trampolines st' = freed_trampolines st
     \<and> slice_freed st' = slice_freed st
     \<and> logged_exceptions st' = logged_exceptions st
     \<and> native_calls st' = native_calls st
     \<and> in_releases st' = in_releases st
     \<and> out_conversions st' = out_conversions st"

text \<open>
  The parameters the release loop hands to an input release helper: in or inout, with
  the role \<open>PARAM_NORMAL\<close> or \<open>PARAM_ARRAY\<close>. \<open>releases_succeed\<close>: no input release helper
  reports failure.
\<close>

definition released_as_input :: "'inv Function \<Rightarrow> nat \<Rightarrow> bool" where
  "released_as_input function j \<longleftrightarrow>
     ai_direction (fi_args (info function) ! j) \<noteq> GI_DIRECTION_OUT
     \<and> (param_types function ! j = PARAM_NORMAL \<or> param_types function ! j = PARAM_ARRAY)"

definition releases_succeed :: "collaborators \<Rightarrow> bool" where
  "releases_succeed env \<longleftrightarrow>
     (\<forall>tr t a. gjs_g_argument_release_in_arg env tr t a)
     \<and> (\<forall>tr t l a. gjs_g_argument_release_in_array env tr t l a)"



text \<open>
  The native position of a parameter, the slots another parameter's marshaling step
  names (the companions of a callback, the length of an array), the parameters that
  consume a dynamic argument and the position of a parameter's argument among them.
  \<open>length_parameters_skipped\<close>: every array-role parameter has its length parameter in
  range, of its own direction, and skipped unless it is the array itself.
\<close>

definition slot_of :: "'inv Function \<Rightarrow> nat \<Rightarrow> nat" where
  "slot_of function j = (if fi_is_method (info function) then j + 1 else j)"

definition names_slot :: "'inv Function \<Rightarrow> nat \<Rightarrow> nat \<Rightarrow> bool" where
  "names_slot function j k \<longleftrightarrow>
     (let a = fi_args (info function) ! j in
      ai_direction a \<noteq> GI_DIRECTION_OUT
      \<and> ((param_types function ! j = PARAM_CALLBACK
           \<and> ((0 \<le> ai_destroy a \<and> k = slot_of function (nat (ai_destroy a)))
              \<or> (0 \<le> ai_closure a \<and> k = slot_of function (nat (ai_closure a)))))
         \<or> (param_types function ! j = PARAM_ARRAY
             \<and> 0 \<le> ti_array_length (ai_type a)
             \<and> k = slot_of function (nat (ti_array_length (ai_type a))))))"

definition consumes_argument :: "'inv Function \<Rightarrow> nat \<Rightarrow> bool" where
  "consumes_argument function j \<longleftrightarrow>
     ai_direction (fi_args (info function) ! j) \<noteq> GI_DIRECTION_OUT
     \<and> param_types function ! j \<noteq> PARAM_SKIPPED"

definition js_position :: "'inv Function \<Rightarrow> nat \<Rightarrow> nat" where
  "js_position function i = length (filter (consumes_argument function) [0..<i])"

definition length_parameters_skipped :: "'inv Function \<Rightarrow> bool" where
  "length_parameters_skipped function \<longleftrightarrow>
     (\<forall>k < length (param_types function).
        param_types function ! k = PARAM_ARRAY \<longrightarrow>
          (let l = unat (to_guint8 (ti_array_length (ai_type (fi_args (info function) ! k))))
           in l < length (param_types function)
              \<and> ai_direction (fi_args (info function) ! l)
                  = ai_direction (fi_args (info function) ! k)
              \<and> (l = k \<or> param_types function ! l = PARAM_SKIPPED)))"

abbreviation same_slot :: "call_frame \<Rightarrow> call_frame \<Rightarrow> nat \<Rightarrow> bool" where
  "same_slot fr fr' k \<equiv>
     in_arg_cvalues fr' k = in_arg_cvalues fr k
     \<and> out_arg_cvalues fr' k = out_arg_cvalues fr k
     \<and> inout_original_arg_cvalues fr' k = inout_original_arg_cvalues fr k"


definition callback_parameter :: "'inv Function \<Rightarrow> nat \<Rightarrow> bool" where
  "callback_parameter function j \<longleftrightarrow>
     ai_direction (fi_args (info function) ! j) \<noteq> GI_DIRECTION_OUT
     \<and> j < length (param_types function)
     \<and> param_types function ! j = PARAM_CALLBACK"

definition callback_value :: "'inv Function \<Rightarrow> call_frame \<Rightarrow> nat \<Rightarrow> GArgument" where
  "callback_value function fr j =
     (if ai_direction (fi_args (info function) ! j) = GI_DIRECTION_IN
      then in_arg_cvalues fr (slot_of function j)
      else inout_original_arg_cvalues fr (slot_of function j))"

definition held :: "'inv Function \<Rightarrow> call_frame \<Rightarrow> nat list \<Rightarrow> nat \<Rightarrow> bool" where
  "held function fr js t \<longleftrightarrow>
     (\<exists>j \<in> set js. callback_parameter function j
        \<and> callback_value function fr j = ClosurePointer t)"



definition call_scoped_held :: "'inv Function \<Rightarrow> call_frame \<Rightarrow> nat list \<Rightarrow> gjs_state \<Rightarrow> nat \<Rightarrow> bool" where
  "call_scoped_held function fr js st t \<longleftrightarrow>
     (\<forall>tr. trampolines st t = Some tr \<and> tr_scope tr = GI_SCOPE_TYPE_CALL
        \<longrightarrow> ref_count tr = 1 \<and> held function fr js t)"


text \<open>
  What the marshaling loop has prepared in native position \<open>k\<close>: the argument the native
  function receives there, and the output slot.
\<close>

definition native_argument ::
  "GIFunctionInvoker Function \<Rightarrow> nat \<Rightarrow> call_frame \<times> gjs_state \<Rightarrow> GArgument" where
  "native_argument function k fs =
     native_args function (unat (of_nat (cif_nargs (invoker function)) :: guint8)) (fst fs) ! k"

definition output_slot :: "nat \<Rightarrow> call_frame \<times> gjs_state \<Rightarrow> GArgument" where
  "output_slot k fs = out_arg_cvalues (fst fs) k"
section \<open>Properties of the classifier\<close>

lemmas fixture_defs =
  no_interface_def scalar_type_def c_array_type_def interface_type_def plain_arg_def
  callback_arg_def plain_function_def

lemmas classifier_defs =
  init_cached_function_data_def classify_arg_def classify_interface_def classify_array_def
  count_arg_def to_guint8_def

lemma upt_0_2: "[0..<2] = [0, 1]"
  by (simp add: upt_rec)

lemma replicate_2: "replicate 2 x = [x, x]"
  by (simp add: numeral_2_eq_2)

text \<open>
  The check for a destroy notifier without user data compares two \<^verbatim>\<open>guint8\<close> values
  with 0, so it never fires: no descriptor is rejected with that error.
\<close>

lemma classify_interface_never_rejects_destroy:
  "classify_interface finfo n i a f \<noteq>
     Inl (UnsupportedSignature ''has a GDestroyNotify but no user_data, not supported'')"
  by (simp add: classify_interface_def Let_def)

lemma classify_arg_never_rejects_destroy:
  "classify_arg finfo n i f \<noteq>
     Inl (UnsupportedSignature ''has a GDestroyNotify but no user_data, not supported'')"
  using classify_interface_never_rejects_destroy [of finfo n i "fi_args finfo ! i" f]
  by (auto simp: classify_arg_def classify_array_def Let_def split: sum.splits if_splits)

lemma classify_loop_never_rejects_destroy:
  "classify_loop finfo n idxs f \<noteq>
     Inl (UnsupportedSignature ''has a GDestroyNotify but no user_data, not supported'')"
proof (induction idxs arbitrary: f)
  case Nil
  show ?case by simp
next
  case (Cons i idxs)
  show ?case
    using classify_arg_never_rejects_destroy [of finfo n i f] Cons.IH
    by (cases "classify_arg finfo n i f") auto
qed

lemma destroy_check_is_dead:
  "init_cached_function_data prep finfo \<noteq>
     Inl (UnsupportedSignature ''has a GDestroyNotify but no user_data, not supported'')"
  using classify_loop_never_rejects_destroy
  by (auto simp: init_cached_function_data_def Let_def split: option.splits)

text \<open>
  Claim C2 (a callback with a destroy notifier and no user-data parameter makes the
  descriptor fail with UnsupportedSignature). The code does not do that: for
  \<^verbatim>\<open>watch (cb, notify)\<close>, whose callback names parameter 1 as destroy notifier and has
  no user data, the classifier returns a descriptor, with the callback counted as the
  one expected argument and the notifier skipped.
\<close>

theorem watch_descriptor_is_built:
  "init_cached_function_data (\<lambda>_. Some ()) watch_info =
     Inr \<lparr>info = watch_info, param_types = [PARAM_CALLBACK, PARAM_SKIPPED],
          expected_js_argc = 1, js_out_argc = 0, invoker = ()\<rparr>"
  by (simp add: classifier_defs fixture_defs watch_info_def upt_0_2 replicate_2 Let_def)

text \<open>
  Claim C4 (an array whose length parameter precedes it takes back exactly what the
  length parameter had added to the two counts, for every direction). The code takes 1
  from \<^verbatim>\<open>expected_js_argc\<close> whatever the direction: for the out-direction array of
  \<^verbatim>\<open>read_all (n_items, items)\<close> the length had added nothing to it, and the \<^verbatim>\<open>guint8\<close>
  count wraps from 0 to 255.
\<close>

theorem read_all_expects_255_arguments:
  "init_cached_function_data (\<lambda>_. Some ()) read_all_info =
     Inr \<lparr>info = read_all_info, param_types = [PARAM_SKIPPED, PARAM_ARRAY],
          expected_js_argc = 255, js_out_argc = 1, invoker = ()\<rparr>"
  by (simp add: classifier_defs fixture_defs read_all_info_def upt_0_2 replicate_2 Let_def)

text \<open>
  Frame properties of one classifier iteration: the number of roles does not change, a
  role that is \<open>PARAM_SKIPPED\<close> stays so, and the metadata handle is kept.
\<close>

lemma nth_list_update_same_value: "xs ! j = v \<Longrightarrow> (xs[k := v]) ! j = v"
  by (cases "k = j"; cases "j < length xs") (simp_all add: list_update_beyond)

lemma count_arg_param_types [simp]: "param_types (count_arg d i f) = param_types f"
  by (simp add: count_arg_def Let_def)

lemma classify_interface_length:
  "classify_interface finfo n i a f = Inr f' \<Longrightarrow> length (param_types f') = length (param_types f)"
  by (auto simp: classify_interface_def Let_def split: if_splits)

lemma classify_array_length:
  "classify_array finfo n i a f = Inr f' \<Longrightarrow> length (param_types f') = length (param_types f)"
  by (auto simp: classify_array_def Let_def split: if_splits)

lemma classify_interface_keeps_skipped:
  "classify_interface finfo n i a f = Inr f' \<Longrightarrow> j \<noteq> i \<Longrightarrow> param_types f ! j = PARAM_SKIPPED
     \<Longrightarrow> param_types f' ! j = PARAM_SKIPPED"
  by (auto simp: classify_interface_def Let_def nth_list_update_same_value split: if_splits)

lemma classify_array_keeps_skipped:
  "classify_array finfo n i a f = Inr f' \<Longrightarrow> j \<noteq> i \<Longrightarrow> param_types f ! j = PARAM_SKIPPED
     \<Longrightarrow> param_types f' ! j = PARAM_SKIPPED"
  by (auto simp: classify_array_def Let_def nth_list_update_same_value split: if_splits)

lemma classify_arg_cases:
  assumes "classify_arg finfo n i f = Inr f'"
  obtains (skipped) "param_types f ! i = PARAM_SKIPPED" "f' = f"
    | (interface) f1 where "param_types f ! i \<noteq> PARAM_SKIPPED"
        "classify_interface finfo n i (fi_args finfo ! i) f = Inr f1"
        "f' = count_arg (ai_direction (fi_args finfo ! i)) i f1"
    | (array) f1 where "param_types f ! i \<noteq> PARAM_SKIPPED"
        "classify_array finfo n i (fi_args finfo ! i) f = Inr f1"
        "f' = count_arg (ai_direction (fi_args finfo ! i)) i f1"
    | (other) "param_types f ! i \<noteq> PARAM_SKIPPED"
        "f' = count_arg (ai_direction (fi_args finfo ! i)) i f"
  using assms
  by (auto simp: classify_arg_def Let_def split: if_splits sum.splits)

lemma classify_arg_length:
  "classify_arg finfo n i f = Inr f' \<Longrightarrow> length (param_types f') = length (param_types f)"
  by (erule classify_arg_cases) (simp_all add: classify_interface_length classify_array_length)

lemma classify_arg_keeps_skipped:
  "classify_arg finfo n i f = Inr f' \<Longrightarrow> param_types f ! j = PARAM_SKIPPED
     \<Longrightarrow> param_types f' ! j = PARAM_SKIPPED"
proof (erule classify_arg_cases)
  fix f1
  assume s: "param_types f ! j = PARAM_SKIPPED" and n: "param_types f ! i \<noteq> PARAM_SKIPPED"
    and f': "f' = count_arg (ai_direction (fi_args finfo ! i)) i f1"
  from s n have ji: "j \<noteq> i" by auto
  {
    assume "classify_interface finfo n i (fi_args finfo ! i) f = Inr f1"
    from classify_interface_keeps_skipped [OF this ji s] f'
    show "param_types f' ! j = PARAM_SKIPPED" by simp
  next
    assume "classify_array finfo n i (fi_args finfo ! i) f = Inr f1"
    from classify_array_keeps_skipped [OF this ji s] f'
    show "param_types f' ! j = PARAM_SKIPPED" by simp
  }
qed simp_all

lemma classify_loop_length:
  "classify_loop finfo n idxs f = Inr f' \<Longrightarrow> length (param_types f') = length (param_types f)"
  by (induction idxs arbitrary: f) (auto split: sum.splits dest: classify_arg_length)

lemma classify_loop_keeps_skipped:
  "classify_loop finfo n idxs f = Inr f' \<Longrightarrow> param_types f ! j = PARAM_SKIPPED
     \<Longrightarrow> param_types f' ! j = PARAM_SKIPPED"
  by (induction idxs arbitrary: f) (auto split: sum.splits dest: classify_arg_keeps_skipped)

lemma classify_loop_append:
  "classify_loop finfo n (xs @ ys) f =
     (case classify_loop finfo n xs f of Inl e \<Rightarrow> Inl e | Inr f1 \<Rightarrow> classify_loop finfo n ys f1)"
  by (induction xs arbitrary: f) (auto split: sum.splits)

lemma classify_destroy_notify_step:
  assumes "is_destroy_notify (fi_args finfo ! i)" and "param_types f ! i \<noteq> PARAM_SKIPPED"
    and "i < length (param_types f)"
  shows "classify_arg finfo n i f = Inr (f\<lparr>param_types := (param_types f)[i := PARAM_SKIPPED]\<rparr>)"
  using assms
  by (simp add: is_destroy_notify_def classify_arg_def classify_interface_def count_arg_def Let_def)


lemma count_arg_info [simp]: "info (count_arg d i f) = info f"
  by (simp add: count_arg_def Let_def)

lemma classify_arg_info: "classify_arg finfo n i f = Inr f' \<Longrightarrow> info f' = info f"
  by (erule classify_arg_cases)
     (auto simp: classify_interface_def classify_array_def Let_def split: if_splits)

lemma classify_loop_info: "classify_loop finfo n idxs f = Inr f' \<Longrightarrow> info f' = info f"
  by (induction idxs arbitrary: f) (auto split: sum.splits dest: classify_arg_info)

lemma init_cached_function_data_info:
  "init_cached_function_data prep finfo = Inr function \<Longrightarrow> info function = finfo"
  by (auto simp: init_cached_function_data_def Let_def split: option.splits
      dest: classify_loop_info)

lemma init_cached_function_data_length:
  "init_cached_function_data prep finfo = Inr function \<Longrightarrow>
     length (param_types function) = unat (of_nat (length (fi_args finfo)) :: guint8)"
  by (auto simp: init_cached_function_data_def Let_def split: option.splits if_splits
      dest!: classify_loop_length)

lemma classify_loop_destroy_notify:
  assumes "classify_loop finfo n [0..<m] f = Inr f'" and "i < m" and "m = length (param_types f)"
    and "is_destroy_notify (fi_args finfo ! i)"
  shows "param_types f' ! i = PARAM_SKIPPED"
proof -
  have split: "[0..<m] = [0..<i] @ i # [Suc i..<m]"
    using \<open>i < m\<close> by (metis le_add1 less_imp_add_positive upt_add_eq_append upt_conv_Cons zero_less_iff_neq_zero add_0 less_or_eq_imp_le zero_le)
  from assms(1) obtain f1 f2 where
    1: "classify_loop finfo n [0..<i] f = Inr f1" and
    2: "classify_arg finfo n i f1 = Inr f2" and
    3: "classify_loop finfo n [Suc i..<m] f2 = Inr f'"
    unfolding split by (auto simp: classify_loop_append split: sum.splits)
  have len: "i < length (param_types f1)"
    using classify_loop_length [OF 1] assms(2,3) by simp
  have "param_types f2 ! i = PARAM_SKIPPED"
  proof (cases "param_types f1 ! i = PARAM_SKIPPED")
    case True
    with 2 show ?thesis by (simp add: classify_arg_def)
  next
    case False
    from classify_destroy_notify_step [OF assms(4) False len, of n] 2 len
    show ?thesis by auto
  qed
  with 3 show ?thesis by (rule classify_loop_keeps_skipped)
qed

lemma marshal_skipped_keeps_js_arg_pos:
  assumes "marshal_arg env function c_argc js_argv i fs = Some fs'"
    and "param_types function ! i = PARAM_SKIPPED"
  shows "js_arg_pos (fst fs') = js_arg_pos (fst fs)"
  using assms
  by (auto simp: marshal_arg_def marshal_dispatch_def count_processed_def marshal_out_arg_def
      Let_def split: if_splits)

lemma destroy_notify_step_counts:
  assumes "is_destroy_notify (fi_args finfo ! i)" and "param_types f ! i \<noteq> PARAM_SKIPPED"
    and "i < length (param_types f)"
  shows "\<exists>f'. classify_arg finfo n i f = Inr f'
              \<and> param_types f' = (param_types f)[i := PARAM_SKIPPED]
              \<and> expected_js_argc f' = expected_js_argc f \<and> js_out_argc f' = js_out_argc f"
  using classify_destroy_notify_step [OF assms, of n] by simp

text \<open>
  Claim C10. A parameter of the function whose type is the callback \<^verbatim>\<open>DestroyNotify\<close> of
  namespace \<^verbatim>\<open>GLib\<close> ends classification with the role \<open>PARAM_SKIPPED\<close>. Where it was not
  marked before its own iteration, that iteration marks it skipped whatever its other
  attributes are and leaves \<^verbatim>\<open>expected_js_argc\<close> and \<^verbatim>\<open>js_out_argc\<close> as they were. When
  arguments are marshaled, its iteration consumes no dynamic argument: \<^verbatim>\<open>js_arg_pos\<close>
  is unchanged.
\<close>

theorem destroy_notify_parameter_is_skipped:
  assumes "init_cached_function_data prep finfo = Inr function"
    and "i < unat (of_nat (length (fi_args finfo)) :: guint8)"
    and "is_destroy_notify (fi_args finfo ! i)"
  shows "param_types function ! i = PARAM_SKIPPED
         \<and> (\<forall>f n. param_types f ! i \<noteq> PARAM_SKIPPED \<and> i < length (param_types f) \<longrightarrow>
               (\<exists>f'. classify_arg finfo n i f = Inr f'
                     \<and> param_types f' = (param_types f)[i := PARAM_SKIPPED]
                     \<and> expected_js_argc f' = expected_js_argc f
                     \<and> js_out_argc f' = js_out_argc f))
         \<and> (\<forall>env c_argc js_argv fs fs'.
               marshal_arg env function c_argc js_argv i fs = Some fs' \<longrightarrow>
                 js_arg_pos (fst fs') = js_arg_pos (fst fs))"
proof (intro conjI allI impI)
  from assms(1) obtain f0 where
    loop: "classify_loop finfo (of_nat (length (fi_args finfo)))
             [0..<unat (of_nat (length (fi_args finfo)) :: guint8)] f0 = Inr function"
    and len: "length (param_types f0) = unat (of_nat (length (fi_args finfo)) :: guint8)"
    by (auto simp: init_cached_function_data_def Let_def split: option.splits if_splits)
  from classify_loop_destroy_notify [OF loop assms(2) len [symmetric] assms(3)]
  show skipped: "param_types function ! i = PARAM_SKIPPED" .
  fix env c_argc js_argv fs fs'
  assume "marshal_arg env function c_argc js_argv i fs = Some fs'"
  from marshal_skipped_keeps_js_arg_pos [OF this skipped]
  show "js_arg_pos (fst fs') = js_arg_pos (fst fs)" .
next
  fix f :: "'c Function" and n
  assume "param_types f ! i \<noteq> PARAM_SKIPPED \<and> i < length (param_types f)"
  then show "\<exists>f'. classify_arg finfo n i f = Inr f'
              \<and> param_types f' = (param_types f)[i := PARAM_SKIPPED]
              \<and> expected_js_argc f' = expected_js_argc f \<and> js_out_argc f' = js_out_argc f"
    using destroy_notify_step_counts [OF assms(3)] by blast
qed


theorem destroy_notify_parameter_is_skipped_witness:
  "is_destroy_notify (fi_args on_destroy_info ! 0)
   \<and> (\<exists>f. init_cached_function_data (prepared_invoker writes_ten) on_destroy_info = Inr f
          \<and> param_types f = [PARAM_SKIPPED, PARAM_NORMAL] \<and> expected_js_argc f = 1)"
proof -
  have built: "init_cached_function_data (prepared_invoker writes_ten) on_destroy_info =
      Inr \<lparr>info = on_destroy_info, param_types = [PARAM_SKIPPED, PARAM_NORMAL],
           expected_js_argc = 1, js_out_argc = 0,
           invoker = \<lparr>cif_nargs = 2, native_address = writes_ten\<rparr>\<rparr>"
    by (simp add: classifier_defs fixture_defs on_destroy_info_def prepared_invoker_def
        upt_0_2 replicate_2 Let_def)
  have pos: "0 < unat (of_nat (length (fi_args on_destroy_info)) :: guint8)"
    by (simp add: on_destroy_info_def fixture_defs)
  have dn: "is_destroy_notify (fi_args on_destroy_info ! 0)"
    by (simp add: is_destroy_notify_def on_destroy_info_def fixture_defs)
  from destroy_notify_parameter_is_skipped [OF built pos dn] built dn
  show ?thesis by simp
qed

section \<open>Length parameters in a built descriptor\<close>

text \<open>The classifier leaves every length parameter of an array skipped.\<close>

lemma lps_cong:
  "info f' = info f \<Longrightarrow> param_types f' = param_types f
     \<Longrightarrow> length_parameters_skipped f' = length_parameters_skipped f"
  by (simp add: length_parameters_skipped_def)

lemma update_other_value: "(xs[j := v]) ! k = w \<Longrightarrow> w \<noteq> v \<Longrightarrow> k < length xs \<Longrightarrow> xs ! k = w"
  by (cases "k = j") auto

lemma skipped_survives:
  "xs ! m = PARAM_SKIPPED \<Longrightarrow> xs ! i \<noteq> PARAM_SKIPPED \<Longrightarrow> (xs[i := v]) ! m = PARAM_SKIPPED"
  by (cases "m = i") auto

lemma lps_skip:
  assumes "length_parameters_skipped f"
  shows "length_parameters_skipped (f\<lparr>param_types := (param_types f)[j := PARAM_SKIPPED]\<rparr>)"
  unfolding length_parameters_skipped_def
proof (intro allI impI)
  fix k
  let ?pts = "param_types (f\<lparr>param_types := (param_types f)[j := PARAM_SKIPPED]\<rparr>)"
  assume k: "k < length ?pts" and a: "?pts ! k = PARAM_ARRAY"
  from k have k': "k < length (param_types f)" by simp
  from a have "(param_types f)[j := PARAM_SKIPPED] ! k = PARAM_ARRAY" by simp
  from update_other_value [OF this _ k'] have "param_types f ! k = PARAM_ARRAY" by simp
  with assms k' show "let l = unat (to_guint8 (ti_array_length (ai_type (fi_args (info
         (f\<lparr>param_types := (param_types f)[j := PARAM_SKIPPED]\<rparr>)) ! k))))
       in l < length ?pts
          \<and> ai_direction (fi_args (info (f\<lparr>param_types := (param_types f)[j := PARAM_SKIPPED]\<rparr>)) ! l)
             = ai_direction (fi_args (info (f\<lparr>param_types := (param_types f)[j := PARAM_SKIPPED]\<rparr>)) ! k)
          \<and> (l = k \<or> ?pts ! l = PARAM_SKIPPED)"
    by (auto simp: length_parameters_skipped_def Let_def nth_list_update_same_value)
qed

lemma lps_callback:
  assumes "length_parameters_skipped f" and "param_types f ! i \<noteq> PARAM_SKIPPED"
  shows "length_parameters_skipped (f\<lparr>param_types := (param_types f)[i := PARAM_CALLBACK]\<rparr>)"
  unfolding length_parameters_skipped_def
proof (intro allI impI)
  fix k
  let ?f = "f\<lparr>param_types := (param_types f)[i := PARAM_CALLBACK]\<rparr>"
  assume k: "k < length (param_types ?f)" and a: "param_types ?f ! k = PARAM_ARRAY"
  from k have k': "k < length (param_types f)" by simp
  from a have "(param_types f)[i := PARAM_CALLBACK] ! k = PARAM_ARRAY" by simp
  from update_other_value [OF this _ k'] have "param_types f ! k = PARAM_ARRAY" by simp
  with assms(1) k' have q: "let m = unat (to_guint8 (ti_array_length (ai_type (fi_args (info f) ! k))))
       in m < length (param_types f)
          \<and> ai_direction (fi_args (info f) ! m) = ai_direction (fi_args (info f) ! k)
          \<and> (m = k \<or> param_types f ! m = PARAM_SKIPPED)"
    by (simp add: length_parameters_skipped_def)
  then show "let l = unat (to_guint8 (ti_array_length (ai_type (fi_args (info ?f) ! k))))
       in l < length (param_types ?f)
          \<and> ai_direction (fi_args (info ?f) ! l) = ai_direction (fi_args (info ?f) ! k)
          \<and> (l = k \<or> param_types ?f ! l = PARAM_SKIPPED)"
    using skipped_survives [OF _ assms(2)] by (auto simp: Let_def)
qed

lemma lps_array:
  assumes p: "length_parameters_skipped f" and ns: "param_types f ! i \<noteq> PARAM_SKIPPED"
    and l: "l = unat (to_guint8 (ti_array_length (ai_type (fi_args (info f) ! i))))"
    and len: "l < length (param_types f)"
    and dir: "ai_direction (fi_args (info f) ! l) = ai_direction (fi_args (info f) ! i)"
  shows "length_parameters_skipped
           (f\<lparr>param_types := (param_types f)[l := PARAM_SKIPPED, i := PARAM_ARRAY]\<rparr>)"
  unfolding length_parameters_skipped_def
proof (intro allI impI)
  fix k
  let ?f = "f\<lparr>param_types := (param_types f)[l := PARAM_SKIPPED, i := PARAM_ARRAY]\<rparr>"
  assume k: "k < length (param_types ?f)" and a: "param_types ?f ! k = PARAM_ARRAY"
  from k have k': "k < length (param_types f)" by simp
  show "let l = unat (to_guint8 (ti_array_length (ai_type (fi_args (info ?f) ! k))))
       in l < length (param_types ?f)
          \<and> ai_direction (fi_args (info ?f) ! l) = ai_direction (fi_args (info ?f) ! k)
          \<and> (l = k \<or> param_types ?f ! l = PARAM_SKIPPED)"
  proof (cases "k = i")
    case True
    with l len dir k' show ?thesis by (auto simp: Let_def nth_list_update)
  next
    case False
    with a k' have "(param_types f)[l := PARAM_SKIPPED] ! k = PARAM_ARRAY" by simp
    from update_other_value [OF this _ k'] have ak: "param_types f ! k = PARAM_ARRAY" by simp
    with p k' have q: "let m = unat (to_guint8 (ti_array_length (ai_type (fi_args (info f) ! k))))
       in m < length (param_types f)
          \<and> ai_direction (fi_args (info f) ! m) = ai_direction (fi_args (info f) ! k)
          \<and> (m = k \<or> param_types f ! m = PARAM_SKIPPED)"
      by (simp add: length_parameters_skipped_def)
    moreover have "(param_types f)[l := PARAM_SKIPPED, i := PARAM_ARRAY] ! m = PARAM_SKIPPED"
      if "param_types f ! m = PARAM_SKIPPED" for m
    proof -
      from that ns have "m \<noteq> i" by auto
      with nth_list_update_same_value [OF that, of l] show ?thesis by simp
    qed
    ultimately show ?thesis by (auto simp: Let_def)
  qed
qed

lemma classify_interface_lps:
  assumes c: "classify_interface finfo n i a f = Inr f'"
    and p: "length_parameters_skipped f" and ns: "param_types f ! i \<noteq> PARAM_SKIPPED"
  shows "length_parameters_skipped f'"
proof (cases "bi_info_type (ti_interface (ai_type a)) = GI_INFO_TYPE_CALLBACK")
  case False
  with c p show ?thesis by (simp add: classify_interface_def Let_def)
next
  case True
  note cb = this
  show ?thesis
  proof (cases "bi_name (ti_interface (ai_type a)) = ''DestroyNotify''
                \<and> bi_namespace (ti_interface (ai_type a)) = ''GLib''")
    case True
    with c cb have "f' = f\<lparr>param_types := (param_types f)[i := PARAM_SKIPPED]\<rparr>"
      by (auto simp: classify_interface_def Let_def)
    with lps_skip [OF p] show ?thesis by simp
  next
    case False
    define f1 where "f1 = f\<lparr>param_types := (param_types f)[i := PARAM_CALLBACK]\<rparr>"
    have p1: "length_parameters_skipped f1" unfolding f1_def by (rule lps_callback [OF p ns])
    define f2 where "f2 = (if 0 \<le> to_guint8 (ai_destroy a) \<and> to_guint8 (ai_destroy a) < n
        then f1\<lparr>param_types := (param_types f1)[unat (to_guint8 (ai_destroy a)) := PARAM_SKIPPED]\<rparr>
        else f1)"
    have p2: "length_parameters_skipped f2" unfolding f2_def using lps_skip [OF p1] p1 by simp
    define f3 where "f3 = (if 0 \<le> to_guint8 (ai_closure a) \<and> to_guint8 (ai_closure a) < n
        then f2\<lparr>param_types := (param_types f2)[unat (to_guint8 (ai_closure a)) := PARAM_SKIPPED]\<rparr>
        else f2)"
    have p3: "length_parameters_skipped f3" unfolding f3_def using lps_skip [OF p2] p2 by simp
    from c cb False have "info f' = info f3 \<and> param_types f' = param_types f3"
      by (auto simp: classify_interface_def Let_def f3_def f2_def f1_def split: if_splits)
    with p3 lps_cong [of f' f3] show ?thesis by simp
  qed
qed

lemma classify_array_lps:
  assumes c: "classify_array finfo n i a f = Inr f'"
    and p: "length_parameters_skipped f" and ns: "param_types f ! i \<noteq> PARAM_SKIPPED"
    and a: "a = fi_args finfo ! i" and fi: "info f = finfo"
    and len: "length (param_types f) = unat n"
  shows "length_parameters_skipped f'"
proof (cases "ti_array_type (ai_type a) = GI_ARRAY_TYPE_C
              \<and> to_guint8 (ti_array_length (ai_type a)) < n")
  case False
  with c p show ?thesis by (auto simp: classify_array_def Let_def split: if_splits)
next
  case True
  define l where "l = unat (to_guint8 (ti_array_length (ai_type (fi_args (info f) ! i))))"
  from True a fi len have ll: "l < length (param_types f)"
    by (simp add: l_def word_less_nat_alt)
  from c True a fi have dir: "ai_direction (fi_args (info f) ! l) = ai_direction (fi_args (info f) ! i)"
    by (auto simp: classify_array_def Let_def l_def split: if_splits)
  from c True a fi have "info f' = info f \<and> param_types f' = (param_types f)[l := PARAM_SKIPPED, i := PARAM_ARRAY]"
    by (auto simp: classify_array_def Let_def l_def split: if_splits)
  with lps_array [OF p ns l_def ll dir]
    lps_cong [of f' "f\<lparr>param_types := (param_types f)[l := PARAM_SKIPPED, i := PARAM_ARRAY]\<rparr>"]
  show ?thesis by simp
qed

lemma classify_arg_lps:
  assumes c: "classify_arg finfo n i f = Inr f'"
    and p: "length_parameters_skipped f" and fi: "info f = finfo"
    and len: "length (param_types f) = unat n"
  shows "length_parameters_skipped f'"
  using c
proof (cases rule: classify_arg_cases)
  case skipped
  with p show ?thesis by simp
next
  case (interface f1)
  from classify_interface_lps [OF interface(2) p interface(1)] interface(3)
    lps_cong [of f' f1] show ?thesis by simp
next
  case (array f1)
  from classify_array_lps [OF array(2) p array(1) refl fi len] array(3)
    lps_cong [of f' f1] show ?thesis by simp
next
  case other
  with p lps_cong [of f' f] show ?thesis by simp
qed

lemma classify_loop_lps:
  assumes "classify_loop finfo n idxs f = Inr f'"
    and "length_parameters_skipped f" and "info f = finfo"
    and "length (param_types f) = unat n"
  shows "length_parameters_skipped f'"
  using assms
proof (induction idxs arbitrary: f)
  case Nil
  then show ?case by simp
next
  case (Cons i idxs)
  from Cons.prems(1) obtain f1 where 1: "classify_arg finfo n i f = Inr f1"
    and 2: "classify_loop finfo n idxs f1 = Inr f'" by (auto split: sum.splits)
  from classify_arg_lps [OF 1 Cons.prems(2,3,4)] classify_arg_info [OF 1]
    classify_arg_length [OF 1] Cons.prems(3,4)
  show ?case by (intro Cons.IH [OF 2]) simp_all
qed

lemma no_array_lps:
  "PARAM_ARRAY \<notin> set (param_types f) \<Longrightarrow> length_parameters_skipped f"
  by (auto simp: length_parameters_skipped_def in_set_conv_nth)

lemma init_cached_function_data_lps:
  assumes "init_cached_function_data prep finfo = Inr function"
  shows "length_parameters_skipped function"
proof -
  from assms obtain ivk pt1 where
    l: "classify_loop finfo (of_nat (length (fi_args finfo)))
          [0..<unat (of_nat (length (fi_args finfo)) :: guint8)]
          \<lparr>info = finfo, param_types = pt1, expected_js_argc = 0,
           js_out_argc = (if ti_tag (fi_return_type finfo) \<noteq> GI_TYPE_TAG_VOID then 1 else 0),
           invoker = ivk\<rparr> = Inr function"
    and pt1: "pt1 = replicate (unat (of_nat (length (fi_args finfo)) :: guint8)) PARAM_NORMAL
       \<or> (\<exists>k. pt1 = (replicate (unat (of_nat (length (fi_args finfo)) :: guint8)) PARAM_NORMAL)
              [k := PARAM_SKIPPED])"
    by (auto simp: init_cached_function_data_def Let_def split: option.splits if_splits)
  from pt1 have "PARAM_ARRAY \<notin> set pt1"
    by (auto dest!: set_update_subset_insert [THEN subsetD])
  then have "length_parameters_skipped \<lparr>info = finfo, param_types = pt1, expected_js_argc = 0,
           js_out_argc = (if ti_tag (fi_return_type finfo) \<noteq> GI_TYPE_TAG_VOID then 1 else (0::guint8)),
           invoker = ivk\<rparr>" by (intro no_array_lps) simp
  from classify_loop_lps [OF l this] pt1 show ?thesis by auto
qed
section \<open>Properties of the trampoline manager\<close>




section \<open>What each phase of a call leaves unchanged\<close>

lemma gjs_throw_fields [simp]:
  "trampolines (gjs_throw e st) = trampolines st"
  "trampolines_created (gjs_throw e st) = trampolines_created st"
  "completed_trampolines (gjs_throw e st) = completed_trampolines st"
  "freed_trampolines (gjs_throw e st) = freed_trampolines st"
  "slice_allocated (gjs_throw e st) = slice_allocated st"
  "slice_freed (gjs_throw e st) = slice_freed st"
  "thrown (gjs_throw e st) = e # thrown st"
  "logged_exceptions (gjs_throw e st) = logged_exceptions st"
  "native_calls (gjs_throw e st) = native_calls st"
  "in_releases (gjs_throw e st) = in_releases st"
  "out_conversions (gjs_throw e st) = out_conversions st"
  by (simp_all add: gjs_throw_def)

lemma unref_fields:
  assumes "gjs_callback_trampoline_unref t st = Some st'"
  shows "trampolines_created st' = trampolines_created st"
    and "completed_trampolines st' = completed_trampolines st"
    and "slice_allocated st' = slice_allocated st"
    and "slice_freed st' = slice_freed st"
    and "thrown st' = thrown st"
    and "logged_exceptions st' = logged_exceptions st"
    and "native_calls st' = native_calls st"
    and "in_releases st' = in_releases st"
    and "out_conversions st' = out_conversions st"
  using assms
  by (auto simp: gjs_callback_trampoline_unref_def split: option.splits if_splits)

lemma ref_fields:
  assumes "gjs_callback_trampoline_ref t st = Some st'"
  shows "trampolines_created st' = trampolines_created st"
    and "completed_trampolines st' = completed_trampolines st"
    and "freed_trampolines st' = freed_trampolines st"
    and "slice_allocated st' = slice_allocated st"
    and "slice_freed st' = slice_freed st"
    and "thrown st' = thrown st"
    and "logged_exceptions st' = logged_exceptions st"
    and "native_calls st' = native_calls st"
    and "in_releases st' = in_releases st"
    and "out_conversions st' = out_conversions st"
  using assms
  by (auto simp: gjs_callback_trampoline_ref_def split: option.splits)

lemma new_fields:
  assumes "gjs_callback_trampoline_new fn ci sc st = (t, st')"
  shows "completed_trampolines st' = completed_trampolines st"
    and "freed_trampolines st' = freed_trampolines st"
    and "slice_allocated st' = slice_allocated st"
    and "slice_freed st' = slice_freed st"
    and "thrown st' = thrown st"
    and "logged_exceptions st' = logged_exceptions st"
    and "native_calls st' = native_calls st"
    and "in_releases st' = in_releases st"
    and "out_conversions st' = out_conversions st"
  using assms
  by (auto simp: gjs_callback_trampoline_new_def Let_def)

lemma closure_fields:
  assumes "gjs_callback_closure env t args st = Some (r, st')"
  shows "trampolines st' = trampolines st"
    and "trampolines_created st' = trampolines_created st"
    and "freed_trampolines st' = freed_trampolines st"
    and "slice_allocated st' = slice_allocated st"
    and "slice_freed st' = slice_freed st"
    and "thrown st' = thrown st"
    and "native_calls st' = native_calls st"
    and "in_releases st' = in_releases st"
    and "out_conversions st' = out_conversions st"
  using assms
  by (auto simp: gjs_callback_closure_def Let_def split: option.splits if_splits prod.splits)

lemma unref_all_fields:
  assumes "unref_all ts st = Some st'"
  shows "trampolines_created st' = trampolines_created st
    \<and> completed_trampolines st' = completed_trampolines st
    \<and> slice_allocated st' = slice_allocated st
    \<and> slice_freed st' = slice_freed st
    \<and> thrown st' = thrown st
    \<and> logged_exceptions st' = logged_exceptions st
    \<and> native_calls st' = native_calls st
    \<and> in_releases st' = in_releases st
    \<and> out_conversions st' = out_conversions st"
  using assms
proof (induction ts arbitrary: st)
  case Nil
  then show ?case by simp
next
  case (Cons t ts)
  then obtain st1 where 1: "gjs_callback_trampoline_unref t st = Some st1"
    and 2: "unref_all ts st1 = Some st'"
    by (auto split: option.splits)
  from Cons.IH [OF 2] unref_fields [OF 1] show ?case by simp
qed

lemma drain_fields:
  assumes "drain_completed_trampolines st = Some st'"
  shows "trampolines_created st' = trampolines_created st"
    and "completed_trampolines st' = []"
    and "slice_allocated st' = slice_allocated st"
    and "slice_freed st' = slice_freed st"
    and "thrown st' = thrown st"
    and "logged_exceptions st' = logged_exceptions st"
    and "native_calls st' = native_calls st"
    and "in_releases st' = in_releases st"
    and "out_conversions st' = out_conversions st"
  using assms unref_all_fields [of "completed_trampolines st" st]
  by (auto simp: drain_completed_trampolines_def split: option.splits)

lemma run_native_actions_fields:
  assumes "run_native_actions env acts st = Some st'"
  shows "trampolines_created st' = trampolines_created st
    \<and> slice_allocated st' = slice_allocated st
    \<and> slice_freed st' = slice_freed st
    \<and> thrown st' = thrown st
    \<and> native_calls st' = native_calls st
    \<and> in_releases st' = in_releases st
    \<and> out_conversions st' = out_conversions st"
  using assms
proof (induction acts arbitrary: st)
  case Nil
  then show ?case by simp
next
  case (Cons a rest)
  show ?case
  proof (cases a)
    case (InvokeClosure t args)
    with Cons.prems obtain r st1 where 1: "gjs_callback_closure env t args st = Some (r, st1)"
      and 2: "run_native_actions env rest st1 = Some st'"
      by (auto split: option.splits)
    from Cons.IH [OF 2] closure_fields [OF 1] show ?thesis by simp
  next
    case (InvokeDestroyNotify t)
    with Cons.prems obtain st1 where 1: "gjs_callback_trampoline_unref t st = Some st1"
      and 2: "run_native_actions env rest st1 = Some st'"
      by (auto simp: gjs_destroy_notify_callback_def split: option.splits)
    from Cons.IH [OF 2] unref_fields [OF 1] show ?thesis by simp
  qed
qed


lemma untouched_refl [simp]: "untouched_by_marshaling st st"
  by (simp add: untouched_by_marshaling_def)

lemma untouched_trans:
  "untouched_by_marshaling st st1 \<Longrightarrow> untouched_by_marshaling st1 st2
     \<Longrightarrow> untouched_by_marshaling st st2"
  by (simp add: untouched_by_marshaling_def)

lemma untouched_throw [simp]: "untouched_by_marshaling st (gjs_throw e st)"
  by (simp add: untouched_by_marshaling_def)

lemma marshal_out_arg_state:
  assumes "marshal_out_arg a c (fr, st) = (fr', st')"
  shows "untouched_by_marshaling st st'"
    and "\<not> failed fr \<Longrightarrow> \<not> failed fr' \<Longrightarrow> thrown st' = thrown st"
    and "processed_c_args fr' = processed_c_args fr"
    and "js_arg_pos fr' = js_arg_pos fr"
  using assms
  by (auto simp: marshal_out_arg_def Let_def untouched_by_marshaling_def split: if_splits)

lemma companion_slot_locals:
  assumes "companion_slot pts m c_argc pos v fr = Some fr'"
  shows "failed fr' = failed fr" and "processed_c_args fr' = processed_c_args fr"
    and "js_arg_pos fr' = js_arg_pos fr"
  using assms by (auto simp: companion_slot_def Let_def split: if_splits)

lemma callback_slots_locals:
  assumes "callback_slots pts m c_argc a c tramp fr = Some fr'"
  shows "failed fr' = failed fr" and "processed_c_args fr' = processed_c_args fr"
    and "js_arg_pos fr' = js_arg_pos fr"
proof -
  from assms obtain v1 v2 v3 fr1 fr2 where
    1: "companion_slot pts m c_argc (ai_destroy a) v1 fr = Some fr1" and
    2: "companion_slot pts m c_argc (ai_closure a) v2 fr1 = Some fr2" and
    3: "fr' = fr2\<lparr>in_arg_cvalues := (in_arg_cvalues fr2)(c := v3)\<rparr>"
    by (auto simp: callback_slots_def split: option.splits)
  from companion_slot_locals [OF 1] companion_slot_locals [OF 2] 3
  show "failed fr' = failed fr" and "processed_c_args fr' = processed_c_args fr"
    and "js_arg_pos fr' = js_arg_pos fr"
    by simp_all
qed

lemma marshal_callback_arg_state:
  assumes "marshal_callback_arg pts m c_argc argv a c (fr, st) = Some (fr', st')"
  shows "untouched_by_marshaling st st'"
    and "\<not> failed fr \<Longrightarrow> \<not> failed fr' \<Longrightarrow> thrown st' = thrown st"
    and "processed_c_args fr' = processed_c_args fr"
    and "js_arg_pos fr' = js_arg_pos fr"
  using assms
  by (auto simp: marshal_callback_arg_def Let_def untouched_by_marshaling_def
      gjs_callback_trampoline_new_def gjs_callback_trampoline_ref_def
      split: if_splits option.splits dest: callback_slots_locals)

lemma marshal_array_arg_state:
  assumes "marshal_array_arg env finfo m c_argc argv a c (fr, st) = Some (fr', st')"
  shows "untouched_by_marshaling st st'"
    and "\<not> failed fr \<Longrightarrow> \<not> failed fr' \<Longrightarrow> thrown st' = thrown st"
    and "processed_c_args fr' = processed_c_args fr"
    and "js_arg_pos fr' = js_arg_pos fr"
  using assms
  by (auto simp: marshal_array_arg_def Let_def inout_length_slots_def
      split: if_splits option.splits prod.splits)

lemma marshal_normal_arg_state:
  assumes "marshal_normal_arg env argv a c (fr, st) = Some (fr', st')"
  shows "untouched_by_marshaling st st'"
    and "\<not> failed fr \<Longrightarrow> \<not> failed fr' \<Longrightarrow> thrown st' = thrown st"
    and "processed_c_args fr' = processed_c_args fr"
    and "js_arg_pos fr' = js_arg_pos fr"
  using assms
  by (auto simp: marshal_normal_arg_def Let_def split: if_splits option.splits)

lemma after_in_arg_locals [simp]:
  "failed (after_in_arg d c fr) = failed fr"
  "processed_c_args (after_in_arg d c fr) = processed_c_args fr"
  by (simp_all add: after_in_arg_def Let_def)

lemma marshal_dispatch_cases [consumes 1, case_names out skipped callback array normal]:
  assumes "marshal_dispatch env function c_argc argv j c (fr, st) = Some (fr', st')"
  obtains
    (out) "ai_direction (fi_args (info function) ! j) = GI_DIRECTION_OUT"
      "marshal_out_arg (fi_args (info function) ! j) c (fr, st) = (fr', st')"
  | (skipped) "ai_direction (fi_args (info function) ! j) \<noteq> GI_DIRECTION_OUT"
      "j < length (param_types function)" "param_types function ! j = PARAM_SKIPPED"
      "fr' = fr" "st' = st"
  | (callback) fr0 where "ai_direction (fi_args (info function) ! j) \<noteq> GI_DIRECTION_OUT"
      "j < length (param_types function)" "param_types function ! j = PARAM_CALLBACK"
      "marshal_callback_arg (param_types function) (fi_is_method (info function)) c_argc argv
         (fi_args (info function) ! j) c (fr, st) = Some (fr0, st')"
      "fr' = after_in_arg (ai_direction (fi_args (info function) ! j)) c fr0"
  | (array) fr0 where "ai_direction (fi_args (info function) ! j) \<noteq> GI_DIRECTION_OUT"
      "j < length (param_types function)" "param_types function ! j = PARAM_ARRAY"
      "marshal_array_arg env (info function) (fi_is_method (info function)) c_argc argv
         (fi_args (info function) ! j) c (fr, st) = Some (fr0, st')"
      "fr' = after_in_arg (ai_direction (fi_args (info function) ! j)) c fr0"
  | (normal) fr0 where "ai_direction (fi_args (info function) ! j) \<noteq> GI_DIRECTION_OUT"
      "j < length (param_types function)" "param_types function ! j = PARAM_NORMAL"
      "marshal_normal_arg env argv (fi_args (info function) ! j) c (fr, st) = Some (fr0, st')"
      "fr' = after_in_arg (ai_direction (fi_args (info function) ! j)) c fr0"
proof (cases "ai_direction (fi_args (info function) ! j) = GI_DIRECTION_OUT")
  case True
  with assms that(1) show ?thesis by (simp add: marshal_dispatch_def Let_def)
next
  case False
  with assms have len: "j < length (param_types function)"
    by (simp add: marshal_dispatch_def Let_def split: if_splits)
  show ?thesis
  proof (cases "param_types function ! j")
    case PARAM_NORMAL
    with assms False len that(5) show ?thesis
      by (auto simp: marshal_dispatch_def Let_def)
  next
    case PARAM_SKIPPED
    with assms False len that(2) show ?thesis
      by (auto simp: marshal_dispatch_def Let_def)
  next
    case PARAM_ARRAY
    with assms False len that(4) show ?thesis
      by (auto simp: marshal_dispatch_def Let_def)
  next
    case PARAM_CALLBACK
    with assms False len that(3) show ?thesis
      by (auto simp: marshal_dispatch_def Let_def)
  qed
qed

lemma marshal_arg_dispatch:
  assumes "marshal_arg env function c_argc argv j (fr, st) = Some (fr', st')"
  obtains fr1 where
    "marshal_dispatch env function c_argc argv j
       (if fi_is_method (info function) then j + 1 else j) (fr, st) = Some (fr1, st')"
    "fr' = count_processed fr1"
    "(if fi_is_method (info function) then j + 1 else j) < c_argc"
  using assms by (auto simp: marshal_arg_def Let_def split: if_splits)

lemma marshal_dispatch_state:
  assumes "marshal_dispatch env function c_argc argv j c (fr, st) = Some (fr', st')"
  shows "untouched_by_marshaling st st'"
    and "\<not> failed fr \<Longrightarrow> \<not> failed fr' \<Longrightarrow> thrown st' = thrown st"
    and "processed_c_args fr' = processed_c_args fr"
  using assms
  by (cases rule: marshal_dispatch_cases;
      auto dest: marshal_out_arg_state marshal_callback_arg_state marshal_array_arg_state
        marshal_normal_arg_state)+

lemma marshal_arg_state:
  assumes "marshal_arg env function c_argc argv j (fr, st) = Some (fr', st')"
  shows "untouched_by_marshaling st st'"
    and "\<not> failed fr \<Longrightarrow> \<not> failed fr' \<Longrightarrow> thrown st' = thrown st"
    and "\<not> failed fr' \<Longrightarrow> processed_c_args fr' = Suc (processed_c_args fr)"
    and "failed fr' \<Longrightarrow> processed_c_args fr' = processed_c_args fr"
  using assms
  by (elim marshal_arg_dispatch;
      auto simp: count_processed_def dest: marshal_dispatch_state split: if_splits)+

lemma marshal_loop_state:
  assumes "marshal_loop env function c_argc argv idxs (fr, st) = Some (fr', st')"
    and "\<not> failed fr"
  shows "untouched_by_marshaling st st'
    \<and> (\<not> failed fr' \<longrightarrow> thrown st' = thrown st
          \<and> processed_c_args fr' = processed_c_args fr + length idxs)
    \<and> processed_c_args fr' \<le> processed_c_args fr + length idxs"
  using assms
proof (induction idxs arbitrary: fr st)
  case Nil
  then show ?case by simp
next
  case (Cons j idxs)
  from Cons.prems(1) obtain fr1 st1 where
    1: "marshal_arg env function c_argc argv j (fr, st) = Some (fr1, st1)"
    and 2: "if failed fr1 then fr' = fr1 \<and> st' = st1
            else marshal_loop env function c_argc argv idxs (fr1, st1) = Some (fr', st')"
    by (auto split: option.splits if_splits)
  note s = marshal_arg_state [OF 1]
  show ?case
  proof (cases "failed fr1")
    case True
    with 2 s show ?thesis by simp
  next
    case False
    with 2 have "marshal_loop env function c_argc argv idxs (fr1, st1) = Some (fr', st')"
      by simp
    from Cons.IH [OF this False] s(1) s(2) [OF Cons.prems(2) False] s(3) [OF False]
    show ?thesis by (auto intro: untouched_trans)
  qed
qed


lemma direction_not_out:
  "d \<noteq> GI_DIRECTION_OUT \<longleftrightarrow> d = GI_DIRECTION_IN \<or> d = GI_DIRECTION_INOUT"
  by (cases d) simp_all

lemma release_in_arg_state:
  assumes "release_in_arg env function c_argc j c (rl, st) = Some (rl', st')"
  shows "out_conversions st' = out_conversions st"
    and "slice_freed st' = slice_freed st"
    and "slice_allocated st' = slice_allocated st"
    and "native_calls st' = native_calls st"
    and "completed_trampolines st' = completed_trampolines st"
    and "next_rval rl' = next_rval rl"
    and "return_values rl' = return_values rl"
    and "out_arg_cvalues (rl_frame rl') = out_arg_cvalues (rl_frame rl)"
    and "processed_c_args (rl_frame rl') = processed_c_args (rl_frame rl)"
    and "in_releases st' =
          (if param_types function ! j = PARAM_NORMAL \<or> param_types function ! j = PARAM_ARRAY
           then [(j, if ai_direction (fi_args (info function) ! j) = GI_DIRECTION_IN
                     then in_arg_cvalues (rl_frame rl) c
                     else inout_original_arg_cvalues (rl_frame rl) c)]
           else []) @ in_releases st"
    and "releases_succeed env \<Longrightarrow> thrown st' = thrown st
          \<and> postinvoke_release_failed rl' = postinvoke_release_failed rl"
    and "postinvoke_release_failed rl \<Longrightarrow> postinvoke_release_failed rl'"
  using assms
  by (auto simp: release_in_arg_def Let_def releases_succeed_def
      split: ParamType.splits GArgument.splits if_splits option.splits
      dest: unref_fields)


lemma convert_out_value_state:
  assumes "convert_out_value env finfo c_argc ty arg fr st = Some (r, st')"
  shows "slice_freed st' = slice_freed st"
    and "slice_allocated st' = slice_allocated st"
    and "native_calls st' = native_calls st"
    and "completed_trampolines st' = completed_trampolines st"
    and "in_releases st' = in_releases st"
    and "trampolines st' = trampolines st"
    and "trampolines_created st' = trampolines_created st"
    and "freed_trampolines st' = freed_trampolines st"
  using assms
  by (auto simp: convert_out_value_def Let_def split: if_splits option.splits)

lemma release_out_arg_state:
  assumes "release_out_arg env function c_argc j c (rl, st) = Some (rl', st')"
  shows "native_calls st' = native_calls st"
    and "completed_trampolines st' = completed_trampolines st"
    and "in_releases st' = in_releases st"
    and "slice_allocated st' = slice_allocated st"
    and "rl_frame rl' = rl_frame rl"
    and "trampolines st' = trampolines st"
    and "trampolines_created st' = trampolines_created st"
    and "freed_trampolines st' = freed_trampolines st"
    and "slice_freed st' =
          (if ai_caller_allocates (fi_args (info function) ! j)
           then [out_arg_cvalues (rl_frame rl) c] else []) @ slice_freed st"
    and "next_rval rl' = Suc (next_rval rl)"
  using assms
  by (auto simp: release_out_arg_def Let_def split: if_splits option.splits prod.splits
      dest: convert_out_value_state)

lemma release_arg_cases [consumes 1, case_names input_only output_only both neither]:
  assumes "release_arg env function c_argc skip_out j (rl, st) = Some (rl', st')"
  obtains
    (input_only) "ai_direction (fi_args (info function) ! j) \<noteq> GI_DIRECTION_OUT"
      "skip_out \<or> ai_direction (fi_args (info function) ! j) = GI_DIRECTION_IN
         \<or> param_types function ! j = PARAM_SKIPPED"
      "release_in_arg env function c_argc j
         (if fi_is_method (info function) then j + 1 else j) (rl, st) = Some (rl', st')"
  | (output_only) "ai_direction (fi_args (info function) ! j) = GI_DIRECTION_OUT"
      "\<not> skip_out" "param_types function ! j \<noteq> PARAM_SKIPPED"
      "release_out_arg env function c_argc j
         (if fi_is_method (info function) then j + 1 else j) (rl, st) = Some (rl', st')"
  | (both) rl1 st1 where "ai_direction (fi_args (info function) ! j) = GI_DIRECTION_INOUT"
      "\<not> skip_out" "param_types function ! j \<noteq> PARAM_SKIPPED"
      "release_in_arg env function c_argc j
         (if fi_is_method (info function) then j + 1 else j) (rl, st) = Some (rl1, st1)"
      "release_out_arg env function c_argc j
         (if fi_is_method (info function) then j + 1 else j) (rl1, st1) = Some (rl', st')"
  | (neither) "ai_direction (fi_args (info function) ! j) = GI_DIRECTION_OUT"
      "skip_out \<or> param_types function ! j = PARAM_SKIPPED" "rl' = rl" "st' = st"
proof (cases "ai_direction (fi_args (info function) ! j)")
  case GI_DIRECTION_IN
  with assms that(1) show ?thesis
    by (auto simp: release_arg_def Let_def split: if_splits option.splits)
next
  case GI_DIRECTION_OUT
  with assms that(2,4) show ?thesis
    by (auto simp: release_arg_def Let_def split: if_splits option.splits)
next
  case GI_DIRECTION_INOUT
  with assms that(1,3) show ?thesis
    by (auto simp: release_arg_def Let_def split: if_splits option.splits)
qed


lemma release_arg_skipping:
  assumes "release_arg env function c_argc True j (rl, st) = Some (rl', st')"
  shows "out_conversions st' = out_conversions st"
    and "slice_freed st' = slice_freed st"
    and "native_calls st' = native_calls st"
    and "next_rval rl' = next_rval rl"
    and "processed_c_args (rl_frame rl') = processed_c_args (rl_frame rl)"
    and "\<exists>new. in_releases st' = new @ in_releases st
          \<and> map fst new = (if released_as_input function j then [j] else [])"
    and "releases_succeed env \<Longrightarrow> thrown st' = thrown st
          \<and> postinvoke_release_failed rl' = postinvoke_release_failed rl"
  using assms
  by (cases rule: release_arg_cases;
      auto simp: released_as_input_def dest: release_in_arg_state)+

lemma release_loop_skipping:
  assumes "release_loop env function c_argc True idxs (rl, st) = Some (rl', st')"
  shows "out_conversions st' = out_conversions st
    \<and> slice_freed st' = slice_freed st
    \<and> native_calls st' = native_calls st
    \<and> next_rval rl' = next_rval rl
    \<and> (\<exists>new. in_releases st' = new @ in_releases st
          \<and> map fst new = rev (filter (released_as_input function) idxs))
    \<and> (releases_succeed env \<longrightarrow> thrown st' = thrown st
          \<and> postinvoke_release_failed rl' = postinvoke_release_failed rl)"
  using assms
proof (induction idxs arbitrary: rl st)
  case Nil
  then show ?case by simp
next
  case (Cons j idxs)
  from Cons.prems obtain rl1 st1 where
    1: "release_arg env function c_argc True j (rl, st) = Some (rl1, st1)"
    and 2: "release_loop env function c_argc True idxs (rl1, st1) = Some (rl', st')"
    by (auto split: option.splits)
  note s = release_arg_skipping [OF 1]
  from s(6) obtain n1 where n1: "in_releases st1 = n1 @ in_releases st"
    "map fst n1 = (if released_as_input function j then [j] else [])" by blast
  from Cons.IH [OF 2] obtain n2 where n2: "in_releases st' = n2 @ in_releases st1"
    "map fst n2 = rev (filter (released_as_input function) idxs)" by blast
  have "in_releases st' = (n2 @ n1) @ in_releases st
    \<and> map fst (n2 @ n1) = rev (filter (released_as_input function) (j # idxs))"
    using n1 n2 by simp
  then have "\<exists>new. in_releases st' = new @ in_releases st
    \<and> map fst new = rev (filter (released_as_input function) (j # idxs))" by blast
  with Cons.IH [OF 2] s show ?case by simp
qed


lemma release_arg_state:
  assumes "release_arg env function c_argc skip_out j (rl, st) = Some (rl', st')"
  shows "native_calls st' = native_calls st
    \<and> completed_trampolines st' = completed_trampolines st
    \<and> slice_allocated st' = slice_allocated st
    \<and> processed_c_args (rl_frame rl') = processed_c_args (rl_frame rl)"
  using assms
proof (cases rule: release_arg_cases)
  case input_only
  from release_in_arg_state [OF input_only(3)] show ?thesis by simp
next
  case output_only
  from release_out_arg_state [OF output_only(4)] show ?thesis by simp
next
  case (both rl1 st1)
  from release_in_arg_state [OF both(4)] release_out_arg_state [OF both(5)]
  show ?thesis by simp
next
  case neither
  then show ?thesis by simp
qed

lemma release_loop_state:
  assumes "release_loop env function c_argc skip_out idxs (rl, st) = Some (rl', st')"
  shows "native_calls st' = native_calls st
    \<and> completed_trampolines st' = completed_trampolines st
    \<and> slice_allocated st' = slice_allocated st"
  using assms
proof (induction idxs arbitrary: rl st)
  case Nil
  then show ?case by simp
next
  case (Cons j idxs)
  from Cons.prems obtain rl1 st1 where
    1: "release_arg env function c_argc skip_out j (rl, st) = Some (rl1, st1)"
    and 2: "release_loop env function c_argc skip_out idxs (rl1, st1) = Some (rl', st')"
    by (auto split: option.splits)
  from Cons.IH [OF 2] release_arg_state [OF 1] show ?case by simp
qed

lemma finish_call_state:
  "snd (snd (finish_call env out_argc failed1 gerror vals st)) =
     (case gerror of Some m \<Rightarrow> if failed1 then st else gjs_throw (NativeReportedError m) st
      | None \<Rightarrow> st)"
  by (simp add: finish_call_def split: option.splits)

lemma finish_call_ok:
  "fst (finish_call env out_argc failed1 gerror vals st) \<Longrightarrow> \<not> failed1 \<and> gerror = None"
  by (simp add: finish_call_def split: option.splits if_splits)

lemma release_and_finish_loop:
  assumes "release_and_finish env function c_argc failed0 gerror nr vals (fr, st) =
             Some (ok, rv, st')"
  obtains rl st1 where
    "release_loop env function c_argc (gerror \<noteq> None \<or> failed0)
       [0..<release_iterations (info function) fr]
       (\<lparr>rl_frame = fr, next_rval = nr, return_values = vals,
         postinvoke_release_failed = False\<rparr>, st) = Some (rl, st1)"
    "finish_call env (unat (js_out_argc function))
        (failed0 \<or> postinvoke_release_failed rl) gerror (return_values rl) st1 = (ok, rv, st')"
    "failed0 \<or> postinvoke_release_failed rl \<or> gerror \<noteq> None
       \<or> next_rval rl = unat (js_out_argc function)"
    "(if fi_is_method (info function) then 1 else 0) + release_iterations (info function) fr
       = processed_c_args fr"
proof -
  let ?loop = "release_loop env function c_argc (gerror \<noteq> None \<or> failed0)
       [0..<release_iterations (info function) fr]
       (\<lparr>rl_frame = fr, next_rval = nr, return_values = vals,
         postinvoke_release_failed = False\<rparr>, st)"
  from assms have "?loop \<noteq> None"
    by (auto simp: release_and_finish_def split: option.splits)
  then obtain rl st1 where loop: "?loop = Some (rl, st1)" by auto
  have eq: "release_and_finish env function c_argc failed0 gerror nr vals (fr, st) =
     (if \<not> (failed0 \<or> postinvoke_release_failed rl \<or> gerror \<noteq> None
              \<or> next_rval rl = unat (js_out_argc function)) then None
      else if (if fi_is_method (info function) then 1 else 0)
                + release_iterations (info function) fr \<noteq> processed_c_args fr then None
      else Some (finish_call env (unat (js_out_argc function))
                   (failed0 \<or> postinvoke_release_failed rl) gerror (return_values rl) st1))"
    unfolding release_and_finish_def fst_conv snd_conv loop
    by (simp only: option.case prod.case Let_def disj_assoc)
  from assms [unfolded eq] have
    a: "failed0 \<or> postinvoke_release_failed rl \<or> gerror \<noteq> None
        \<or> next_rval rl = unat (js_out_argc function)"
    by (auto split: if_splits)
  from assms [unfolded eq] have
    b: "(if fi_is_method (info function) then 1 else 0) + release_iterations (info function) fr
        = processed_c_args fr"
    by (simp split: if_splits)
  from assms [unfolded eq] a b have
    c: "finish_call env (unat (js_out_argc function))
          (failed0 \<or> postinvoke_release_failed rl) gerror (return_values rl) st1 = (ok, rv, st')"
    by (simp split: if_splits)
  from that [OF loop c a b] show thesis .
qed

lemma release_and_finish_state:
  assumes "release_and_finish env function c_argc failed0 gerror nr vals (fr, st) =
             Some (ok, rv, st')"
  shows "native_calls st' = native_calls st"
    and "completed_trampolines st' = completed_trampolines st"
    and "slice_allocated st' = slice_allocated st"
proof -
  from assms obtain rl st1 where
    1: "release_loop env function c_argc (gerror \<noteq> None \<or> failed0)
       [0..<release_iterations (info function) fr]
       (\<lparr>rl_frame = fr, next_rval = nr, return_values = vals,
         postinvoke_release_failed = False\<rparr>, st) = Some (rl, st1)"
    and 2: "finish_call env (unat (js_out_argc function))
        (failed0 \<or> postinvoke_release_failed rl) gerror (return_values rl) st1 = (ok, rv, st')"
    by (rule release_and_finish_loop)
  from finish_call_state [of env "unat (js_out_argc function)"
      "failed0 \<or> postinvoke_release_failed rl" gerror "return_values rl" st1]
  have st': "st' = st1 \<or> (\<exists>m. st' = gjs_throw (NativeReportedError m) st1)"
    unfolding 2 by (cases gerror) (auto split: if_splits)
  from release_loop_state [OF 1] st'
  show "native_calls st' = native_calls st"
    and "completed_trampolines st' = completed_trampolines st"
    and "slice_allocated st' = slice_allocated st"
    by auto
qed



lemma marshal_receiver_locals:
  assumes "marshal_receiver env finfo c_argc obj fr = Some (fr1, w)"
  shows "failed fr1 = failed fr" and "processed_c_args fr1 = processed_c_args fr"
    and "js_arg_pos fr1 = js_arg_pos fr"
  using assms
  by (auto simp: marshal_receiver_def Let_def split: if_splits)

lemma invoke_after_drain_cases [consumes 1, case_names arity receiver conversion called]:
  assumes "invoke_after_drain env function obj argv st1 = Some r"
  obtains
    (arity) "length argv < unat (expected_js_argc function)"
      "r = (False, JSVAL_VOID,
            gjs_throw (ArityError (unat (expected_js_argc function)) (length argv)) st1)"
  | (receiver) fr1 where "\<not> length argv < unat (expected_js_argc function)"
      "marshal_receiver env (info function) (c_argc_of function) obj initial_frame
         = Some (fr1, True)"
      "release_and_finish env function (c_argc_of function) True None 0 []
         (fr1\<lparr>failed := True\<rparr>, gjs_throw InvalidReceiverType st1) = Some r"
  | (conversion) fr1 fr st where "\<not> length argv < unat (expected_js_argc function)"
      "marshal_receiver env (info function) (c_argc_of function) obj initial_frame
         = Some (fr1, False)"
      "marshal_loop env function (c_argc_of function) argv [0..<gi_argc_of function]
         (fr1\<lparr>processed_c_args := (if fi_is_method (info function) then 1 else 0)\<rparr>, st1)
         = Some (fr, st)"
      "failed fr"
      "release_and_finish env function (c_argc_of function) True None 0 [] (fr, st) = Some r"
  | (called) fr1 fr st where "\<not> length argv < unat (expected_js_argc function)"
      "marshal_receiver env (info function) (c_argc_of function) obj initial_frame
         = Some (fr1, False)"
      "marshal_loop env function (c_argc_of function) argv [0..<gi_argc_of function]
         (fr1\<lparr>processed_c_args := (if fi_is_method (info function) then 1 else 0)\<rparr>, st1)
         = Some (fr, st)"
      "\<not> failed fr"
      "call_native env function (c_argc_of function) (fr, st) = Some r"
proof (cases "length argv < unat (expected_js_argc function)")
  case True
  with assms that(1) show ?thesis by (simp add: invoke_after_drain_def Let_def)
next
  case arity: False
  from assms arity obtain fr1 w where
    rec: "marshal_receiver env (info function) (c_argc_of function) obj initial_frame
            = Some (fr1, w)"
    by (auto simp: invoke_after_drain_def Let_def initial_frame_def split: option.splits)
  show ?thesis
  proof (cases w)
    case True
    with assms arity rec that(2) show ?thesis
      by (simp add: invoke_after_drain_def Let_def initial_frame_def)
  next
    case False
    with assms arity rec obtain fs where
      loop: "marshal_loop env function (c_argc_of function) argv [0..<gi_argc_of function]
         (fr1\<lparr>processed_c_args := (if fi_is_method (info function) then 1 else 0)\<rparr>, st1)
         = Some fs"
      by (auto simp: invoke_after_drain_def Let_def initial_frame_def split: option.splits)
    obtain fr st where fs: "fs = (fr, st)" by (cases fs)
    show ?thesis
    proof (cases "failed fr")
      case True
      with assms arity rec False loop fs that(3) [of fr1 fr st] show ?thesis
        by (simp add: invoke_after_drain_def Let_def initial_frame_def)
    next
      case nf: False
      with assms arity rec False loop fs that(4) [of fr1 fr st] show ?thesis
        by (simp add: invoke_after_drain_def Let_def initial_frame_def)
    qed
  qed
qed


lemma call_native_cases [consumes 1, case_names returning plain]:
  assumes "call_native env function (c_argc_of function) (fr, st) = Some r"
  obtains
    (returning) fr2 st1 failed1 nr vals st2 where
      "run_native_actions env
         (ne_actions (native_address (invoker function) (native_args function (c_argc_of function) fr)))
         (st\<lparr>native_calls := Suc (native_calls st)\<rparr>) = Some st1"
      "processed_c_args fr2 = processed_c_args fr"
      "in_arg_cvalues fr2 = in_arg_cvalues (native_frame function fr)"
      "inout_original_arg_cvalues fr2 = inout_original_arg_cvalues fr"
      "out_arg_cvalues fr2 =
         native_out_values (c_argc_of function) (in_arg_cvalues (native_frame function fr))
           (native_address (invoker function) (native_args function (c_argc_of function) fr)) (out_arg_cvalues fr)"
      "0 < unat (js_out_argc function)"
      "\<not> (fi_throws (info function)
          \<and> ne_error (native_address (invoker function) (native_args function (c_argc_of function) fr)) \<noteq> None)"
      "process_return_value env function (c_argc_of function)
         (ne_return_value (native_address (invoker function) (native_args function (c_argc_of function) fr)))
         fr2 st1 = Some ((failed1, nr, vals), st2)"
      "release_and_finish env function (c_argc_of function) failed1 None nr vals (fr2, st2) = Some r"
  | (plain) fr2 st1 gerror where
      "run_native_actions env
         (ne_actions (native_address (invoker function) (native_args function (c_argc_of function) fr)))
         (st\<lparr>native_calls := Suc (native_calls st)\<rparr>) = Some st1"
      "processed_c_args fr2 = processed_c_args fr"
      "in_arg_cvalues fr2 = in_arg_cvalues (native_frame function fr)"
      "inout_original_arg_cvalues fr2 = inout_original_arg_cvalues fr"
      "out_arg_cvalues fr2 =
         native_out_values (c_argc_of function) (in_arg_cvalues (native_frame function fr))
           (native_address (invoker function) (native_args function (c_argc_of function) fr)) (out_arg_cvalues fr)"
      "gerror = (if fi_throws (info function)
                 then ne_error (native_address (invoker function) (native_args function (c_argc_of function) fr))
                 else None)"
      "unat (js_out_argc function) = 0 \<or> gerror \<noteq> None"
      "release_and_finish env function (c_argc_of function) False gerror 0 [] (fr2, st1) = Some r"
proof -
  let ?eff = "native_address (invoker function) (native_args function (c_argc_of function) fr)"
  let ?fr2 = "(native_frame function fr)\<lparr>out_arg_cvalues :=
      native_out_values (c_argc_of function) (in_arg_cvalues (native_frame function fr)) ?eff
        (out_arg_cvalues (native_frame function fr))\<rparr>"
  let ?gerror = "if fi_throws (info function) then ne_error ?eff else None"
  have out: "out_arg_cvalues (native_frame function fr) = out_arg_cvalues fr"
    and orig: "inout_original_arg_cvalues (native_frame function fr)
                 = inout_original_arg_cvalues fr"
    and proc: "processed_c_args (native_frame function fr) = processed_c_args fr"
    by (simp_all add: native_frame_def)
  from assms obtain st1 where
    run: "run_native_actions env (ne_actions ?eff) (st\<lparr>native_calls := Suc (native_calls st)\<rparr>)
            = Some st1"
    and rest: "(if 0 < unat (js_out_argc function) \<and> ?gerror = None then
                  (case process_return_value env function (c_argc_of function) (ne_return_value ?eff) ?fr2 st1 of
                     None \<Rightarrow> None
                   | Some ((failed1, next_rval1, values1), st2) \<Rightarrow>
                       release_and_finish env function (c_argc_of function) failed1 ?gerror next_rval1
                         values1 (?fr2, st2))
                else release_and_finish env function (c_argc_of function) False ?gerror 0 [] (?fr2, st1))
               = Some r"
    by (auto simp: call_native_def Let_def native_args_def native_frame_def
        split: if_splits option.splits)
  show thesis
  proof (cases "0 < unat (js_out_argc function) \<and> ?gerror = None")
    case True
    with rest obtain failed1 nr vals st2 where
      "process_return_value env function (c_argc_of function) (ne_return_value ?eff) ?fr2 st1
         = Some ((failed1, nr, vals), st2)"
      "release_and_finish env function (c_argc_of function) failed1 None nr vals (?fr2, st2) = Some r"
      by (auto split: option.splits if_splits)
    with True run out orig proc that(1) [of st1 ?fr2 failed1 nr vals st2] show ?thesis
      by (auto split: if_splits)
  next
    case False
    with rest have "release_and_finish env function (c_argc_of function) False ?gerror 0 [] (?fr2, st1) = Some r"
      by (simp split: if_splits)
    with False run out orig proc that(2) [of st1 ?fr2 ?gerror] show ?thesis
      by (auto split: if_splits)
  qed
qed


lemma release_iterations_all:
  assumes "processed_c_args fr = (if fi_is_method finfo then 1 else 0)
             + unat (of_nat (length (fi_args finfo)) :: guint8)"
  shows "release_iterations finfo fr = unat (of_nat (length (fi_args finfo)) :: guint8)"
  using assms by (simp add: release_iterations_def)

lemma release_iterations_cong:
  "processed_c_args fr' = processed_c_args fr
     \<Longrightarrow> release_iterations finfo fr' = release_iterations finfo fr"
  by (simp add: release_iterations_def)




lemma process_return_value_state:
  assumes "process_return_value env function c_argc rv fr st = Some (r, st')"
  shows "completed_trampolines st' = completed_trampolines st"
    and "slice_freed st' = slice_freed st"
    and "slice_allocated st' = slice_allocated st"
    and "native_calls st' = native_calls st"
    and "trampolines st' = trampolines st"
    and "trampolines_created st' = trampolines_created st"
    and "freed_trampolines st' = freed_trampolines st"
  using assms
  by (auto simp: process_return_value_def Let_def
      split: if_splits option.splits prod.splits dest: convert_out_value_state)
section \<open>The slots a marshaling step writes\<close>

lemma marshal_out_arg_slots:
  assumes "marshal_out_arg a c (fr, st) = (fr', st')" and "k \<noteq> c"
  shows "same_slot fr fr' k"
  using assms by (auto simp: marshal_out_arg_def Let_def split: if_splits)

lemma companion_slot_cases [consumes 1, case_names absent written]:
  assumes "companion_slot pts m c_argc pos v fr = Some fr'"
  obtains (absent) "pos < 0" "fr' = fr"
  | (written) "0 \<le> pos" "nat pos < length pts" "pts ! nat pos = PARAM_SKIPPED"
      "(if m then nat pos + 1 else nat pos) < c_argc"
      "fr' = fr\<lparr>in_arg_cvalues := (in_arg_cvalues fr)((if m then nat pos + 1 else nat pos) := v)\<rparr>"
  using assms by (auto simp: companion_slot_def Let_def split: if_splits)

lemma companion_slot_slots:
  assumes "companion_slot pts m c_argc pos v fr = Some fr'"
    and "\<not> (0 \<le> pos \<and> nat pos < length pts \<and> pts ! nat pos = PARAM_SKIPPED
            \<and> k = (if m then nat pos + 1 else nat pos))"
  shows "same_slot fr fr' k"
  using assms(1)
proof (cases rule: companion_slot_cases)
  case absent
  then show ?thesis by simp
next
  case written
  with assms(2) show ?thesis by auto
qed

lemma callback_slots_steps:
  assumes "callback_slots pts m c_argc a c tramp fr = Some fr'"
  obtains v1 v2 fr1 fr2 where
    "companion_slot pts m c_argc (ai_destroy a) v1 fr = Some fr1"
    "companion_slot pts m c_argc (ai_closure a) v2 fr1 = Some fr2"
    "fr' = fr2\<lparr>in_arg_cvalues := (in_arg_cvalues fr2)
              (c := (case tramp of Some t \<Rightarrow> ClosurePointer t | None \<Rightarrow> NullPointer))\<rparr>"
  using assms by (auto simp: callback_slots_def split: option.splits)

lemma callback_slots_slots:
  assumes cs: "callback_slots pts m c_argc a c tramp fr = Some fr'"
    and "k \<noteq> c"
    and "\<not> (0 \<le> ai_destroy a \<and> nat (ai_destroy a) < length pts
            \<and> pts ! nat (ai_destroy a) = PARAM_SKIPPED
            \<and> k = (if m then nat (ai_destroy a) + 1 else nat (ai_destroy a)))"
    and "\<not> (0 \<le> ai_closure a \<and> nat (ai_closure a) < length pts
            \<and> pts ! nat (ai_closure a) = PARAM_SKIPPED
            \<and> k = (if m then nat (ai_closure a) + 1 else nat (ai_closure a)))"
  shows "same_slot fr fr' k"
proof -
  from cs obtain v1 v2 fr1 fr2 where
    1: "companion_slot pts m c_argc (ai_destroy a) v1 fr = Some fr1" and
    2: "companion_slot pts m c_argc (ai_closure a) v2 fr1 = Some fr2" and
    3: "fr' = fr2\<lparr>in_arg_cvalues := (in_arg_cvalues fr2)
              (c := (case tramp of Some t \<Rightarrow> ClosurePointer t | None \<Rightarrow> NullPointer))\<rparr>"
    by (rule callback_slots_steps)
  from companion_slot_slots [OF 1 assms(3)] companion_slot_slots [OF 2 assms(4)] 3 assms(2)
  show ?thesis by simp
qed

lemma marshal_callback_arg_cases [consumes 1, case_names null invalid built]:
  assumes "marshal_callback_arg pts m c_argc argv a c (fr, st) = Some (fr', st')"
  obtains
    (null) "js_arg_pos fr < length argv" "argv ! js_arg_pos fr = JSVAL_NULL"
      "ai_may_be_null a" "callback_slots pts m c_argc a c None fr = Some fr'" "st' = st"
  | (invalid) "js_arg_pos fr < length argv" "\<not> is_js_function (argv ! js_arg_pos fr)"
      "fr' = fr\<lparr>failed := True\<rparr>" "st' = gjs_throw (InvalidCallback (ai_name a)) st"
  | (built) t st1 where "js_arg_pos fr < length argv" "is_js_function (argv ! js_arg_pos fr)"
      "gjs_callback_trampoline_new (argv ! js_arg_pos fr) (ti_interface (ai_type a))
         (ai_scope a) st = (t, st1)"
      "callback_slots pts m c_argc a c (Some t) fr = Some fr'"
      "if ai_scope a \<noteq> GI_SCOPE_TYPE_CALL
       then gjs_callback_trampoline_ref t st1 = Some st' else st' = st1"
proof (cases "argv ! js_arg_pos fr = JSVAL_NULL \<and> ai_may_be_null a")
  case True
  with assms that(1) show ?thesis
    by (auto simp: marshal_callback_arg_def Let_def split: if_splits)
next
  case False
  note nn = this
  show ?thesis
  proof (cases "is_js_function (argv ! js_arg_pos fr)")
    case False
    with assms nn that(2) show ?thesis
      by (auto simp: marshal_callback_arg_def Let_def split: if_splits)
  next
    case True
    obtain t st1 where n: "gjs_callback_trampoline_new (argv ! js_arg_pos fr)
        (ti_interface (ai_type a)) (ai_scope a) st = (t, st1)" by (cases "gjs_callback_trampoline_new (argv ! js_arg_pos fr)
        (ti_interface (ai_type a)) (ai_scope a) st")
    with assms nn True that(3) [of t st1] show ?thesis
      by (auto simp: marshal_callback_arg_def Let_def split: if_splits option.splits)
  qed
qed

lemma marshal_callback_arg_slots:
  assumes mc: "marshal_callback_arg pts m c_argc argv a c (fr, st) = Some (fr', st')"
    and "k \<noteq> c"
    and "\<not> (0 \<le> ai_destroy a \<and> nat (ai_destroy a) < length pts
            \<and> pts ! nat (ai_destroy a) = PARAM_SKIPPED
            \<and> k = (if m then nat (ai_destroy a) + 1 else nat (ai_destroy a)))"
    and "\<not> (0 \<le> ai_closure a \<and> nat (ai_closure a) < length pts
            \<and> pts ! nat (ai_closure a) = PARAM_SKIPPED
            \<and> k = (if m then nat (ai_closure a) + 1 else nat (ai_closure a)))"
  shows "same_slot fr fr' k"
  using mc
proof (cases rule: marshal_callback_arg_cases)
  case null
  from callback_slots_slots [OF null(4) assms(2-4)] show ?thesis .
next
  case invalid
  then show ?thesis by simp
next
  case (built t st1)
  from callback_slots_slots [OF built(4) assms(2-4)] show ?thesis .
qed

lemma marshal_array_arg_cases [consumes 1, case_names unconverted no_length converted]:
  assumes "marshal_array_arg env finfo m c_argc argv a c (fr, st) = Some (fr', st')"
  obtains
    (unconverted) "js_arg_pos fr < length argv"
      "gjs_value_to_explicit_array env (argv ! js_arg_pos fr) a = None"
      "fr' = fr\<lparr>failed := True\<rparr>" "st' = gjs_throw CollaboratorError st"
  | (no_length) buffer len where "js_arg_pos fr < length argv"
      "gjs_value_to_explicit_array env (argv ! js_arg_pos fr) a = Some (buffer, len)"
      "0 \<le> ti_array_length (ai_type a)"
      "nat (ti_array_length (ai_type a)) < length (fi_args finfo)"
      "(if m then nat (ti_array_length (ai_type a)) + 1 else nat (ti_array_length (ai_type a)))
         < c_argc"
      "fr' = fr\<lparr>in_arg_cvalues := (in_arg_cvalues fr)(c := buffer), failed := True\<rparr>"
      "st' = gjs_throw CollaboratorError st"
  | (converted) buffer len lv where "js_arg_pos fr < length argv"
      "gjs_value_to_explicit_array env (argv ! js_arg_pos fr) a = Some (buffer, len)"
      "0 \<le> ti_array_length (ai_type a)"
      "nat (ti_array_length (ai_type a)) < length (fi_args finfo)"
      "(if m then nat (ti_array_length (ai_type a)) + 1 else nat (ti_array_length (ai_type a)))
         < c_argc"
      "gjs_value_to_arg env (INT_TO_JSVAL len)
         (fi_args finfo ! nat (ti_array_length (ai_type a))) = Some lv"
      "fr' = (let fr2 = fr\<lparr>in_arg_cvalues :=
                 ((in_arg_cvalues fr)(c := buffer))
                   ((if m then nat (ti_array_length (ai_type a)) + 1
                     else nat (ti_array_length (ai_type a))) := lv)\<rparr>
              in if ai_direction a = GI_DIRECTION_INOUT
                 then inout_length_slots c
                        (if m then nat (ti_array_length (ai_type a)) + 1
                         else nat (ti_array_length (ai_type a))) fr2
                 else fr2)"
      "st' = st"
proof (cases "gjs_value_to_explicit_array env (argv ! js_arg_pos fr) a")
  case None
  with assms that(1) show ?thesis
    by (auto simp: marshal_array_arg_def Let_def split: if_splits)
next
  case (Some bl)
  obtain buffer len where bl: "bl = (buffer, len)" by (cases bl)
  show ?thesis
  proof (cases "gjs_value_to_arg env (INT_TO_JSVAL len)
         (fi_args finfo ! nat (ti_array_length (ai_type a)))")
    case None
    with assms Some bl that(2) [of buffer len] show ?thesis
      by (auto simp: marshal_array_arg_def Let_def split: if_splits)
  next
    case (Some lv)
    with assms \<open>gjs_value_to_explicit_array env (argv ! js_arg_pos fr) a = Some bl\<close> bl
      that(3) [of buffer len lv] show ?thesis
      by (auto simp: marshal_array_arg_def Let_def split: if_splits)
  qed
qed

lemma inout_length_slots_slots:
  "k \<noteq> p \<Longrightarrow> same_slot fr (inout_length_slots c p fr) k"
  by (simp add: inout_length_slots_def)

lemma inout_length_slots_locals [simp]:
  "failed (inout_length_slots c p fr) = failed fr"
  "js_arg_pos (inout_length_slots c p fr) = js_arg_pos fr"
  "processed_c_args (inout_length_slots c p fr) = processed_c_args fr"
  by (simp_all add: inout_length_slots_def)

lemma marshal_array_arg_slots:
  assumes ma: "marshal_array_arg env finfo m c_argc argv a c (fr, st) = Some (fr', st')"
    and "k \<noteq> c"
    and "\<not> (0 \<le> ti_array_length (ai_type a)
            \<and> nat (ti_array_length (ai_type a)) < length (fi_args finfo)
            \<and> k < c_argc
            \<and> k = (if m then nat (ti_array_length (ai_type a)) + 1
                   else nat (ti_array_length (ai_type a))))"
  shows "same_slot fr fr' k"
  using ma
proof (cases rule: marshal_array_arg_cases)
  case unconverted
  then show ?thesis by simp
next
  case (no_length buffer len)
  with assms(2) show ?thesis by simp
next
  case (converted buffer len lv)
  from assms(3) converted(3,4,5)
  have "k \<noteq> (if m then nat (ti_array_length (ai_type a)) + 1
                else nat (ti_array_length (ai_type a)))" by auto
  with assms(2) converted(7) show ?thesis
    by (simp add: Let_def inout_length_slots_def)
qed

lemma marshal_normal_arg_slots:
  assumes "marshal_normal_arg env argv a c (fr, st) = Some (fr', st')" and "k \<noteq> c"
  shows "same_slot fr fr' k"
  using assms by (auto simp: marshal_normal_arg_def Let_def split: if_splits option.splits)

lemma after_in_arg_slots:
  "k \<noteq> c \<Longrightarrow> same_slot fr (after_in_arg d c fr) k"
  by (simp add: after_in_arg_def Let_def)

lemma count_processed_slots [simp]:
  "in_arg_cvalues (count_processed fr) = in_arg_cvalues fr"
  "out_arg_cvalues (count_processed fr) = out_arg_cvalues fr"
  "inout_original_arg_cvalues (count_processed fr) = inout_original_arg_cvalues fr"
  "failed (count_processed fr) = failed fr"
  "js_arg_pos (count_processed fr) = js_arg_pos fr"
  by (simp_all add: count_processed_def)

text \<open>A step leaves alone every slot that is neither its own nor named by it.\<close>

lemma marshal_dispatch_slots:
  assumes step: "marshal_dispatch env function c_argc argv j (slot_of function j) (fr, st)
                   = Some (fr', st')"
    and own: "k \<noteq> slot_of function j"
    and other: "\<not> names_slot function j k"
  shows "same_slot fr fr' k"
  using step
proof (cases rule: marshal_dispatch_cases)
  case out
  from marshal_out_arg_slots [OF out(2) own] show ?thesis .
next
  case skipped
  then show ?thesis by simp
next
  case (callback fr0)
  from other callback(1,3) have
    "\<not> (0 \<le> ai_destroy (fi_args (info function) ! j)
        \<and> k = slot_of function (nat (ai_destroy (fi_args (info function) ! j))))"
    "\<not> (0 \<le> ai_closure (fi_args (info function) ! j)
        \<and> k = slot_of function (nat (ai_closure (fi_args (info function) ! j))))"
    by (auto simp: names_slot_def Let_def)
  then have "same_slot fr fr0 k"
    using marshal_callback_arg_slots [OF callback(4) own, unfolded slot_of_def]
    by (simp add: slot_of_def)
  with after_in_arg_slots [OF own] callback(5) show ?thesis by simp
next
  case (array fr0)
  from other array(1,3) have
    "\<not> (0 \<le> ti_array_length (ai_type (fi_args (info function) ! j))
        \<and> k = slot_of function (nat (ti_array_length (ai_type (fi_args (info function) ! j)))))"
    by (auto simp: names_slot_def Let_def)
  then have "same_slot fr fr0 k"
    using marshal_array_arg_slots [OF array(4) own, unfolded slot_of_def]
    by (simp add: slot_of_def)
  with after_in_arg_slots [OF own] array(5) show ?thesis by simp
next
  case (normal fr0)
  from marshal_normal_arg_slots [OF normal(4) own] after_in_arg_slots [OF own] normal(5)
  show ?thesis by simp
qed

lemma upt_split:
  assumes "[0..<n] = done @ j # rest"
  shows "done = [0..<j]" and "j < n" and "rest = [Suc j..<n]"
proof -
  have len: "length done < n"
    using arg_cong [OF assms, of length] by simp
  have "[0..<n] ! length done = j" unfolding assms by simp
  with len have j: "j = length done" by simp
  show "j < n" using j len by simp
  have "take j [0..<n] = done" unfolding assms j by simp
  then show "done = [0..<j]" using \<open>j < n\<close> by (simp add: take_upt)
  have "drop (Suc j) [0..<n] = rest" unfolding assms j by simp
  then show "rest = [Suc j..<n]" by simp
qed

lemma marshal_loop_invariant:
  assumes run: "marshal_loop env function c_argc argv idxs fs = Some fs'"
    and all: "all = pre @ idxs"
    and base: "I pre fs"
    and step: "\<And>done j rest fs1 fs2. all = done @ j # rest \<Longrightarrow> I done fs1
       \<Longrightarrow> marshal_arg env function c_argc argv j fs1 = Some fs2
       \<Longrightarrow> (if failed (fst fs2) then F done fs2 else I (done @ [j]) fs2)"
  shows "I all fs' \<or> (failed (fst fs') \<and> (\<exists>done j rest. all = done @ j # rest \<and> F done fs'))"
  using run all base
proof (induction idxs arbitrary: pre fs)
  case Nil
  then show ?case by simp
next
  case (Cons j idxs)
  from Cons.prems(1) obtain fs1 where
    1: "marshal_arg env function c_argc argv j fs = Some fs1"
    and 2: "if failed (fst fs1) then fs' = fs1
            else marshal_loop env function c_argc argv idxs fs1 = Some fs'"
    by (auto split: option.splits if_splits)
  from step [OF Cons.prems(2) Cons.prems(3) 1]
  have s: "if failed (fst fs1) then F pre fs1 else I (pre @ [j]) fs1" .
  show ?case
  proof (cases "failed (fst fs1)")
    case True
    with 2 s Cons.prems(2) show ?thesis by auto
  next
    case False
    with 2 have r: "marshal_loop env function c_argc argv idxs fs1 = Some fs'" by simp
    from Cons.prems(2) have a: "all = (pre @ [j]) @ idxs" by simp
    from s False have "I (pre @ [j]) fs1" by simp
    from Cons.IH [OF r a this] show ?thesis .
  qed
qed

lemma after_in_arg_js_arg_pos:
  "\<not> failed fr \<Longrightarrow> js_arg_pos (after_in_arg d c fr) = Suc (js_arg_pos fr)"
  by (simp add: after_in_arg_def Let_def)

lemma marshal_dispatch_js_arg_pos:
  assumes "marshal_dispatch env function c_argc argv j c (fr, st) = Some (fr', st')"
    and "\<not> failed fr'"
  shows "js_arg_pos fr' = js_arg_pos fr + (if consumes_argument function j then 1 else 0)"
  using assms(1)
proof (cases rule: marshal_dispatch_cases)
  case out
  with marshal_out_arg_state(4) [OF out(2)] show ?thesis by (simp add: consumes_argument_def)
next
  case skipped
  then show ?thesis by (simp add: consumes_argument_def)
next
  case (callback fr0)
  with assms(2) marshal_callback_arg_state(4) [OF callback(4)] show ?thesis
    by (simp add: consumes_argument_def after_in_arg_js_arg_pos)
next
  case (array fr0)
  with assms(2) marshal_array_arg_state(4) [OF array(4)] show ?thesis
    by (simp add: consumes_argument_def after_in_arg_js_arg_pos)
next
  case (normal fr0)
  with assms(2) marshal_normal_arg_state(4) [OF normal(4)] show ?thesis
    by (simp add: consumes_argument_def after_in_arg_js_arg_pos)
qed

lemma marshal_arg_js_arg_pos:
  assumes "marshal_arg env function c_argc argv j (fr, st) = Some (fr', st')"
    and "\<not> failed fr'"
  shows "js_arg_pos fr' = js_arg_pos fr + (if consumes_argument function j then 1 else 0)"
proof -
  from assms(1) obtain fr1 where
    d: "marshal_dispatch env function c_argc argv j
          (if fi_is_method (info function) then j + 1 else j) (fr, st) = Some (fr1, st')"
    and f: "fr' = count_processed fr1"
    by (rule marshal_arg_dispatch)
  from assms(2) f have "\<not> failed fr1" by simp
  from marshal_dispatch_js_arg_pos [OF d this] f show ?thesis by simp
qed


lemma to_guint8_small: "0 \<le> p \<Longrightarrow> nat p < 256 \<Longrightarrow> unat (to_guint8 p) = nat p"
  by (simp add: to_guint8_def unat_eq_nat_uint uint_word_of_int)

lemma c_argc_bound: "unat (w :: guint8) < 256"
  using unsigned_less [of w, where ?'a = nat] by simp

lemma array_step_null:
  assumes d: "marshal_dispatch env function c_argc argv i (slot_of function i) (fr, st)
                = Some (fr', st')"
    and ok: "\<not> failed fr'"
    and inout: "ai_direction (fi_args (info function) ! i) = GI_DIRECTION_INOUT"
    and role: "param_types function ! i = PARAM_ARRAY"
    and len: "ti_array_length (ai_type (fi_args (info function) ! i)) = int l"
    and other: "l \<noteq> i"
    and buffer: "gjs_value_to_explicit_array env (argv ! js_arg_pos fr)
                   (fi_args (info function) ! i) = Some (NullPointer, n)"
  shows "slot_of function l < c_argc"
    and "in_arg_cvalues fr' (slot_of function l) = NullPointer"
    and "out_arg_cvalues fr' (slot_of function l) = NullPointer"
    and "inout_original_arg_cvalues fr' (slot_of function l) = NullPointer"
proof -
  have kc: "slot_of function l \<noteq> slot_of function i" using other by (simp add: slot_of_def)
  from d have "slot_of function l < c_argc \<and> in_arg_cvalues fr' (slot_of function l) = NullPointer
    \<and> out_arg_cvalues fr' (slot_of function l) = NullPointer
    \<and> inout_original_arg_cvalues fr' (slot_of function l) = NullPointer"
  proof (cases rule: marshal_dispatch_cases)
    case out
    with inout show ?thesis by simp
  next
    case skipped
    with role show ?thesis by simp
  next
    case (callback fr0)
    with role show ?thesis by simp
  next
    case (normal fr0)
    with role show ?thesis by simp
  next
    case (array fr0)
    from array(5) ok have ok0: "\<not> failed fr0" by simp
    from array(4) have "slot_of function l < c_argc
      \<and> in_arg_cvalues fr0 (slot_of function l) = NullPointer
      \<and> out_arg_cvalues fr0 (slot_of function l) = NullPointer
      \<and> inout_original_arg_cvalues fr0 (slot_of function l) = NullPointer"
    proof (cases rule: marshal_array_arg_cases)
      case unconverted
      with ok0 show ?thesis by simp
    next
      case (no_length b m)
      with ok0 show ?thesis by simp
    next
      case (converted b m lv)
      from converted(2) buffer have b: "b = NullPointer" by simp
      from converted(5) len have "slot_of function l < c_argc"
        by (simp add: slot_of_def split: if_splits)
      moreover from converted(7) len inout b kc
      have "fr0 = inout_length_slots (slot_of function i) (slot_of function l)
                    (fr\<lparr>in_arg_cvalues :=
                          ((in_arg_cvalues fr)(slot_of function i := NullPointer))
                            (slot_of function l := lv)\<rparr>)"
        by (simp add: slot_of_def Let_def)
      with kc have "in_arg_cvalues fr0 (slot_of function l) = NullPointer
        \<and> out_arg_cvalues fr0 (slot_of function l) = NullPointer
        \<and> inout_original_arg_cvalues fr0 (slot_of function l) = NullPointer"
        by (simp add: inout_length_slots_def)
      ultimately show ?thesis by simp
    qed
    with after_in_arg_slots [OF kc, where fr = fr0] array(5) show ?thesis by simp
  qed
  then show "slot_of function l < c_argc"
    and "in_arg_cvalues fr' (slot_of function l) = NullPointer"
    and "out_arg_cvalues fr' (slot_of function l) = NullPointer"
    and "inout_original_arg_cvalues fr' (slot_of function l) = NullPointer" by simp_all
qed

lemma skipped_step_keeps_frame:
  assumes "marshal_dispatch env function c_argc argv j c (fr, st) = Some (fr', st')"
    and "ai_direction (fi_args (info function) ! j) \<noteq> GI_DIRECTION_OUT"
    and "param_types function ! j = PARAM_SKIPPED"
  shows "fr' = fr" and "st' = st"
  using assms(1)
  by (cases rule: marshal_dispatch_cases; use assms(2,3) in simp)+

lemma marshal_loop_split:
  assumes "marshal_loop env function c argv (xs @ j # ys) fs0 = Some fs"
    and "\<not> failed (fst fs)"
  shows "\<exists>fs1 fs2. marshal_loop env function c argv xs fs0 = Some fs1
           \<and> (xs \<noteq> [] \<longrightarrow> \<not> failed (fst fs1))
           \<and> marshal_arg env function c argv j fs1 = Some fs2
           \<and> \<not> failed (fst fs2)
           \<and> marshal_loop env function c argv ys fs2 = Some fs"
  using assms
proof (induction xs arbitrary: fs0)
  case Nil
  from Nil.prems(1) obtain fs2 where
    1: "marshal_arg env function c argv j fs0 = Some fs2"
    and 2: "if failed (fst fs2) then fs = fs2
            else marshal_loop env function c argv ys fs2 = Some fs"
    by (auto split: option.splits if_splits)
  from 2 Nil.prems(2) have "\<not> failed (fst fs2)" by (auto split: if_splits)
  with 1 2 show ?case by (cases fs2) simp
next
  case (Cons x xs)
  from Cons.prems(1) obtain fsx where
    1: "marshal_arg env function c argv x fs0 = Some fsx"
    and 2: "if failed (fst fsx) then fs = fsx
            else marshal_loop env function c argv (xs @ j # ys) fsx = Some fs"
    by (auto split: option.splits if_splits)
  from 2 Cons.prems(2) have nf: "\<not> failed (fst fsx)" by (auto split: if_splits)
  with 2 have "marshal_loop env function c argv (xs @ j # ys) fsx = Some fs" by simp
  from Cons.IH [OF this Cons.prems(2)] obtain fs1 fs2 where
    a: "marshal_loop env function c argv xs fsx = Some fs1"
    and b: "xs \<noteq> [] \<longrightarrow> \<not> failed (fst fs1)"
    and r: "marshal_arg env function c argv j fs1 = Some fs2" "\<not> failed (fst fs2)"
      "marshal_loop env function c argv ys fs2 = Some fs" by blast
  from a nf have "xs = [] \<longrightarrow> fs1 = fsx" by auto
  with b nf have "\<not> failed (fst fs1)" by auto
  with 1 nf a r show ?case by (cases fs2) auto
qed

lemma marshal_loop_js_arg_pos:
  assumes run: "marshal_loop env function c argv [0..<i] (fr0, st0) = Some (fr1, st1)"
    and ok: "i = 0 \<or> \<not> failed fr1"
  shows "js_arg_pos fr1 = js_arg_pos fr0 + js_position function i"
proof (cases "i = 0")
  case True
  with run show ?thesis by (simp add: js_position_def)
next
  case False
  with ok have nf: "\<not> failed fr1" by simp
  define I where "I = (\<lambda>dn (fs :: call_frame \<times> gjs_state).
      js_arg_pos (fst fs) = js_arg_pos fr0 + length (filter (consumes_argument function) dn))"
  have base: "I [] (fr0, st0)" by (simp add: I_def)
  have step: "if failed (fst fs2) then True else I (dn @ [j]) fs2"
    if all: "[0..<i] = dn @ j # rest" and inv: "I dn fs1"
      and m: "marshal_arg env function c argv j fs1 = Some fs2"
    for dn j rest fs1 fs2
  proof (cases "failed (fst fs2)")
    case True
    then show ?thesis by simp
  next
    case False
    obtain fra sta where fs1: "fs1 = (fra, sta)" by (cases fs1)
    obtain frb stb where fs2: "fs2 = (frb, stb)" by (cases fs2)
    from False fs2 have "\<not> failed frb" by simp
    from marshal_arg_js_arg_pos [OF m [unfolded fs1 fs2] this] inv fs1 fs2 False
    show ?thesis by (simp add: I_def)
  qed
  from marshal_loop_invariant [where I = I and F = "\<lambda>d f. True" and pre = "[]"
      and all = "[0..<i]", OF run _ base step] nf
  show ?thesis by (simp add: I_def js_position_def)
qed

text \<open>
  The later iterations of the marshaling loop leave a slot alone when its own parameter
  is skipped and no later parameter names it.
\<close>

lemma marshal_loop_keeps_named_slot:
  assumes run: "marshal_loop env function c argv [a..<n] (fr2, st2) = Some (fr, st)"
    and ok: "\<not> failed fr"
    and later: "\<forall>j. a \<le> j \<and> j < n \<longrightarrow> \<not> names_slot function j (slot_of function l)"
    and own: "a \<le> l \<and> l < n \<longrightarrow> param_types function ! l = PARAM_SKIPPED
                \<and> ai_direction (fi_args (info function) ! l) \<noteq> GI_DIRECTION_OUT"
  shows "same_slot fr2 fr (slot_of function l)"
proof -
  define I where "I = (\<lambda>(dn :: nat list) (fs :: call_frame \<times> gjs_state).
      same_slot fr2 (fst fs) (slot_of function l))"
  have base: "I [] (fr2, st2)" by (simp add: I_def)
  have step: "if failed (fst fs2) then True else I (dn @ [j]) fs2"
    if all: "[a..<n] = dn @ j # rest" and inv: "I dn fs1"
      and m: "marshal_arg env function c argv j fs1 = Some fs2"
    for dn j rest fs1 fs2
  proof (cases "failed (fst fs2)")
    case True
    then show ?thesis by simp
  next
    case False
    obtain fra sta where fs1: "fs1 = (fra, sta)" by (cases fs1)
    obtain frb stb where fs2: "fs2 = (frb, stb)" by (cases fs2)
    from all have "j \<in> set [a..<n]" by simp
    then have range: "a \<le> j \<and> j < n" by simp
    from m fs1 fs2 obtain frd where
      d: "marshal_dispatch env function c argv j (slot_of function j)
            (fra, sta) = Some (frd, stb)"
      and frd: "frb = count_processed frd"
      unfolding slot_of_def by (auto elim: marshal_arg_dispatch)
    have "same_slot fra frd (slot_of function l)"
    proof (cases "j = l")
      case True
      with range own have "param_types function ! j = PARAM_SKIPPED"
        "ai_direction (fi_args (info function) ! j) \<noteq> GI_DIRECTION_OUT" by simp_all
      with skipped_step_keeps_frame(1) [OF d] show ?thesis by simp
    next
      case False
      then have o: "slot_of function l \<noteq> slot_of function j" by (simp add: slot_of_def)
      from later range have "\<not> names_slot function j (slot_of function l)" by simp
      from marshal_dispatch_slots [OF d o this] show ?thesis .
    qed
    with inv fs1 fs2 frd show ?thesis by (simp add: I_def)
  qed
  from marshal_loop_invariant [where I = I and F = "\<lambda>d f. True" and pre = "[]"
      and all = "[a..<n]", OF run _ base step] ok
  show ?thesis by (simp add: I_def)
qed
section \<open>Blocks allocated for caller-allocates parameters\<close>

lemma marshal_dispatch_keeps_unskipped:
  assumes d: "marshal_dispatch env function c_argc argv j (slot_of function j) (fr, st)
                = Some (fr', st')"
    and lps: "length_parameters_skipped function"
    and kj: "k \<noteq> j" and k: "k < length (param_types function)"
    and ns: "param_types function ! k \<noteq> PARAM_SKIPPED"
    and c: "c_argc \<le> 256"
  shows "same_slot fr fr' (slot_of function k)"
proof -
  have own: "slot_of function k \<noteq> slot_of function j" using kj by (simp add: slot_of_def)
  have index: "p = k" if "slot_of function k = (if fi_is_method (info function) then p + 1 else p)"
    for p using that by (simp add: slot_of_def split: if_splits)
  from d show ?thesis
  proof (cases rule: marshal_dispatch_cases)
    case out
    from marshal_out_arg_slots [OF out(2) own] show ?thesis .
  next
    case skipped
    then show ?thesis by simp
  next
    case (callback fr0)
    have "same_slot fr fr0 (slot_of function k)"
      using ns by (intro marshal_callback_arg_slots [OF callback(4) own]) (auto simp: slot_of_def)
    with after_in_arg_slots [OF own, where fr = fr0] callback(5) show ?thesis by simp
  next
    case (array fr0)
    let ?len = "ti_array_length (ai_type (fi_args (info function) ! j))"
    have "\<not> (0 \<le> ?len \<and> nat ?len < length (fi_args (info function))
              \<and> slot_of function k < c_argc
              \<and> slot_of function k = (if fi_is_method (info function) then nat ?len + 1
                                        else nat ?len))"
    proof
      assume a: "0 \<le> ?len \<and> nat ?len < length (fi_args (info function))
              \<and> slot_of function k < c_argc
              \<and> slot_of function k = (if fi_is_method (info function) then nat ?len + 1
                                        else nat ?len)"
      then have nk: "nat ?len = k" by (auto dest: index)
      from a c have "k < 256" by (simp add: slot_of_def split: if_splits)
      with a nk have "unat (to_guint8 ?len) = k" using to_guint8_small [of ?len] by simp
      with lps array(2,3) kj ns show False
        by (auto simp: length_parameters_skipped_def Let_def)
    qed
    from marshal_array_arg_slots [OF array(4) own this]
      after_in_arg_slots [OF own, where fr = fr0] array(5)
    show ?thesis by simp
  next
    case (normal fr0)
    from marshal_normal_arg_slots [OF normal(4) own] after_in_arg_slots [OF own, where fr = fr0]
      normal(5)
    show ?thesis by simp
  qed
qed

lemma marshal_callback_arg_allocated:
  assumes "marshal_callback_arg pts m c_argc argv a c (fr, st) = Some (fr', st')"
  shows "slice_allocated st' = slice_allocated st"
  using assms
proof (cases rule: marshal_callback_arg_cases)
  case null
  then show ?thesis by simp
next
  case invalid
  then show ?thesis by simp
next
  case (built t st1)
  from new_fields(3) [OF built(3)] built(5) show ?thesis
    by (auto split: if_splits dest: ref_fields(4))
qed

lemma marshal_dispatch_allocated:
  assumes d: "marshal_dispatch env function c_argc argv j c (fr, st) = Some (fr', st')"
    and "\<not> ai_caller_allocates (fi_args (info function) ! j)"
  shows "slice_allocated st' = slice_allocated st"
  using d
proof (cases rule: marshal_dispatch_cases)
  case out
  with assms(2) show ?thesis by (auto simp: marshal_out_arg_def Let_def)
next
  case skipped
  then show ?thesis by simp
next
  case (callback fr0)
  from marshal_callback_arg_allocated [OF callback(4)] show ?thesis .
next
  case (array fr0)
  from array(4) show ?thesis by (cases rule: marshal_array_arg_cases) simp_all
next
  case (normal fr0)
  from normal(4) show ?thesis
    by (auto simp: marshal_normal_arg_def Let_def split: if_splits option.splits)
qed

lemma marshal_dispatch_allocates:
  assumes d: "marshal_dispatch env function c_argc argv j c (fr, st) = Some (fr', st')"
    and "ai_caller_allocates (fi_args (info function) ! j)"
    and "ai_direction (fi_args (info function) ! j) = GI_DIRECTION_OUT"
    and "\<not> failed fr'"
  shows "in_arg_cvalues fr' c = SlicePointer (slice_allocated st)"
    and "out_arg_cvalues fr' c = SlicePointer (slice_allocated st)"
    and "slice_allocated st' = Suc (slice_allocated st)"
  using d
  by (cases rule: marshal_dispatch_cases;
      use assms(2-4) in \<open>auto simp: marshal_out_arg_def Let_def split: if_splits\<close>)+

text \<open>
  After a marshaling loop that did not fail, the slots of the caller-allocates
  parameters hold, in parameter order, exactly the blocks allocated by the loop.
\<close>

lemma marshal_loop_blocks:
  assumes lps: "length_parameters_skipped function"
    and plen: "length (param_types function) = n"
    and out_only: "\<forall>j < n. ai_caller_allocates (fi_args (info function) ! j) \<longrightarrow>
        ai_direction (fi_args (info function) ! j) = GI_DIRECTION_OUT
        \<and> param_types function ! j \<noteq> PARAM_SKIPPED"
    and run: "marshal_loop env function c_argc argv [0..<n] (fr0, st0) = Some (fr, st)"
    and ok: "\<not> failed fr"
    and c: "c_argc \<le> 256"
  shows "slice_allocated st0 \<le> slice_allocated st"
    and "map (\<lambda>j. out_arg_cvalues fr (slot_of function j))
           (filter (\<lambda>j. ai_caller_allocates (fi_args (info function) ! j)) [0..<n])
         = map SlicePointer [slice_allocated st0..<slice_allocated st]"
    and "map (\<lambda>j. in_arg_cvalues fr (slot_of function j))
           (filter (\<lambda>j. ai_caller_allocates (fi_args (info function) ! j)) [0..<n])
         = map SlicePointer [slice_allocated st0..<slice_allocated st]"
proof -
  let ?ca = "\<lambda>j. ai_caller_allocates (fi_args (info function) ! j)"
  define I where "I = (\<lambda>dn (fs :: call_frame \<times> gjs_state).
      slice_allocated st0 \<le> slice_allocated (snd fs)
      \<and> map (\<lambda>j. out_arg_cvalues (fst fs) (slot_of function j)) (filter ?ca dn)
          = map SlicePointer [slice_allocated st0..<slice_allocated (snd fs)]
      \<and> map (\<lambda>j. in_arg_cvalues (fst fs) (slot_of function j)) (filter ?ca dn)
          = map SlicePointer [slice_allocated st0..<slice_allocated (snd fs)])"
  have base: "I [] (fr0, st0)" by (simp add: I_def)
  have step: "if failed (fst fs2) then True else I (dn @ [j]) fs2"
    if all: "[0..<n] = dn @ j # rest" and inv: "I dn fs1"
      and m: "marshal_arg env function c_argc argv j fs1 = Some fs2"
    for dn j rest fs1 fs2
  proof (cases "failed (fst fs2)")
    case True
    then show ?thesis by simp
  next
    case False
    obtain fr1 st1 where fs1: "fs1 = (fr1, st1)" by (cases fs1)
    obtain fr2 st2 where fs2: "fs2 = (fr2, st2)" by (cases fs2)
    from False fs2 have ok2: "\<not> failed fr2" by simp
    note sp = upt_split [OF all]
    from m fs1 fs2 obtain frd where
      d: "marshal_dispatch env function c_argc argv j (slot_of function j)
            (fr1, st1) = Some (frd, st2)"
      and frd: "fr2 = count_processed frd"
      unfolding slot_of_def by (auto elim: marshal_arg_dispatch)
    from ok2 frd have okd: "\<not> failed frd" by simp
    from inv fs1 have i1: "slice_allocated st0 \<le> slice_allocated st1"
      "map (\<lambda>j. out_arg_cvalues fr1 (slot_of function j)) (filter ?ca dn)
          = map SlicePointer [slice_allocated st0..<slice_allocated st1]"
      "map (\<lambda>j. in_arg_cvalues fr1 (slot_of function j)) (filter ?ca dn)
          = map SlicePointer [slice_allocated st0..<slice_allocated st1]"
      by (simp_all add: I_def)
    have keep: "same_slot fr1 frd (slot_of function k)" if "k \<in> set (filter ?ca dn)" for k
    proof -
      from that sp have kj: "k < j" and ca: "?ca k" by auto
      with out_only sp(2) plen have "k < length (param_types function)"
        "param_types function ! k \<noteq> PARAM_SKIPPED" by auto
      with marshal_dispatch_keeps_unskipped [OF d lps _ _ _ c, of k] kj show ?thesis by simp
    qed
    have same_out: "map (\<lambda>j. out_arg_cvalues fr2 (slot_of function j)) (filter ?ca dn)
        = map (\<lambda>j. out_arg_cvalues fr1 (slot_of function j)) (filter ?ca dn)"
      using keep frd by (intro map_cong) simp_all
    have same_in: "map (\<lambda>j. in_arg_cvalues fr2 (slot_of function j)) (filter ?ca dn)
        = map (\<lambda>j. in_arg_cvalues fr1 (slot_of function j)) (filter ?ca dn)"
      using keep frd by (intro map_cong) simp_all
    show ?thesis
    proof (cases "?ca j")
      case True
      with out_only sp(2) have "ai_direction (fi_args (info function) ! j) = GI_DIRECTION_OUT"
        by simp
      from marshal_dispatch_allocates [OF d True this okd] frd same_out same_in i1 True fs2 False
      show ?thesis by (simp add: I_def)
    next
      case nca: False
      from marshal_dispatch_allocated [OF d nca] same_out same_in i1 nca fs2 False
      show ?thesis by (simp add: I_def)
    qed
  qed
  from marshal_loop_invariant [where I = I and F = "\<lambda>d f. True" and pre = "[]"
      and all = "[0..<n]", OF run _ base step]
  have "I [0..<n] (fr, st)" using ok by auto
  then show "slice_allocated st0 \<le> slice_allocated st"
    and "map (\<lambda>j. out_arg_cvalues fr (slot_of function j)) (filter ?ca [0..<n])
         = map SlicePointer [slice_allocated st0..<slice_allocated st]"
    and "map (\<lambda>j. in_arg_cvalues fr (slot_of function j)) (filter ?ca [0..<n])
         = map SlicePointer [slice_allocated st0..<slice_allocated st]"
    by (simp_all add: I_def)
qed

lemma release_arg_frees:
  assumes r: "release_arg env function c_argc False j (rl, st) = Some (rl', st')"
    and out_only: "ai_caller_allocates (fi_args (info function) ! j) \<longrightarrow>
        ai_direction (fi_args (info function) ! j) = GI_DIRECTION_OUT
        \<and> param_types function ! j \<noteq> PARAM_SKIPPED"
  shows "slice_freed st' =
           (if ai_caller_allocates (fi_args (info function) ! j)
            then [out_arg_cvalues (rl_frame rl) (slot_of function j)] else []) @ slice_freed st"
    and "out_arg_cvalues (rl_frame rl') = out_arg_cvalues (rl_frame rl)"
proof -
  from r have "slice_freed st' =
           (if ai_caller_allocates (fi_args (info function) ! j)
            then [out_arg_cvalues (rl_frame rl) (slot_of function j)] else []) @ slice_freed st
    \<and> out_arg_cvalues (rl_frame rl') = out_arg_cvalues (rl_frame rl)"
  proof (cases rule: release_arg_cases)
    case input_only
    from release_in_arg_state(2,8) [OF input_only(3)] input_only(1) out_only
    show ?thesis by auto
  next
    case output_only
    from release_out_arg_state(5,9) [OF output_only(4)] show ?thesis
      by (simp add: slot_of_def)
  next
    case (both rl1 st1)
    from release_in_arg_state(2,8) [OF both(4)] release_out_arg_state(5,9) [OF both(5)]
      both(1) out_only
    show ?thesis by auto
  next
    case neither
    with out_only show ?thesis by auto
  qed
  then show "slice_freed st' =
           (if ai_caller_allocates (fi_args (info function) ! j)
            then [out_arg_cvalues (rl_frame rl) (slot_of function j)] else []) @ slice_freed st"
    and "out_arg_cvalues (rl_frame rl') = out_arg_cvalues (rl_frame rl)" by simp_all
qed

lemma release_loop_frees:
  assumes "release_loop env function c_argc False idxs (rl, st) = Some (rl', st')"
    and "\<forall>j \<in> set idxs. ai_caller_allocates (fi_args (info function) ! j) \<longrightarrow>
        ai_direction (fi_args (info function) ! j) = GI_DIRECTION_OUT
        \<and> param_types function ! j \<noteq> PARAM_SKIPPED"
  shows "slice_freed st' =
           rev (map (\<lambda>j. out_arg_cvalues (rl_frame rl) (slot_of function j))
                  (filter (\<lambda>j. ai_caller_allocates (fi_args (info function) ! j)) idxs))
           @ slice_freed st"
  using assms
proof (induction idxs arbitrary: rl st)
  case Nil
  then show ?case by simp
next
  case (Cons j idxs)
  from Cons.prems(1) obtain rl1 st1 where
    1: "release_arg env function c_argc False j (rl, st) = Some (rl1, st1)"
    and 2: "release_loop env function c_argc False idxs (rl1, st1) = Some (rl', st')"
    by (auto split: option.splits)
  from Cons.prems(2) have o: "ai_caller_allocates (fi_args (info function) ! j) \<longrightarrow>
        ai_direction (fi_args (info function) ! j) = GI_DIRECTION_OUT
        \<and> param_types function ! j \<noteq> PARAM_SKIPPED" by simp
  from Cons.prems(2) have os: "\<forall>j \<in> set idxs. ai_caller_allocates (fi_args (info function) ! j) \<longrightarrow>
        ai_direction (fi_args (info function) ! j) = GI_DIRECTION_OUT
        \<and> param_types function ! j \<noteq> PARAM_SKIPPED" by simp
  from Cons.IH [OF 2 os] release_arg_frees [OF 1 o] show ?case by simp
qed

lemma release_and_finish_skipping:
  assumes rf: "release_and_finish env function c_argc failed0 gerror nr vals (fr, st)
                 = Some (ok, rv, st')"
    and skip: "failed0 \<or> gerror \<noteq> None"
  shows "slice_freed st' = slice_freed st" and "\<not> ok"
proof -
  from rf obtain rl st1 where
    1: "release_loop env function c_argc (gerror \<noteq> None \<or> failed0)
       [0..<release_iterations (info function) fr]
       (\<lparr>rl_frame = fr, next_rval = nr, return_values = vals,
         postinvoke_release_failed = False\<rparr>, st) = Some (rl, st1)"
    and 2: "finish_call env (unat (js_out_argc function))
        (failed0 \<or> postinvoke_release_failed rl) gerror (return_values rl) st1 = (ok, rv, st')"
    by (rule release_and_finish_loop)
  from skip 1 have "release_loop env function c_argc True
       [0..<release_iterations (info function) fr]
       (\<lparr>rl_frame = fr, next_rval = nr, return_values = vals,
         postinvoke_release_failed = False\<rparr>, st) = Some (rl, st1)" by auto
  note l = release_loop_skipping [OF this]
  from finish_call_state [of env "unat (js_out_argc function)"
      "failed0 \<or> postinvoke_release_failed rl" gerror "return_values rl" st1]
  have "slice_freed st' = slice_freed st1"
    unfolding 2 by (cases gerror) (auto split: if_splits)
  with l show "slice_freed st' = slice_freed st" by simp
  from finish_call_ok [of env "unat (js_out_argc function)"
      "failed0 \<or> postinvoke_release_failed rl" gerror "return_values rl" st1] skip
  show "\<not> ok" unfolding 2 by auto
qed

lemma release_and_finish_frees:
  assumes rf: "release_and_finish env function c_argc False None nr vals (fr, st)
                 = Some (ok, rv, st')"
    and out_only: "\<forall>j < gi_argc_of function.
        ai_caller_allocates (fi_args (info function) ! j) \<longrightarrow>
        ai_direction (fi_args (info function) ! j) = GI_DIRECTION_OUT
        \<and> param_types function ! j \<noteq> PARAM_SKIPPED"
    and proc: "processed_c_args fr = (if fi_is_method (info function) then 1 else 0)
                 + gi_argc_of function"
  shows "slice_freed st' =
           rev (map (\<lambda>j. out_arg_cvalues fr (slot_of function j))
                  (filter (\<lambda>j. ai_caller_allocates (fi_args (info function) ! j))
                     [0..<gi_argc_of function]))
           @ slice_freed st"
proof -
  from rf obtain rl st1 where
    1: "release_loop env function c_argc (None \<noteq> (None :: string option) \<or> False)
       [0..<release_iterations (info function) fr]
       (\<lparr>rl_frame = fr, next_rval = nr, return_values = vals,
         postinvoke_release_failed = False\<rparr>, st) = Some (rl, st1)"
    and 2: "finish_call env (unat (js_out_argc function))
        (False \<or> postinvoke_release_failed rl) None (return_values rl) st1 = (ok, rv, st')"
    by (rule release_and_finish_loop)
  from 1 release_iterations_all [OF proc] have
    l: "release_loop env function c_argc False [0..<gi_argc_of function]
       (\<lparr>rl_frame = fr, next_rval = nr, return_values = vals,
         postinvoke_release_failed = False\<rparr>, st) = Some (rl, st1)" by simp
  from out_only have "\<forall>j \<in> set [0..<gi_argc_of function].
        ai_caller_allocates (fi_args (info function) ! j) \<longrightarrow>
        ai_direction (fi_args (info function) ! j) = GI_DIRECTION_OUT
        \<and> param_types function ! j \<noteq> PARAM_SKIPPED" by simp
  note f = release_loop_frees [OF l this]
  from finish_call_state [of env "unat (js_out_argc function)"
      "False \<or> postinvoke_release_failed rl" None "return_values rl" st1]
  have "st' = st1" unfolding 2 by simp
  with f show ?thesis by simp
qed

lemma map_eq_member: "map f xs = map g ys \<Longrightarrow> x \<in> set xs \<Longrightarrow> f x \<in> g ` set ys"
  by (metis image_eqI list.set_map)


lemma native_call_keeps_blocks:
  assumes ins: "map (\<lambda>j. in_arg_cvalues fr (slot_of function j))
           (filter (\<lambda>j. ai_caller_allocates (fi_args (info function) ! j))
              [0..<gi_argc_of function])
         = map SlicePointer bs"
    and out2: "out_arg_cvalues fr2 =
         native_out_values c_argc (in_arg_cvalues (native_frame function fr)) eff
           (out_arg_cvalues fr)"
  shows "map (\<lambda>j. out_arg_cvalues fr2 (slot_of function j))
           (filter (\<lambda>j. ai_caller_allocates (fi_args (info function) ! j))
              [0..<gi_argc_of function])
         = map (\<lambda>j. out_arg_cvalues fr (slot_of function j))
           (filter (\<lambda>j. ai_caller_allocates (fi_args (info function) ! j))
              [0..<gi_argc_of function])"
proof (rule map_cong [OF refl])
  fix j
  assume j: "j \<in> set (filter (\<lambda>j. ai_caller_allocates (fi_args (info function) ! j))
              [0..<gi_argc_of function])"
  from map_eq_member [OF ins j] obtain b where
    b: "in_arg_cvalues fr (slot_of function j) = SlicePointer b" by auto
  from j have "j < gi_argc_of function" by simp
  then have "in_arg_cvalues (native_frame function fr) (slot_of function j)
               = in_arg_cvalues fr (slot_of function j)"
    by (simp add: native_frame_def slot_of_def)
  with b out2 show "out_arg_cvalues fr2 (slot_of function j)
                      = out_arg_cvalues fr (slot_of function j)"
    by (simp add: native_out_values_def)
qed

lemma caller_allocated_blocks:
  assumes built: "init_cached_function_data prep finfo = Inr function"
    and out_only: "\<forall>j < gi_argc_of function. ai_caller_allocates (fi_args finfo ! j) \<longrightarrow>
        ai_direction (fi_args finfo ! j) = GI_DIRECTION_OUT
        \<and> param_types function ! j \<noteq> PARAM_SKIPPED"
    and run: "gjs_invoke_c_function env function obj js_argv st = Some (ok, rv, st')"
  shows "(slice_freed st' = slice_freed st
          \<or> slice_freed st' =
              rev (map SlicePointer [slice_allocated st..<slice_allocated st']) @ slice_freed st)
    \<and> (ok \<longrightarrow> slice_freed st' =
              rev (map SlicePointer [slice_allocated st..<slice_allocated st']) @ slice_freed st)
    \<and> (native_calls st' = native_calls st
        \<or> (fi_throws finfo
            \<and> (\<forall>args. ne_error (native_address (invoker function) args) \<noteq> None))
        \<longrightarrow> slice_freed st' = slice_freed st)"
proof -
  note fi = init_cached_function_data_info [OF built]
  note lps = init_cached_function_data_lps [OF built]
  have plen: "length (param_types function) = gi_argc_of function"
    using init_cached_function_data_length [OF built] fi by simp
  from out_only fi have oo: "\<forall>j < gi_argc_of function.
        ai_caller_allocates (fi_args (info function) ! j) \<longrightarrow>
        ai_direction (fi_args (info function) ! j) = GI_DIRECTION_OUT
        \<and> param_types function ! j \<noteq> PARAM_SKIPPED" by simp
  have c256: "c_argc_of function \<le> 256"
    using c_argc_bound [of "of_nat (cif_nargs (invoker function))"] by simp
  from run obtain st0 where
    drain: "drain_completed_trampolines st = Some st0"
    and after: "invoke_after_drain env function obj js_argv st0 = Some (ok, rv, st')"
    by (auto simp: gjs_invoke_c_function_def split: option.splits)
  note d = drain_fields [OF drain]
  from after show ?thesis
  proof (cases rule: invoke_after_drain_cases)
    case arity
    with d have "slice_freed st' = slice_freed st" and "\<not> ok" by simp_all
    then show ?thesis by blast
  next
    case (receiver fr1)
    from release_and_finish_skipping [OF receiver(3)] d
    have "slice_freed st' = slice_freed st" and "\<not> ok" by simp_all
    then show ?thesis by blast
  next
    case (conversion fr1 fr2 st2)
    have "\<not> failed (fr1\<lparr>processed_c_args := (if fi_is_method (info function) then 1 else 0)\<rparr>)"
      using marshal_receiver_locals(1) [OF conversion(2)] by (simp add: initial_frame_def)
    from marshal_loop_state [OF conversion(3) this] release_and_finish_skipping [OF conversion(5)] d
    have "slice_freed st' = slice_freed st" and "\<not> ok"
      by (simp_all add: untouched_by_marshaling_def)
    then show ?thesis by blast
  next
    case (called fr1 fr2 st2)
    have nf: "\<not> failed (fr1\<lparr>processed_c_args := (if fi_is_method (info function) then 1 else 0)\<rparr>)"
      using marshal_receiver_locals(1) [OF called(2)] by (simp add: initial_frame_def)
    from marshal_loop_state [OF called(3) nf] called(4) have
      m1: "slice_freed st2 = slice_freed st0" and m0: "native_calls st2 = native_calls st0"
      and m3: "processed_c_args fr2 =
                 (if fi_is_method (info function) then 1 else 0) + gi_argc_of function"
      by (simp_all add: untouched_by_marshaling_def)
    note b = marshal_loop_blocks [OF lps plen oo called(3) called(4) c256]
    from called(5) show ?thesis
    proof (cases rule: call_native_cases)
      case (returning fr3 st3 failed1 nr vals st4)
      note n = run_native_actions_fields [OF returning(1)]
      note p = process_return_value_state [OF returning(8)]
      note r = release_and_finish_state [OF returning(9)]
      have calls: "native_calls st' \<noteq> native_calls st" using n p r m0 d by simp
      have errs: "\<not> (fi_throws finfo
            \<and> (\<forall>args. ne_error (native_address (invoker function) args) \<noteq> None))"
        using returning(7) fi by auto
      have alloc: "slice_allocated st' = slice_allocated st2" using n p r by simp
      show ?thesis
      proof (cases failed1)
        case True
        from release_and_finish_skipping [OF returning(9)] True n p m1 d
        have "slice_freed st' = slice_freed st" and "\<not> ok" by simp_all
        then show ?thesis by blast
      next
        case False
        with returning(9) have rf: "release_and_finish env function (c_argc_of function) False None
            nr vals (fr3, st4) = Some (ok, rv, st')" by simp
        from m3 returning(2) have proc: "processed_c_args fr3 =
            (if fi_is_method (info function) then 1 else 0) + gi_argc_of function" by simp
        from release_and_finish_frees [OF rf oo proc]
          native_call_keeps_blocks [OF b(3) returning(5)] b(2) n p m1 d alloc
        have "slice_freed st' =
              rev (map SlicePointer [slice_allocated st..<slice_allocated st']) @ slice_freed st"
          by simp
        with calls errs show ?thesis by blast
      qed
    next
      case (plain fr3 st3 gerror)
      note n = run_native_actions_fields [OF plain(1)]
      note r = release_and_finish_state [OF plain(8)]
      have calls: "native_calls st' \<noteq> native_calls st" using n r m0 d by simp
      have alloc: "slice_allocated st' = slice_allocated st2" using n r by simp
      show ?thesis
      proof (cases gerror)
        case (Some message)
        from release_and_finish_skipping [OF plain(8)] Some n m1 d
        have "slice_freed st' = slice_freed st" and "\<not> ok" by simp_all
        then show ?thesis by blast
      next
        case None
        with plain(6) fi have errs: "\<not> (fi_throws finfo
            \<and> (\<forall>args. ne_error (native_address (invoker function) args) \<noteq> None))"
          by (cases "fi_throws finfo") (auto intro: sym)
        from None plain(8) have rf: "release_and_finish env function (c_argc_of function) False None
            0 [] (fr3, st3) = Some (ok, rv, st')" by simp
        from m3 plain(2) have proc: "processed_c_args fr3 =
            (if fi_is_method (info function) then 1 else 0) + gi_argc_of function" by simp
        from release_and_finish_frees [OF rf oo proc]
          native_call_keeps_blocks [OF b(3) plain(5)] b(2) n m1 d alloc
        have "slice_freed st' =
              rev (map SlicePointer [slice_allocated st..<slice_allocated st']) @ slice_freed st"
          by simp
        with calls errs show ?thesis by blast
      qed
    qed
  qed
qed

lemma release_pass_runs:
  assumes run: "gjs_invoke_c_function env function obj js_argv st = Some (ok, rv, st')"
    and enough: "unat (expected_js_argc function) \<le> length js_argv"
  shows "\<exists>failed0 gerror nr vals fs.
           release_and_finish env function (c_argc_of function) failed0 gerror nr vals fs
             = Some (ok, rv, st')"
proof -
  from run obtain st0 where
    after: "invoke_after_drain env function obj js_argv st0 = Some (ok, rv, st')"
    by (auto simp: gjs_invoke_c_function_def split: option.splits)
  from after show ?thesis
  proof (cases rule: invoke_after_drain_cases)
    case arity
    with enough show ?thesis by simp
  next
    case (receiver fr1)
    from receiver(3) show ?thesis by blast
  next
    case (conversion fr1 fr2 st2)
    from conversion(5) show ?thesis by blast
  next
    case (called fr1 fr2 st2)
    from called(5) show ?thesis
    proof (cases rule: call_native_cases)
      case (returning fr3 st3 failed1 nr vals st4)
      from returning(9) show ?thesis by blast
    next
      case (plain fr3 st3 gerror)
      from plain(8) show ?thesis by blast
    qed
  qed
qed
section \<open>Trampolines across the phases of a call\<close>
















lemma callback_value_count_processed [simp]:
  "callback_value function (count_processed fr) k = callback_value function fr k"
  by (simp add: callback_value_def)




























lemma call_scoped_held_native_calls [simp]:
  "call_scoped_held function fr js (st\<lparr>native_calls := x\<rparr>) t
     = call_scoped_held function fr js st t"
  by (simp add: call_scoped_held_def)

section \<open>Concrete runs\<close>

text \<open>
  The definitions a concrete invocation unfolds to, and the descriptors the classifier
  builds for the functions used as inputs.
\<close>

lemmas invoke_defs =
  gjs_invoke_c_function_uncached_def gjs_invoke_c_function_def invoke_after_drain_def
  drain_completed_trampolines_def marshal_receiver_def marshal_arg_def marshal_dispatch_def
  count_processed_def marshal_out_arg_def
  marshal_callback_arg_def callback_slots_def companion_slot_def marshal_array_arg_def
  INT_TO_JSVAL_def
  inout_length_slots_def marshal_normal_arg_def after_in_arg_def call_native_def
  native_frame_def native_args_def initial_frame_def
  native_out_values_def process_return_value_def convert_out_value_def
  release_and_finish_def release_iterations_def finish_call_def
  release_arg_def release_in_arg_def release_out_arg_def
  is_length_tag_def gjs_throw_def gjs_callback_trampoline_new_def
  gjs_callback_trampoline_ref_def gjs_callback_trampoline_unref_def
  gjs_destroy_notify_callback_def gjs_callback_closure_def closure_steps_def
  initial_state_def scenario_env_def prepared_invoker_def is_js_function_def

lemma upt_0_1: "[0..<1] = [0]" by (simp add: upt_rec)
lemma upt_0_3: "[0..<3] = [0, 1, 2]" by (simp add: upt_rec)
lemma replicate_3: "replicate 3 x = [x, x, x]" by (simp add: numeral_3_eq_3)

lemma lookup_descriptor:
  "init_cached_function_data (prepared_invoker writes_items) lookup_info = Inr lookup_function"
  by (simp add: classifier_defs fixture_defs lookup_info_def prepared_invoker_def
      lookup_function_def upt_0_3 replicate_3 Let_def)

lemma fill_descriptor:
  "init_cached_function_data (prepared_invoker writes_ten) fill_info = Inr fill_function"
  by (simp add: classifier_defs fixture_defs fill_info_def prepared_invoker_def
      fill_function_def upt_0_2 replicate_2 Let_def)


lemma each_descriptor:
  "init_cached_function_data (prepared_invoker fn) each_info = Inr (each_function fn)"
  by (simp add: classifier_defs fixture_defs each_info_def prepared_invoker_def
      each_function_def upt_0_1 Let_def)

lemma parse_descriptor:
  "init_cached_function_data (prepared_invoker reports_boom) parse_info = Inr parse_function"
  by (simp add: classifier_defs fixture_defs parse_info_def prepared_invoker_def
      parse_function_def upt_0_1 Let_def)




lemma resize_descriptor:
  "init_cached_function_data (prepared_invoker writes_ten) resize_info = Inr resize_function"
  by (simp add: classifier_defs fixture_defs resize_info_def prepared_invoker_def
      resize_function_def upt_0_2 replicate_2 Let_def)

lemma resize_marshaled:
  "\<exists>fr st. marshal_loop scenario_env resize_function (c_argc_of resize_function) [JSVAL_NULL]
             [0..<gi_argc_of resize_function] (initial_frame, initial_state) = Some (fr, st)
           \<and> \<not> failed fr"
  by (simp add: invoke_defs resize_function_def resize_info_def fixture_defs upt_0_2 Let_def)

lemma fill_run:
  "\<exists>st. gjs_invoke_c_function scenario_env fill_function JSVAL_NULL [JSInt 5] initial_state
           = Some (True, JSObject 0, st)
        \<and> slice_allocated st = 1 \<and> slice_freed st = [SlicePointer 0]"
  by (simp add: invoke_defs fill_function_def fill_info_def fixture_defs writes_ten_def
      upt_0_1 upt_0_2 Let_def)


lemma merge_descriptor:
  "init_cached_function_data (prepared_invoker writes_ten) merge_info = Inr merge_function"
  by (simp add: classifier_defs fixture_defs merge_info_def prepared_invoker_def
      merge_function_def upt_0_3 replicate_3 Let_def)
section \<open>The native error channel\<close>




section \<open>The arity check\<close>

text \<open>
  With fewer dynamic arguments than \<^verbatim>\<open>expected_js_argc\<close> the call throws the arity
  error right after the drain and returns failure; nothing is marshaled and the native
  function is not called.
\<close>

lemma too_few_arguments:
  assumes "length js_argv < unat (expected_js_argc function)"
    and "drain_completed_trampolines st = Some st1"
  shows "gjs_invoke_c_function env function obj js_argv st =
           Some (False, JSVAL_VOID,
                 gjs_throw (ArityError (unat (expected_js_argc function)) (length js_argv)) st1)"
    and "native_calls (gjs_throw (ArityError (unat (expected_js_argc function))
                         (length js_argv)) st1) = native_calls st"
  using assms drain_fields(7) [OF assms(2)]
  by (simp_all add: gjs_invoke_c_function_def invoke_after_drain_def Let_def)

text \<open>
  Claim C5 (a call with exactly \<^verbatim>\<open>expected_js_argc\<close> arguments proceeds, and arguments
  beyond that number are ignored as if absent). For \<^verbatim>\<open>lookup (key, n_items, items)\<close> the
  classifier computes \<^verbatim>\<open>expected_js_argc = 0\<close>, one less than the arguments marshaling
  consumes. A call without arguments passes the arity check and then fails the
  assertion \<^verbatim>\<open>js_arg_pos < js_argc\<close> of the Normal parameter \<^verbatim>\<open>key\<close> (the process
  aborts); a call with one argument, which is beyond the expected number, converts it
  for \<^verbatim>\<open>key\<close>, calls the native function and succeeds.
\<close>

theorem lookup_consumes_an_unexpected_argument:
  "expected_js_argc lookup_function = 0
   \<and> gjs_invoke_c_function scenario_env lookup_function JSVAL_NULL [] initial_state = None
   \<and> map_option fst
       (gjs_invoke_c_function scenario_env lookup_function JSVAL_NULL [JSInt 5] initial_state)
       = Some True
   \<and> map_option (fst \<circ> snd)
       (gjs_invoke_c_function scenario_env lookup_function JSVAL_NULL [JSInt 5] initial_state)
       = Some (JSObject 7)
   \<and> map_option (native_calls \<circ> snd \<circ> snd)
       (gjs_invoke_c_function scenario_env lookup_function JSVAL_NULL [JSInt 5] initial_state)
       = Some 1
   \<and> map_option (in_releases \<circ> snd \<circ> snd)
       (gjs_invoke_c_function scenario_env lookup_function JSVAL_NULL [JSInt 5] initial_state)
       = Some [(0, IntValue 5)]"
  by (simp add: invoke_defs lookup_function_def lookup_info_def fixture_defs writes_items_def
      upt_0_1 upt_0_3 Let_def)

section \<open>The pending-release list\<close>



section \<open>The length of an inout array given as null\<close>

text \<open>
  Claim C8. Take a descriptor the classifier built and an inout parameter \<open>i\<close> with the
  role Array whose length parameter \<open>l\<close> is another parameter, and a marshaling loop that
  did not fail. If the dynamic argument at the array's position is the null value and
  converts to a \<^verbatim>\<open>NULL\<close> buffer, then right after the iteration of the array the length
  parameter's input slot, output slot and snapshot are all the null pointer; and unless
  a later parameter names that slot as its own length or companion, they are still null
  when the loop ends, so the native function receives the null pointer in the position
  of the length.
\<close>

theorem inout_null_array_gives_null_length:
  assumes built: "init_cached_function_data prep finfo = Inr function"
    and i: "i < gi_argc_of function"
    and inout: "ai_direction (fi_args finfo ! i) = GI_DIRECTION_INOUT"
    and role: "param_types function ! i = PARAM_ARRAY"
    and len: "ti_array_length (ai_type (fi_args finfo ! i)) = int l"
    and other: "l \<noteq> i"
    and null: "js_argv ! js_position function i = JSVAL_NULL"
    and buffer: "gjs_value_to_explicit_array env JSVAL_NULL (fi_args finfo ! i)
                   = Some (NullPointer, n)"
    and run: "marshal_loop env function (c_argc_of function) js_argv [0..<gi_argc_of function]
                (fr0, st0) = Some (fr, st)"
    and start: "js_arg_pos fr0 = 0"
    and ok: "\<not> failed fr"
  shows "(\<exists>fr1 st1 fr2 st2.
            marshal_loop env function (c_argc_of function) js_argv [0..<i] (fr0, st0)
              = Some (fr1, st1)
          \<and> marshal_arg env function (c_argc_of function) js_argv i (fr1, st1)
              = Some (fr2, st2)
          \<and> in_arg_cvalues fr2 (slot_of function l) = NullPointer
          \<and> out_arg_cvalues fr2 (slot_of function l) = NullPointer
          \<and> inout_original_arg_cvalues fr2 (slot_of function l) = NullPointer)
    \<and> ((\<forall>j. i < j \<and> j < gi_argc_of function
              \<longrightarrow> \<not> names_slot function j (slot_of function l))
        \<longrightarrow> in_arg_cvalues fr (slot_of function l) = NullPointer
          \<and> out_arg_cvalues fr (slot_of function l) = NullPointer
          \<and> inout_original_arg_cvalues fr (slot_of function l) = NullPointer
          \<and> native_args function (c_argc_of function) fr ! slot_of function l = NullPointer)"
proof -
  note fi = init_cached_function_data_info [OF built]
  note lps = init_cached_function_data_lps [OF built]
  have plen: "length (param_types function) = gi_argc_of function"
    using init_cached_function_data_length [OF built] fi by simp
  have split: "[0..<gi_argc_of function] = [0..<i] @ i # [Suc i..<gi_argc_of function]"
    using i upt_add_eq_append [of 0 i "gi_argc_of function - i"]
    by (simp add: upt_conv_Cons)
  from marshal_loop_split [OF run [unfolded split]] ok obtain fs1 fs2 where
    p: "marshal_loop env function (c_argc_of function) js_argv [0..<i] (fr0, st0) = Some fs1"
    and pf: "[0..<i] \<noteq> [] \<longrightarrow> \<not> failed (fst fs1)"
    and s: "marshal_arg env function (c_argc_of function) js_argv i fs1 = Some fs2"
    and sf: "\<not> failed (fst fs2)"
    and t: "marshal_loop env function (c_argc_of function) js_argv
              [Suc i..<gi_argc_of function] fs2 = Some (fr, st)"
    by auto
  obtain fr1 st1 where fs1: "fs1 = (fr1, st1)" by (cases fs1)
  obtain fr2 st2 where fs2: "fs2 = (fr2, st2)" by (cases fs2)
  from pf fs1 have "i = 0 \<or> \<not> failed fr1" by auto
  from marshal_loop_js_arg_pos [OF p [unfolded fs1] this] start
  have js: "js_arg_pos fr1 = js_position function i" by simp
  from s fs1 fs2 obtain frd where
    d: "marshal_dispatch env function (c_argc_of function) js_argv i (slot_of function i)
          (fr1, st1) = Some (frd, st2)"
    and frd: "fr2 = count_processed frd"
    unfolding slot_of_def by (auto elim: marshal_arg_dispatch)
  from sf fs2 frd have okd: "\<not> failed frd" by simp
  from js null buffer fi have b: "gjs_value_to_explicit_array env (js_argv ! js_arg_pos fr1)
      (fi_args (info function) ! i) = Some (NullPointer, n)" by simp
  from array_step_null [OF d okd _ role _ other b] inout len fi frd
  have after: "slot_of function l < c_argc_of function"
    "in_arg_cvalues fr2 (slot_of function l) = NullPointer"
    "out_arg_cvalues fr2 (slot_of function l) = NullPointer"
    "inout_original_arg_cvalues fr2 (slot_of function l) = NullPointer" by simp_all
  from after(1) c_argc_bound [of "of_nat (cif_nargs (invoker function))"]
  have "l < 256" by (simp add: slot_of_def split: if_splits)
  then have l': "unat (to_guint8 (int l)) = l" using to_guint8_small [of "int l"] by simp
  from lps i plen role fi len l' other inout
  have skipped: "param_types function ! l = PARAM_SKIPPED"
    and dir: "ai_direction (fi_args (info function) ! l) = GI_DIRECTION_INOUT"
    and lrange: "l < gi_argc_of function"
    by (auto simp: length_parameters_skipped_def Let_def)
  have first: "\<exists>fr1 st1 fr2 st2.
            marshal_loop env function (c_argc_of function) js_argv [0..<i] (fr0, st0)
              = Some (fr1, st1)
          \<and> marshal_arg env function (c_argc_of function) js_argv i (fr1, st1)
              = Some (fr2, st2)
          \<and> in_arg_cvalues fr2 (slot_of function l) = NullPointer
          \<and> out_arg_cvalues fr2 (slot_of function l) = NullPointer
          \<and> inout_original_arg_cvalues fr2 (slot_of function l) = NullPointer"
    using p s after(2,3,4) fs1 fs2 by blast
  have second: "in_arg_cvalues fr (slot_of function l) = NullPointer
          \<and> out_arg_cvalues fr (slot_of function l) = NullPointer
          \<and> inout_original_arg_cvalues fr (slot_of function l) = NullPointer
          \<and> native_args function (c_argc_of function) fr ! slot_of function l = NullPointer"
    if later: "\<forall>j. i < j \<and> j < gi_argc_of function
              \<longrightarrow> \<not> names_slot function j (slot_of function l)"
  proof -
    from later have l2: "\<forall>j. Suc i \<le> j \<and> j < gi_argc_of function
              \<longrightarrow> \<not> names_slot function j (slot_of function l)" by simp
    from skipped dir have own: "Suc i \<le> l \<and> l < gi_argc_of function
        \<longrightarrow> param_types function ! l = PARAM_SKIPPED
           \<and> ai_direction (fi_args (info function) ! l) \<noteq> GI_DIRECTION_OUT" by simp
    from marshal_loop_keeps_named_slot [OF t [unfolded fs2] ok l2 own] after(2,3,4)
    have res: "in_arg_cvalues fr (slot_of function l) = NullPointer"
      "out_arg_cvalues fr (slot_of function l) = NullPointer"
      "inout_original_arg_cvalues fr (slot_of function l) = NullPointer" by simp_all
    from lrange have "in_arg_cvalues (native_frame function fr) (slot_of function l)
               = in_arg_cvalues fr (slot_of function l)"
      by (simp add: native_frame_def slot_of_def)
    with res after(1) show ?thesis by (simp add: native_args_def)
  qed
  from first second show ?thesis by blast
qed

text \<open>
  \<^verbatim>\<open>resize\<close> called with the null value: the native function receives the null pointer
  in the position of \<^verbatim>\<open>n_items\<close>.
\<close>

theorem inout_null_array_gives_null_length_witness:
  "\<exists>fr st. marshal_loop scenario_env resize_function (c_argc_of resize_function) [JSVAL_NULL]
             [0..<gi_argc_of resize_function] (initial_frame, initial_state) = Some (fr, st)
     \<and> \<not> failed fr
     \<and> param_types resize_function ! 1 = PARAM_ARRAY
     \<and> ai_direction (fi_args resize_info ! 1) = GI_DIRECTION_INOUT
     \<and> in_arg_cvalues fr 0 = NullPointer \<and> out_arg_cvalues fr 0 = NullPointer
     \<and> inout_original_arg_cvalues fr 0 = NullPointer
     \<and> native_args resize_function (c_argc_of resize_function) fr ! 0 = NullPointer"
proof -
  from resize_marshaled obtain fr st where
    run: "marshal_loop scenario_env resize_function (c_argc_of resize_function) [JSVAL_NULL]
             [0..<gi_argc_of resize_function] (initial_frame, initial_state) = Some (fr, st)"
    and ok: "\<not> failed fr" by blast
  have facts: "(1::nat) < gi_argc_of resize_function"
    "ai_direction (fi_args resize_info ! 1) = GI_DIRECTION_INOUT"
    "param_types resize_function ! 1 = PARAM_ARRAY"
    "ti_array_length (ai_type (fi_args resize_info ! 1)) = int 0"
    "(0::nat) \<noteq> 1"
    "[JSVAL_NULL] ! js_position resize_function 1 = JSVAL_NULL"
    "gjs_value_to_explicit_array scenario_env JSVAL_NULL (fi_args resize_info ! 1)
       = Some (NullPointer, 0)"
    "js_arg_pos initial_frame = 0"
    by (simp_all add: resize_function_def resize_info_def fixture_defs
        slot_of_def js_position_def consumes_argument_def scenario_env_def initial_frame_def
        upt_0_1 Let_def)
  have later: "\<forall>j. 1 < j \<and> j < gi_argc_of resize_function
      \<longrightarrow> \<not> names_slot resize_function j (slot_of resize_function 0)"
    by (auto simp: resize_function_def resize_info_def fixture_defs)
  from inout_null_array_gives_null_length [OF resize_descriptor facts(1-7) run facts(8) ok]
    later run ok facts(2,3)
  show ?thesis by (auto simp: slot_of_def resize_function_def resize_info_def fixture_defs)
qed

text \<open>
  The claim as stated fails when a later parameter names the same length parameter.
  \<^verbatim>\<open>merge\<close> is called with the null value for \<^verbatim>\<open>first\<close> and three items for
  \<^verbatim>\<open>second\<close>: the iteration of \<^verbatim>\<open>second\<close> rewrites the slots of \<^verbatim>\<open>n_items\<close> (lines
  575--593), and the native function receives in the position of the length a pointer
  to the output slot, which holds 3.
\<close>

theorem shared_length_is_not_null:
  "init_cached_function_data (prepared_invoker writes_ten) merge_info = Inr merge_function
   \<and> param_types merge_function ! 0 = PARAM_ARRAY
   \<and> ai_direction (fi_args merge_info ! 0) = GI_DIRECTION_INOUT
   \<and> ti_array_length (ai_type (fi_args merge_info ! 0)) = 2
   \<and> [JSVAL_NULL, JSArrayObject [JSInt 7, JSInt 8, JSInt 9]] ! js_position merge_function 0
       = JSVAL_NULL
   \<and> map_option (failed \<circ> fst)
       (marshal_loop scenario_env merge_function (c_argc_of merge_function)
          [JSVAL_NULL, JSArrayObject [JSInt 7, JSInt 8, JSInt 9]]
          [0..<gi_argc_of merge_function] (initial_frame, initial_state)) = Some False
   \<and> map_option (native_argument merge_function 2)
       (marshal_loop scenario_env merge_function (c_argc_of merge_function)
          [JSVAL_NULL, JSArrayObject [JSInt 7, JSInt 8, JSInt 9]]
          [0..<gi_argc_of merge_function] (initial_frame, initial_state))
       = Some (OutSlotPointer 2)
   \<and> map_option (output_slot 2)
       (marshal_loop scenario_env merge_function (c_argc_of merge_function)
          [JSVAL_NULL, JSArrayObject [JSInt 7, JSInt 8, JSInt 9]]
          [0..<gi_argc_of merge_function] (initial_frame, initial_state))
       = Some (IntValue 3)"
  by (simp add: merge_descriptor)
     (simp add: invoke_defs merge_function_def merge_info_def fixture_defs native_argument_def
        output_slot_def js_position_def consumes_argument_def upt_0_3 Let_def)
section \<open>Caller-allocated blocks and the release loop\<close>

text \<open>
  Claim C1 (on every path the block allocated for a caller-allocates output is freed
  exactly once). \<^verbatim>\<open>fill (rect, x)\<close> is called with a value that does not convert to
  an integer for \<^verbatim>\<open>x\<close>. Marshaling has allocated the block for \<^verbatim>\<open>rect\<close> (lines
  480--483) when the conversion fails; the release loop then runs with \<^verbatim>\<open>failed\<close> set
  and leaves the output half of every parameter out (lines 796--801), so the
  \<^verbatim>\<open>g_slice_free1\<close> of line 871 is not reached: the call returns failure with one
  block allocated and none freed. The same call with an integer succeeds and frees the
  block.
\<close>

theorem block_leaked_on_conversion_failure:
  "ai_caller_allocates (fi_args fill_info ! 0)
   \<and> ai_direction (fi_args fill_info ! 0) = GI_DIRECTION_OUT
   \<and> map_option fst
       (gjs_invoke_c_function scenario_env fill_function JSVAL_NULL [JSObject 1] initial_state)
       = Some False
   \<and> map_option (slice_allocated \<circ> snd \<circ> snd)
       (gjs_invoke_c_function scenario_env fill_function JSVAL_NULL [JSObject 1] initial_state)
       = Some 1
   \<and> map_option (slice_freed \<circ> snd \<circ> snd)
       (gjs_invoke_c_function scenario_env fill_function JSVAL_NULL [JSObject 1] initial_state)
       = Some []
   \<and> map_option fst
       (gjs_invoke_c_function scenario_env fill_function JSVAL_NULL [JSInt 5] initial_state)
       = Some True
   \<and> map_option (slice_allocated \<circ> snd \<circ> snd)
       (gjs_invoke_c_function scenario_env fill_function JSVAL_NULL [JSInt 5] initial_state)
       = Some 1
   \<and> map_option (slice_freed \<circ> snd \<circ> snd)
       (gjs_invoke_c_function scenario_env fill_function JSVAL_NULL [JSInt 5] initial_state)
       = Some [SlicePointer 0]"
  by (simp add: invoke_defs fill_function_def fill_info_def fixture_defs writes_ten_def
      upt_0_1 upt_0_2 Let_def)
section \<open>The lifetime of trampolines\<close>




end
